(* ===== verification/Prelude.thy ===== *)
theory Prelude
  imports Complex_Main "HOL-Library.List_Lexorder" "HOL-Library.Char_ord" "HOL-Library.Multiset"
begin

text \<open>
  Shared vocabulary of the development. A pandas cell (\<open>cell\<close>) is a float, a string or
  a missing value (NaN); a data frame (\<open>frame\<close>) is an ordered list of named columns; a
  scikit-learn input or output matrix (\<open>matrix\<close>) is kept column by column, each column
  one list of cells with one entry per sample. Every exception the program or a library it
  calls can raise is a constructor of \<open>error\<close>, and a fallible operation returns
  \<open>error + 'a\<close> (\<open>Inl\<close> the exception). \<open>res_bind\<close> and \<open>mapM\<close> thread the
  first exception through a sequence of calls, as Python's propagation does.
  The theory also orders cells (\<open>linorder\<close>), as \<^verbatim>\<open>np.unique\<close> and
  \<^verbatim>\<open>sorted\<close> do: numbers by value, strings lexicographically, NaN last.
\<close>

section \<open>Cells, frames and matrices\<close>

datatype cell = Num real | Str string | Missing

type_synonym column = "cell list"
type_synonym matrix = "cell list list"
type_synonym frame = "(string \<times> cell list) list"

named_theorems result_simps "evaluation rules of the result combinators"

section \<open>Exceptions\<close>

datatype error =
    KeyError string
  | ColumnsMissing "string list"
  | EmptyInput
  | NoFeatures
  | NonNumeric
  | MixedTypes
  | UnknownCategory nat cell
  | FeatureMismatch nat nat
  | FileNotFound string
  | WrongObject string
  | EmptyTrainSet
  | TypeError
  | ValueError string
  | NonFinite
  | IndexError
  | CustomException error

type_synonym 'a result = "error + 'a"

definition res_bind :: "'a result \<Rightarrow> ('a \<Rightarrow> 'b result) \<Rightarrow> 'b result" where
  "res_bind m f = (case m of Inl e \<Rightarrow> Inl e | Inr x \<Rightarrow> f x)"

fun mapM :: "('a \<Rightarrow> 'b result) \<Rightarrow> 'a list \<Rightarrow> 'b list result" where
  "mapM f [] = Inr []"
| "mapM f (x # xs) = res_bind (f x) (\<lambda>y. res_bind (mapM f xs) (\<lambda>ys. Inr (y # ys)))"

text \<open>\<^verbatim>\<open>except Exception as e: raise CustomException(e, sys)\<close>\<close>

definition wrap :: "'a result \<Rightarrow> 'a result" where
  "wrap m = (case m of Inl e \<Rightarrow> Inl (CustomException e) | Inr x \<Rightarrow> Inr x)"

section \<open>The order of cells\<close>

instantiation cell :: linorder
begin

fun less_eq_cell :: "cell \<Rightarrow> cell \<Rightarrow> bool" where
  "less_eq_cell (Num a) (Num b) = (a \<le> b)"
| "less_eq_cell (Num a) c = True"
| "less_eq_cell (Str a) (Num b) = False"
| "less_eq_cell (Str a) (Str b) = (a \<le> b)"
| "less_eq_cell (Str a) Missing = True"
| "less_eq_cell Missing c = (c = Missing)"

definition less_cell :: "cell \<Rightarrow> cell \<Rightarrow> bool" where
  "less_cell x y = (x \<le> y \<and> \<not> y \<le> x)"

instance
proof
  fix x y z :: cell
  show "(x < y) = (x \<le> y \<and> \<not> y \<le> x)" by (simp add: less_cell_def)
  show "x \<le> x" by (cases x) auto
  show "x \<le> y \<Longrightarrow> y \<le> z \<Longrightarrow> x \<le> z"
    by (cases x; cases y; cases z) auto
  show "x \<le> y \<Longrightarrow> y \<le> x \<Longrightarrow> x = y"
    by (cases x; cases y) auto
  show "x \<le> y \<or> y \<le> x"
    by (cases x; cases y) auto
qed

end

section \<open>Shapes\<close>

text \<open>A matrix of \<open>n\<close> samples: every column has \<open>n\<close> entries.\<close>

definition rect :: "nat \<Rightarrow> matrix \<Rightarrow> bool" where
  "rect n X \<longleftrightarrow> list_all (\<lambda>c. length c = n) X"

text \<open>The matrix made of sample \<open>i\<close> alone, and the frame made of row \<open>i\<close> alone.\<close>

definition sample :: "nat \<Rightarrow> matrix \<Rightarrow> matrix" where
  "sample i X = map (\<lambda>c. [c ! i]) X"

definition frame_row :: "nat \<Rightarrow> frame \<Rightarrow> frame" where
  "frame_row i F = map (\<lambda>(nm, c). (nm, [c ! i])) F"

text \<open>A frame of \<open>n\<close> rows: every named column has \<open>n\<close> entries.\<close>

definition frame_rect :: "nat \<Rightarrow> frame \<Rightarrow> bool" where
  "frame_rect n F \<longleftrightarrow> list_all (\<lambda>(nm, c). length c = n) F"

section \<open>Lemmas on the combinators\<close>

lemma res_bind_Inl [simp, result_simps]: "res_bind (Inl e) f = Inl e"
  by (simp add: res_bind_def)

lemma res_bind_Inr [simp, result_simps]: "res_bind (Inr x) f = f x"
  by (simp add: res_bind_def)

lemma res_bind_eq_Inr [result_simps]:
  "res_bind m f = Inr y \<longleftrightarrow> (\<exists>x. m = Inr x \<and> f x = Inr y)"
  by (cases m) auto

lemma wrap_Inr [simp, result_simps]: "wrap (Inr x) = Inr x"
  by (simp add: wrap_def)

lemma wrap_Inl [simp, result_simps]: "wrap (Inl e) = Inl (CustomException e)"
  by (simp add: wrap_def)

lemma mapM_Inr_iff [result_simps]:
  "mapM f xs = Inr ys \<longleftrightarrow> list_all2 (\<lambda>x y. f x = Inr y) xs ys"
proof (induction xs arbitrary: ys)
  case Nil
  then show ?case by auto
next
  case (Cons x xs)
  show ?case
  proof (cases "mapM f xs")
    case (Inl e)
    then have "\<not> list_all2 (\<lambda>x y. f x = Inr y) xs zs" for zs
      using Cons.IH [of zs] by simp
    with Inl show ?thesis by (cases "f x") (auto simp: list_all2_Cons1)
  next
    case (Inr zs)
    then have "list_all2 (\<lambda>x y. f x = Inr y) xs ws \<longleftrightarrow> ws = zs" for ws
      using Cons.IH [of ws] by auto
    with Inr show ?thesis by (cases "f x") (auto simp: list_all2_Cons1)
  qed
qed

lemma mapM_map_Inr [result_simps]: "mapM (\<lambda>x. Inr (g x)) xs = Inr (map g xs)"
  by (induction xs) auto

lemma mapM_length: "mapM f xs = Inr ys \<Longrightarrow> length ys = length xs"
  by (auto simp: mapM_Inr_iff dest: list_all2_lengthD)

lemma mapM_nth: "mapM f xs = Inr ys \<Longrightarrow> i < length xs \<Longrightarrow> f (xs ! i) = Inr (ys ! i)"
  by (auto simp: mapM_Inr_iff list_all2_conv_all_nth)

lemma mapM_Inl_ex: "mapM f xs = Inl e \<Longrightarrow> \<exists>x \<in> set xs. f x = Inl e"
proof (induction xs)
  case Nil
  then show ?case by simp
next
  case (Cons x xs)
  then show ?case by (cases "f x"; cases "mapM f xs") auto
qed

lemma mapM_all_Inr:
  "(\<And>x. x \<in> set xs \<Longrightarrow> \<exists>y. f x = Inr y) \<Longrightarrow> \<exists>ys. mapM f xs = Inr ys"
proof (induction xs)
  case (Cons x xs)
  then obtain y ys where "f x = Inr y" "mapM f xs = Inr ys" by fastforce
  then show ?case by simp
qed simp

lemma rect_Cons [simp]: "rect n (c # X) \<longleftrightarrow> length c = n \<and> rect n X"
  by (simp add: rect_def)

lemma rect_Nil [simp]: "rect n []"
  by (simp add: rect_def)

lemma rect_append [simp]: "rect n (X @ Y) \<longleftrightarrow> rect n X \<and> rect n Y"
  by (simp add: rect_def)

lemma rect_concat [simp]: "rect n (concat Xs) \<longleftrightarrow> (\<forall>X \<in> set Xs. rect n X)"
  by (induction Xs) auto

lemma rect_nth: "rect n X \<Longrightarrow> c \<in> set X \<Longrightarrow> length c = n"
  by (simp add: rect_def list_all_iff)

lemma sample_Cons [simp]: "sample i (c # X) = [c ! i] # sample i X"
  by (simp add: sample_def)

lemma sample_Nil [simp]: "sample i [] = []"
  by (simp add: sample_def)

lemma sample_append [simp]: "sample i (X @ Y) = sample i X @ sample i Y"
  by (simp add: sample_def)

lemma sample_concat: "sample i (concat Xs) = concat (map (sample i) Xs)"
  by (induction Xs) auto

lemma rect_sample [simp]: "rect 1 (sample i X)"
  by (induction X) auto

lemma nth_map_single: "i < length c \<Longrightarrow> [map g c ! i] = map g [c ! i]"
  by simp

lemma list_all2_map_eq:
  "list_all2 R xs ys \<Longrightarrow> (\<And>x y. R x y \<Longrightarrow> f x = f y) \<Longrightarrow> map f xs = map f ys"
  by (induction rule: list_all2_induct) auto

lemma list_all2_ex_left: "list_all2 P xs ys \<Longrightarrow> x \<in> set xs \<Longrightarrow> \<exists>y. P x y"
  by (induction rule: list_all2_induct) auto

lemma list_all2_list_ex_eq:
  "list_all2 R xs ys \<Longrightarrow> (\<And>x y. R x y \<Longrightarrow> P x = P y) \<Longrightarrow> list_ex P xs = list_ex P ys"
  by (induction rule: list_all2_induct) auto


lemma sample_map2_concat:
  assumes "rect n X" and "i < n"
    and "\<And>a c. c \<in> set X \<Longrightarrow> f a [c ! i] = sample i (f a c)"
  shows "concat (map2 f st (sample i X)) = sample i (concat (map2 f st X))"
  using assms
proof (induction X arbitrary: st)
  case Nil
  then show ?case by simp
next
  case (Cons c X)
  then show ?case by (cases st) (auto simp: sample_concat)
qed

lemma rect_map2_concat:
  assumes "rect n X" and "\<And>a c. c \<in> set X \<Longrightarrow> rect n (f a c)"
  shows "rect n (concat (map2 f st X))"
  using assms
proof (induction X arbitrary: st)
  case Nil
  then show ?case by simp
next
  case (Cons c X)
  then show ?case by (cases st) auto
qed

lemma sample_map_zip3:
  assumes "rect n X" and "i < n"
  shows "map (\<lambda>(a, b, c). map (g a b) c) (zip as (zip bs (sample i X))) =
         sample i (map (\<lambda>(a, b, c). map (g a b) c) (zip as (zip bs X)))"
  using assms
proof (induction X arbitrary: as bs)
  case Nil
  then show ?case by simp
next
  case (Cons c X)
  then show ?case by (cases as; cases bs) auto
qed

lemma rect_map_zip3:
  "rect n X \<Longrightarrow> rect n (map (\<lambda>(a, b, c). map (g a b) c) (zip as (zip bs X)))"
  by (auto simp: rect_def list_all_iff set_zip)


lemma concat_map2_block:
  assumes "j < length xs" and "length xs = length ys"
  shows "concat (map2 f xs ys) =
         concat (map2 f (take j xs) (take j ys)) @ f (xs ! j) (ys ! j) @
         concat (map2 f (drop (Suc j) xs) (drop (Suc j) ys))"
  using assms
proof (induction xs arbitrary: j ys)
  case Nil
  then show ?case by simp
next
  case (Cons x xs)
  then obtain y ys' where ys: "ys = y # ys'" by (cases ys) auto
  show ?case
  proof (cases j)
    case 0
    with ys show ?thesis by simp
  next
    case (Suc k)
    with Cons.prems ys have "k < length xs" "length xs = length ys'" by auto
    from Cons.IH [OF this] Suc ys show ?thesis by simp
  qed
qed


lemma mset_eq_distinct: "mset xs = mset ys \<Longrightarrow> distinct xs = distinct ys"
  by (metis distinct_count_atmost_1 set_mset_mset)

end
