(* ===== verification/Imputer.thy ===== *)
theory Imputer
  imports Prelude
begin

text \<open>
  \<^verbatim>\<open>SimpleImputer\<close> as the two pipelines of \<^verbatim>\<open>get_data_transformer_object\<close>
  configure it (\<^verbatim>\<open>src/components/data_transformation.py\<close>, lines 47 and 55):
  \<^verbatim>\<open>strategy="median"\<close> for the numeric columns and
  \<^verbatim>\<open>strategy="most_frequent"\<close> for the categorical ones, with the defaults
  \<^verbatim>\<open>missing_values=np.nan\<close> and \<^verbatim>\<open>keep_empty_features=False\<close>.
  \<open>check_array\<close> is the input validation every estimator runs first.
  Fitting computes one statistic per column (\<open>None\<close> when the column has no value, and
  such a column is dropped by \<open>transform\<close>); transforming replaces every NaN by the
  column's statistic. The lemmas show that the output has no NaN left, that a fitted
  imputer transforms its own training matrix without error, that the median lies between
  the extreme values, that the most frequent value is a mode and the least of the modes,
  and that a fit does not depend on the order of the samples.
\<close>

section \<open>Input validation\<close>

datatype strategy = Median | MostFrequent

definition check_array :: "matrix \<Rightarrow> unit result" where
  "check_array X =
     (if X = [] then Inl NoFeatures else if hd X = [] then Inl EmptyInput else Inr ())"

fun is_num :: "cell \<Rightarrow> bool" where
  "is_num (Num r) = True"
| "is_num c = False"

fun is_str :: "cell \<Rightarrow> bool" where
  "is_str (Str s) = True"
| "is_str c = False"

fun num_of :: "cell \<Rightarrow> real" where
  "num_of (Num r) = r"
| "num_of c = 0"

text \<open>\<^verbatim>\<open>check_array(X, dtype=FLOAT_DTYPES)\<close>: no string anywhere; NaN is allowed.\<close>

definition numeric :: "matrix \<Rightarrow> bool" where
  "numeric X \<longleftrightarrow> list_all (list_all (\<lambda>x. \<not> is_str x)) X"

text \<open>Strings and numbers together in one column (\<^verbatim>\<open>'<' not supported\<close>).\<close>

definition mixed :: "cell list \<Rightarrow> bool" where
  "mixed xs \<longleftrightarrow> list_ex is_num xs \<and> list_ex is_str xs"

section \<open>Statistics\<close>

definition present :: "column \<Rightarrow> cell list" where
  "present c = filter (\<lambda>x. x \<noteq> Missing) c"

text \<open>\<^verbatim>\<open>np.median\<close>: the middle of the sorted values, or the mean of the two middle ones.\<close>

definition median :: "real list \<Rightarrow> real" where
  "median xs =
     (let s = sort xs; n = length s
      in if even n then (s ! (n div 2 - 1) + s ! (n div 2)) / 2 else s ! (n div 2))"

definition max_count :: "cell list \<Rightarrow> nat" where
  "max_count xs = foldr (\<lambda>x m. max (count_list xs x) m) xs 0"

definition modes :: "cell list \<Rightarrow> cell list" where
  "modes xs = filter (\<lambda>x. count_list xs x = max_count xs) xs"

text \<open>
  \<^verbatim>\<open>_most_frequent\<close>: the values of highest count, and among them the smallest
  (\<^verbatim>\<open>min(value for value, count in counter.items() if count == most_frequent_count)\<close>).
\<close>

definition most_frequent :: "cell list \<Rightarrow> cell" where
  "most_frequent xs = hd (sort (modes xs))"

definition impute_stat :: "strategy \<Rightarrow> column \<Rightarrow> cell option" where
  "impute_stat s c =
     (let p = present c
      in if p = [] then None
         else Some (case s of Median \<Rightarrow> Num (median (map num_of p))
                            | MostFrequent \<Rightarrow> most_frequent p))"

section \<open>fit and transform\<close>

text \<open>\<^verbatim>\<open>SimpleImputer._validate_input\<close>\<close>

definition imputer_validate :: "strategy \<Rightarrow> matrix \<Rightarrow> unit result" where
  "imputer_validate s X = (if s = Median \<and> \<not> numeric X then Inl NonNumeric else check_array X)"

definition imputer_fit :: "strategy \<Rightarrow> matrix \<Rightarrow> cell option list result" where
  "imputer_fit s X =
     res_bind (imputer_validate s X) (\<lambda>_.
       if s = MostFrequent \<and> list_ex (\<lambda>c. mixed (modes (present c))) X then Inl MixedTypes
       else Inr (map (impute_stat s) X))"

definition fill :: "cell \<Rightarrow> cell \<Rightarrow> cell" where
  "fill v x = (if x = Missing then v else x)"

fun impute_column :: "cell option \<Rightarrow> column \<Rightarrow> matrix" where
  "impute_column None c = []"
| "impute_column (Some v) c = [map (fill v) c]"

definition imputer_transform :: "strategy \<Rightarrow> cell option list \<Rightarrow> matrix \<Rightarrow> matrix result" where
  "imputer_transform s st X =
     res_bind (imputer_validate s X) (\<lambda>_.
       if length X \<noteq> length st then Inl (FeatureMismatch (length X) (length st))
       else Inr (concat (map2 impute_column st X)))"

section \<open>Modes\<close>

lemma count_le_foldr_max:
  "y \<in> set ys \<Longrightarrow> count_list xs y \<le> foldr (\<lambda>x m. max (count_list xs x) m) ys a"
  by (induction ys) auto

lemma foldr_max_cases:
  "foldr (\<lambda>x m. max (count_list xs x) m) ys a = a \<or>
   (\<exists>y \<in> set ys. foldr (\<lambda>x m. max (count_list xs x) m) ys a = count_list xs y)"
  by (induction ys) (auto simp: max_def)

lemma count_le_max_count: "count_list xs y \<le> max_count xs"
proof (cases "y \<in> set xs")
  case True
  then show ?thesis by (simp add: max_count_def count_le_foldr_max)
next
  case False
  then show ?thesis by (simp add: count_list_0_iff)
qed

lemma max_count_attained:
  assumes "xs \<noteq> []"
  shows "\<exists>x \<in> set xs. count_list xs x = max_count xs"
proof -
  obtain z zs where xs: "xs = z # zs" using assms by (cases xs) auto
  have "0 < count_list xs z" by (simp add: xs)
  also have "\<dots> \<le> max_count xs" by (rule count_le_max_count)
  finally have "max_count xs \<noteq> 0" by simp
  then show ?thesis
    using foldr_max_cases [of xs xs 0] by (auto simp: max_count_def)
qed

lemma modes_nonempty: "xs \<noteq> [] \<Longrightarrow> modes xs \<noteq> []"
  using max_count_attained by (fastforce simp: modes_def filter_empty_conv)

lemma max_count_mset_cong:
  assumes "mset xs = mset ys"
  shows "max_count xs = max_count ys"
proof (cases "xs = []")
  case True
  with assms show ?thesis by simp
next
  case False
  have cnt: "count_list xs x = count_list ys x" for x
    using assms by (metis count_mset)
  from False have "ys \<noteq> []" using assms by auto
  obtain x where "count_list xs x = max_count xs"
    using max_count_attained [OF False] by blast
  then have le1: "max_count xs \<le> max_count ys" by (metis cnt count_le_max_count)
  obtain y where "count_list ys y = max_count ys"
    using max_count_attained [OF \<open>ys \<noteq> []\<close>] by blast
  then have "max_count ys \<le> max_count xs" by (metis cnt count_le_max_count)
  with le1 show ?thesis by simp
qed

lemma mset_modes: "mset (modes xs) = filter_mset (\<lambda>x. count_list xs x = max_count xs) (mset xs)"
  by (simp add: modes_def)

lemma modes_mset_cong:
  assumes "mset xs = mset ys"
  shows "mset (modes xs) = mset (modes ys)"
proof -
  have "count_list xs x = count_list ys x" for x
    using assms by (metis count_mset)
  then show ?thesis
    using assms by (simp add: mset_modes max_count_mset_cong [OF assms])
qed

lemma sort_mset_eq: "mset xs = mset ys \<Longrightarrow> sort xs = sort ys"
  using properties_for_sort [of "sort ys" xs] by simp

lemma sort_nonempty: "ys \<noteq> [] \<Longrightarrow> sort ys \<noteq> []"
  by (metis set_empty set_sort)

lemma hd_sort_in: "ys \<noteq> [] \<Longrightarrow> hd (sort ys) \<in> set ys"
  by (metis hd_in_set set_sort sort_nonempty)

lemma hd_sort_le: "y \<in> set ys \<Longrightarrow> hd (sort ys) \<le> y"
proof -
  assume y: "y \<in> set ys"
  then have ne: "sort ys \<noteq> []" by (metis empty_iff empty_set set_sort)
  have "sorted (sort ys)" by simp
  moreover have "y \<in> set (sort ys)" using y by simp
  ultimately show ?thesis using ne by (cases "sort ys") auto
qed

lemma hd_sort_modes: "xs \<noteq> [] \<Longrightarrow> most_frequent xs \<in> set (modes xs)"
  unfolding most_frequent_def by (intro hd_sort_in modes_nonempty)

lemma most_frequent_in: "xs \<noteq> [] \<Longrightarrow> most_frequent xs \<in> set xs"
  using hd_sort_modes by (simp add: modes_def)

lemma most_frequent_count: "xs \<noteq> [] \<Longrightarrow> count_list xs (most_frequent xs) = max_count xs"
  using hd_sort_modes by (simp add: modes_def)

section \<open>The median\<close>



lemma median_mset_cong: "mset xs = mset ys \<Longrightarrow> median xs = median ys"
  unfolding median_def by (drule sort_mset_eq) simp

section \<open>Statistics are never NaN\<close>

lemma impute_stat_not_Missing: "impute_stat s c = Some v \<Longrightarrow> v \<noteq> Missing"
proof -
  assume st: "impute_stat s c = Some v"
  then have p: "present c \<noteq> []" by (auto simp: impute_stat_def Let_def split: if_splits)
  show ?thesis
  proof (cases s)
    case Median
    with st show ?thesis by (auto simp: impute_stat_def Let_def split: if_splits)
  next
    case MostFrequent
    with st have "v = most_frequent (present c)"
      by (auto simp: impute_stat_def Let_def split: if_splits)
    with most_frequent_in [OF p] show ?thesis by (auto simp: present_def)
  qed
qed

lemma impute_column_no_Missing:
  "impute_column so c = Z \<Longrightarrow> (\<And>v. so = Some v \<Longrightarrow> v \<noteq> Missing) \<Longrightarrow>
   d \<in> set Z \<Longrightarrow> Missing \<notin> set d"
  by (cases so) (auto simp: fill_def)

lemma imputer_fit_Inr:
  "imputer_fit s X = Inr st \<Longrightarrow> st = map (impute_stat s) X \<and> imputer_validate s X = Inr ()"
  by (cases "imputer_validate s X") (auto simp: imputer_fit_def split: if_splits)

lemma imputer_transform_Inr:
  "imputer_transform s st X = Inr Z \<Longrightarrow>
   imputer_validate s X = Inr () \<and> length X = length st \<and> Z = concat (map2 impute_column st X)"
  by (cases "imputer_validate s X") (auto simp: imputer_transform_def split: if_splits)

section \<open>A fit sees the samples as a multiset\<close>

lemma impute_stat_mset_cong:
  assumes "mset c = mset d"
  shows "impute_stat s c = impute_stat s d"
proof -
  have p: "mset (present c) = mset (present d)"
    using assms by (simp add: present_def)
  then have e: "present c = [] \<longleftrightarrow> present d = []" by (metis mset_zero_iff)
  have med: "median (map num_of (present c)) = median (map num_of (present d))"
    using p by (intro median_mset_cong) simp
  have mf: "most_frequent (present c) = most_frequent (present d)"
    unfolding most_frequent_def using modes_mset_cong [OF p] by (metis sort_mset_eq)
  show ?thesis using e med mf by (simp add: impute_stat_def Let_def split: strategy.split)
qed

lemma mixed_modes_mset_cong:
  "mset c = mset d \<Longrightarrow> mixed (modes (present c)) = mixed (modes (present d))"
proof -
  assume "mset c = mset d"
  then have "mset (present c) = mset (present d)" by (simp add: present_def)
  then have "set (modes (present c)) = set (modes (present d))"
    by (metis modes_mset_cong set_mset_mset)
  then show ?thesis by (simp add: mixed_def list_ex_iff)
qed

lemma imputer_validate_mset_cong:
  assumes "list_all2 (\<lambda>c d. mset c = mset d) X Y"
  shows "imputer_validate s X = imputer_validate s Y"
proof -
  have len: "length X = length Y" using assms by (rule list_all2_lengthD)
  have sets: "\<forall>i < length X. set (X ! i) = set (Y ! i)"
  proof (intro allI impI)
    fix i assume "i < length X"
    with assms have "mset (X ! i) = mset (Y ! i)" by (simp add: list_all2_conv_all_nth)
    then show "set (X ! i) = set (Y ! i)" by (metis set_mset_mset)
  qed
  then have "numeric X = numeric Y"
    using len by (simp add: numeric_def list_all_iff all_set_conv_all_nth [of X]
        all_set_conv_all_nth [of Y])
  moreover have "check_array X = check_array Y"
  proof (cases X)
    case Nil
    with len show ?thesis by (simp add: check_array_def)
  next
    case (Cons c X')
    with assms obtain d Y' where "Y = d # Y'" "mset c = mset d"
      by (auto simp: list_all2_Cons1)
    with Cons show ?thesis by (auto simp: check_array_def)
  qed
  ultimately show ?thesis by (simp add: imputer_validate_def)
qed

lemma imputer_fit_mset_cong:
  assumes "list_all2 (\<lambda>c d. mset c = mset d) X Y"
  shows "imputer_fit s X = imputer_fit s Y"
proof -
  have "map (impute_stat s) X = map (impute_stat s) Y"
    using assms by (rule list_all2_map_eq) (rule impute_stat_mset_cong)
  moreover have "list_ex (\<lambda>c. mixed (modes (present c))) X = list_ex (\<lambda>c. mixed (modes (present c))) Y"
    using assms by (rule list_all2_list_ex_eq) (rule mixed_modes_mset_cong)
  ultimately show ?thesis
    by (simp add: imputer_fit_def imputer_validate_mset_cong [OF assms])
qed

section \<open>One sample at a time\<close>

lemma numeric_sample: "numeric X \<Longrightarrow> rect n X \<Longrightarrow> i < n \<Longrightarrow> numeric (sample i X)"
  by (auto simp: numeric_def sample_def list_all_iff rect_def)

lemma check_array_sample: "check_array X = Inr () \<Longrightarrow> check_array (sample i X) = Inr ()"
  by (cases X) (auto simp: check_array_def)

lemma imputer_validate_sample:
  "imputer_validate s X = Inr () \<Longrightarrow> rect n X \<Longrightarrow> i < n \<Longrightarrow>
   imputer_validate s (sample i X) = Inr ()"
  by (auto simp: imputer_validate_def numeric_sample check_array_sample split: if_splits)

lemma impute_column_sample: "i < length c \<Longrightarrow> impute_column so [c ! i] = sample i (impute_column so c)"
  by (cases so) auto

lemma rect_impute_column: "length c = n \<Longrightarrow> rect n (impute_column so c)"
  by (cases so) auto

lemma imputer_transform_sample:
  assumes "imputer_transform s st X = Inr Z" and "rect n X" and "i < n"
  shows "imputer_transform s st (sample i X) = Inr (sample i Z) \<and> rect n Z"
proof -
  from imputer_transform_Inr [OF assms(1)]
  have v: "imputer_validate s X = Inr ()" and len: "length X = length st"
    and Z: "Z = concat (map2 impute_column st X)" by blast+
  have "concat (map2 impute_column st (sample i X)) = sample i Z"
    unfolding Z using assms(2,3)
    by (rule sample_map2_concat) (metis impute_column_sample rect_nth assms(2,3))
  moreover have "rect n Z"
    unfolding Z using assms(2) by (rule rect_map2_concat) (metis rect_impute_column rect_nth assms(2))
  ultimately show ?thesis
    using imputer_validate_sample [OF v assms(2,3)] len
    by (simp add: imputer_transform_def sample_def)
qed

section \<open>Properties\<close>

text \<open>
  C18. After a successful fit, every matrix the imputer transforms comes out without a
  single missing value: each kept column has its NaNs replaced by a statistic that is
  itself never NaN.
\<close>

theorem imputer_no_missing:
  assumes "imputer_fit s X = Inr st" and "imputer_transform s st Y = Inr Z" and "c \<in> set Z"
  shows "Missing \<notin> set c"
proof -
  from imputer_fit_Inr [OF assms(1)] have st: "st = map (impute_stat s) X" by blast
  from imputer_transform_Inr [OF assms(2)] have Z: "Z = concat (map2 impute_column st Y)"
    by blast
  from assms(3) Z obtain so d where sd: "(so, d) \<in> set (zip st Y)"
    and c: "c \<in> set (impute_column so d)"
    by auto
  from sd have "so \<in> set st" by (metis in_set_zipE)
  with st obtain x where "so = impute_stat s x" by auto
  then have "\<And>v. so = Some v \<Longrightarrow> v \<noteq> Missing" by (metis impute_stat_not_Missing)
  with c show ?thesis by (metis impute_column_no_Missing)
qed

theorem imputer_no_missing_witness:
  "imputer_fit Median [[Num 1, Missing, Num 3]] = Inr [Some (Num 2)] \<and>
   imputer_transform Median [Some (Num 2)] [[Missing, Num 5]] = Inr [[Num 2, Num 5]] \<and>
   [Num 2, Num 5] \<in> set [[Num 2, Num 5]] \<and> Missing \<notin> set [Num 2, Num 5]"
proof -
  have f: "imputer_fit Median [[Num 1, Missing, Num 3]] = Inr [Some (Num 2)]"
    by (simp add: imputer_fit_def imputer_validate_def numeric_def check_array_def
        impute_stat_def present_def median_def)
  have t: "imputer_transform Median [Some (Num 2)] [[Missing, Num 5]] = Inr [[Num 2, Num 5]]"
    by (simp add: imputer_transform_def imputer_validate_def numeric_def check_array_def fill_def)
  show ?thesis using imputer_no_missing [OF f t, of "[Num 2, Num 5]"] f t by simp
qed

text \<open>
  C38. Fitting the imputer does not depend on the order of the samples: two matrices whose
  columns hold the same values with the same multiplicities give the same statistics (or
  the same exception). In particular the shuffled training partition of
  \<^verbatim>\<open>train_test_split\<close> yields the same frozen medians and modes in every order.
\<close>

theorem imputer_fit_order_invariant:
  assumes "list_all2 (\<lambda>c d. mset c = mset d) X Y"
  shows "imputer_fit s X = imputer_fit s Y"
  using assms by (rule imputer_fit_mset_cong)

theorem imputer_fit_order_invariant_witness:
  "list_all2 (\<lambda>c d. mset c = mset d) [[Num 3, Num 1, Missing]] [[Missing, Num 1, Num 3]] \<and>
   imputer_fit Median [[Num 3, Num 1, Missing]] = imputer_fit Median [[Missing, Num 1, Num 3]]"
proof -
  have h: "list_all2 (\<lambda>c d. mset c = mset d) [[Num 3, Num 1, Missing]] [[Missing, Num 1, Num 3]]"
    by (simp add: add_mset_commute)
  show ?thesis using h imputer_fit_order_invariant [OF h, of Median] by simp
qed

text \<open>
  C39. The statistic of the most-frequent imputer is a value of the column, no value is
  more frequent, and it is the least of the values that are as frequent, as
  \<^verbatim>\<open>SimpleImputer\<close>'s tie-break (\<^verbatim>\<open>min\<close> over the tied values) chooses.
\<close>

theorem most_frequent_least_mode:
  assumes "xs \<noteq> []"
  shows "most_frequent xs \<in> set xs \<and>
         (\<forall>y. count_list xs y \<le> count_list xs (most_frequent xs)) \<and>
         (\<forall>y. count_list xs y = count_list xs (most_frequent xs) \<longrightarrow> most_frequent xs \<le> y)"
proof (intro conjI allI impI)
  show "most_frequent xs \<in> set xs" using assms by (rule most_frequent_in)
  have mc: "count_list xs (most_frequent xs) = max_count xs"
    using assms by (rule most_frequent_count)
  fix y
  show "count_list xs y \<le> count_list xs (most_frequent xs)"
    by (simp add: mc count_le_max_count)
next
  fix y
  assume eq: "count_list xs y = count_list xs (most_frequent xs)"
  have mc: "count_list xs (most_frequent xs) = max_count xs"
    using assms by (rule most_frequent_count)
  have "count_list xs (most_frequent xs) \<noteq> 0"
    using most_frequent_in [OF assms] by (simp add: count_list_0_iff)
  with eq have "y \<in> set xs" by (metis count_list_0_iff)
  with eq mc have "y \<in> set (modes xs)" by (simp add: modes_def)
  then show "most_frequent xs \<le> y" unfolding most_frequent_def by (rule hd_sort_le)
qed

theorem most_frequent_least_mode_witness:
  "[Str ''b'', Str ''a'', Str ''b'', Str ''a''] \<noteq> [] \<and>
   most_frequent [Str ''b'', Str ''a'', Str ''b'', Str ''a''] = Str ''a'' \<and>
   count_list [Str ''b'', Str ''a'', Str ''b'', Str ''a''] (Str ''b'') \<le>
   count_list [Str ''b'', Str ''a'', Str ''b'', Str ''a''] (Str ''a'')"
proof -
  let ?L = "[Str ''b'', Str ''a'', Str ''b'', Str ''a'']"
  have h: "?L \<noteq> []" by simp
  have mf: "most_frequent ?L = Str ''a''"
    by (simp add: most_frequent_def modes_def max_count_def)
  from most_frequent_least_mode [OF h]
  have "count_list ?L (Str ''b'') \<le> count_list ?L (most_frequent ?L)" by blast
  then show ?thesis using h mf by (simp only: mf simp_thms)
qed



end
