(* ===== verification/One_Hot.thy ===== *)
theory One_Hot
  imports Imputer
begin

text \<open>
  \<^verbatim>\<open>OneHotEncoder()\<close> of the categorical pipeline
  (\<^verbatim>\<open>src/components/data_transformation.py\<close>, line 56), with its defaults
  \<^verbatim>\<open>categories="auto"\<close> and \<^verbatim>\<open>handle_unknown="error"\<close>. Fitting learns, for each
  input column, its sorted distinct values (\<^verbatim>\<open>np.unique\<close>: the vocabulary);
  transforming replaces each input column by one 0/1 column per vocabulary entry, in
  vocabulary order, and raises on a value the vocabulary does not hold. The lemmas show
  that the vocabulary is sorted, duplicate-free and exactly the values seen, that each
  encoded sample has a single 1 in each block and decodes back to its category, that the
  output width is the total vocabulary size, and that an unseen category makes the
  transform raise.
\<close>

section \<open>fit and transform\<close>

definition categories_of :: "column \<Rightarrow> cell list" where
  "categories_of c = sort (remdups c)"

definition onehot_fit :: "matrix \<Rightarrow> cell list list result" where
  "onehot_fit X =
     res_bind (check_array X) (\<lambda>_.
       if list_ex mixed X then Inl MixedTypes else Inr (map categories_of X))"

text \<open>One sample's block: \<open>1\<close> in the position of its category, \<open>0\<close> elsewhere.\<close>

definition onehot_encode :: "cell list \<Rightarrow> cell \<Rightarrow> cell list" where
  "onehot_encode cats x = map (\<lambda>v. Num (if x = v then 1 else 0)) cats"

definition encode_column :: "cell list \<Rightarrow> column \<Rightarrow> matrix" where
  "encode_column cats c = map (\<lambda>v. map (\<lambda>x. Num (if x = v then 1 else 0)) c) cats"

text \<open>\<^verbatim>\<open>_transform\<close>: \<^verbatim>\<open>Found unknown categories ... in column j during transform\<close>.\<close>

definition onehot_check :: "nat \<times> cell list \<times> column \<Rightarrow> unit result" where
  "onehot_check jc =
     (case jc of (j, cats, c) \<Rightarrow>
        (case find (\<lambda>x. x \<notin> set cats) c of
           None \<Rightarrow> Inr ()
         | Some x \<Rightarrow> Inl (UnknownCategory j x)))"

definition onehot_transform :: "cell list list \<Rightarrow> matrix \<Rightarrow> matrix result" where
  "onehot_transform cs X =
     res_bind (check_array X) (\<lambda>_.
       if length X \<noteq> length cs then Inl (FeatureMismatch (length X) (length cs))
       else res_bind (mapM onehot_check (zip [0..<length X] (zip cs X))) (\<lambda>_.
         Inr (concat (map2 encode_column cs X))))"

text \<open>The reference decoding of one block (what \<^verbatim>\<open>inverse_transform\<close> computes).\<close>

fun onehot_decode :: "cell list \<Rightarrow> cell list \<Rightarrow> cell option" where
  "onehot_decode (v # vs) (b # bs) = (if b = Num 1 then Some v else onehot_decode vs bs)"
| "onehot_decode vs bs = None"

section \<open>Lemmas\<close>

lemma categories_of_props:
  "sorted (categories_of c) \<and> distinct (categories_of c) \<and> set (categories_of c) = set c"
  by (simp add: categories_of_def)

lemma onehot_fit_Inr:
  "onehot_fit X = Inr cs \<Longrightarrow> cs = map categories_of X \<and> check_array X = Inr ()"
  by (cases "check_array X") (auto simp: onehot_fit_def split: if_splits)

lemma onehot_check_Inr:
  "onehot_check (j, cats, c) = Inr u \<longleftrightarrow> set c \<subseteq> set cats"
proof (cases "find (\<lambda>x. x \<notin> set cats) c")
  case None
  then have "set c \<subseteq> set cats" by (auto simp: find_None_iff)
  with None show ?thesis by (simp add: onehot_check_def)
next
  case (Some x)
  then have "x \<in> set c" "x \<notin> set cats" by (auto simp: find_Some_iff)
  with Some show ?thesis by (auto simp: onehot_check_def)
qed

lemma onehot_transform_Inr:
  "onehot_transform cs X = Inr Y \<Longrightarrow>
   check_array X = Inr () \<and> length X = length cs \<and>
   (\<forall>j < length X. set (X ! j) \<subseteq> set (cs ! j)) \<and> Y = concat (map2 encode_column cs X)"
proof -
  assume t: "onehot_transform cs X = Inr Y"
  then have ca: "check_array X = Inr ()" and len: "length X = length cs"
    by (cases "check_array X"; auto simp: onehot_transform_def split: if_splits)+
  from t ca len obtain u where
    m: "mapM onehot_check (zip [0..<length X] (zip cs X)) = Inr u" and
    Y: "Y = concat (map2 encode_column cs X)"
    by (auto simp: onehot_transform_def res_bind_eq_Inr)
  have "set (X ! j) \<subseteq> set (cs ! j)" if j: "j < length X" for j
  proof -
    have "onehot_check (zip [0..<length X] (zip cs X) ! j) = Inr (u ! j)"
      using mapM_nth [OF m] j len by simp
    with j len show ?thesis by (simp add: onehot_check_Inr)
  qed
  with ca len Y show ?thesis by blast
qed

lemma onehot_transform_succeeds:
  assumes "check_array X = Inr ()" and "length X = length cs"
    and "\<forall>j < length X. set (X ! j) \<subseteq> set (cs ! j)"
  shows "onehot_transform cs X = Inr (concat (map2 encode_column cs X))"
proof -
  have "\<exists>u. onehot_check p = Inr u" if "p \<in> set (zip [0..<length X] (zip cs X))" for p
  proof -
    from that obtain j where j: "j < length X" and p: "p = (j, cs ! j, X ! j)"
      using assms(2) by (auto simp: in_set_zip)
    then show ?thesis using assms(3) by (simp add: onehot_check_Inr)
  qed
  then obtain u where "mapM onehot_check (zip [0..<length X] (zip cs X)) = Inr u"
    using mapM_all_Inr by blast
  with assms(1,2) show ?thesis by (simp add: onehot_transform_def)
qed

lemma encode_column_sample:
  "i < length c \<Longrightarrow> map (\<lambda>d. d ! i) (encode_column cats c) = onehot_encode cats (c ! i)"
  by (simp add: encode_column_def onehot_encode_def)

lemma length_encode_column [simp]: "length (encode_column cats c) = length cats"
  by (simp add: encode_column_def)

lemma rect_encode_column: "rect (length c) (encode_column cats c)"
  by (simp add: encode_column_def rect_def list_all_iff)

lemma sample_encode_column:
  "i < length c \<Longrightarrow> sample i (encode_column cats c) = encode_column cats [c ! i]"
  by (simp add: sample_def encode_column_def)

lemma onehot_decode_encode:
  "distinct cats \<Longrightarrow> x \<in> set cats \<Longrightarrow> onehot_decode cats (onehot_encode cats x) = Some x"
  by (induction cats) (auto simp: onehot_encode_def)

lemma count_onehot_encode:
  "distinct cats \<Longrightarrow> x \<in> set cats \<Longrightarrow> count_list (onehot_encode cats x) (Num 1) = 1"
proof (induction cats)
  case Nil
  then show ?case by simp
next
  case (Cons v vs)
  show ?case
  proof (cases "x = v")
    case True
    with Cons.prems have "x \<notin> set vs" by simp
    then have "count_list (onehot_encode vs x) (Num 1) = 0"
      by (auto simp: onehot_encode_def count_list_0_iff split: if_splits)
    with True show ?thesis by (simp add: onehot_encode_def)
  next
    case False
    with Cons show ?thesis by (simp add: onehot_encode_def)
  qed
qed

lemma length_concat_encode:
  "length X = length cs \<Longrightarrow>
   length (concat (map2 encode_column cs X)) = sum_list (map length cs)"
proof (induction cs arbitrary: X)
  case Nil
  then show ?case by simp
next
  case (Cons cats cs)
  then obtain c X' where "X = c # X'" by (cases X) auto
  with Cons show ?case by simp
qed


lemma onehot_transform_sample:
  assumes "onehot_transform cs X = Inr Z" and "rect n X" and "i < n"
  shows "onehot_transform cs (sample i X) = Inr (sample i Z) \<and> rect n Z"
proof -
  from onehot_transform_Inr [OF assms(1)]
  have ca: "check_array X = Inr ()" and len: "length X = length cs"
    and sub: "\<forall>j < length X. set (X ! j) \<subseteq> set (cs ! j)"
    and Z: "Z = concat (map2 encode_column cs X)" by blast+
  have sub': "\<forall>j < length (sample i X). set (sample i X ! j) \<subseteq> set (cs ! j)"
  proof (intro allI impI)
    fix j assume j: "j < length (sample i X)"
    then have "i < length (X ! j)" using assms(2,3) by (simp add: sample_def rect_nth)
    then have "X ! j ! i \<in> set (X ! j)" by simp
    with sub j show "set (sample i X ! j) \<subseteq> set (cs ! j)" by (auto simp: sample_def)
  qed
  have "concat (map2 encode_column cs (sample i X)) = sample i Z"
    unfolding Z using assms(2,3)
    by (rule sample_map2_concat) (metis sample_encode_column rect_nth assms(2,3))
  moreover have "rect n Z"
    unfolding Z using assms(2) by (rule rect_map2_concat) (metis rect_encode_column rect_nth assms(2))
  moreover have "length (sample i X) = length cs" using len by (simp add: sample_def)
  ultimately show ?thesis
    using onehot_transform_succeeds [OF check_array_sample [OF ca] _ sub'] by simp
qed


lemma onehot_check_Inl:
  "onehot_check (k, cats, c) = Inl e \<Longrightarrow> \<exists>v. e = UnknownCategory k v \<and> v \<in> set c \<and> v \<notin> set cats"
  by (auto simp: onehot_check_def find_Some_iff split: option.splits)

section \<open>Properties\<close>

text \<open>
  C33. The vocabulary the encoder learns for each column is sorted, free of duplicates and
  holds exactly the values of the column, as \<^verbatim>\<open>np.unique\<close> returns them; this fixes
  the order of the one-hot columns.
\<close>

theorem onehot_vocabulary:
  assumes "onehot_fit X = Inr cs"
  shows "list_all2 (\<lambda>cats c. sorted cats \<and> distinct cats \<and> set cats = set c) cs X"
proof -
  have "cs = map categories_of X" using onehot_fit_Inr [OF assms] by blast
  then show ?thesis by (simp add: list_all2_map1 list_all2_same categories_of_props)
qed

theorem onehot_vocabulary_witness:
  "onehot_fit [[Str ''male'', Str ''female'', Str ''male'']] = Inr [[Str ''female'', Str ''male'']] \<and>
   sorted [Str ''female'', Str ''male''] \<and> distinct [Str ''female'', Str ''male'']"
proof -
  have f: "onehot_fit [[Str ''male'', Str ''female'', Str ''male'']] = Inr [[Str ''female'', Str ''male'']]"
    by (simp add: onehot_fit_def check_array_def mixed_def categories_of_def)
  from onehot_vocabulary [OF f] f show ?thesis by simp
qed

text \<open>
  C30. Encoding is invertible and one-hot: in the output of a successful transform, the
  block of input column \<open>j\<close> starts after the blocks of the columns before it (as
  many columns as their vocabularies have entries), and the row of sample \<open>i\<close> in it
  has a single 1, at the position of the sample's category, so decoding it gives the
  category back.
\<close>

theorem onehot_roundtrip:
  assumes "onehot_fit X = Inr cs" and "onehot_transform cs Y = Inr Z"
    and "j < length Y" and "i < length (Y ! j)"
  shows "(\<exists>pre post. Z = pre @ encode_column (cs ! j) (Y ! j) @ post \<and>
                     length pre = sum_list (map length (take j cs))) \<and>
         onehot_decode (cs ! j) (map (\<lambda>d. d ! i) (encode_column (cs ! j) (Y ! j))) = Some (Y ! j ! i) \<and>
         count_list (map (\<lambda>d. d ! i) (encode_column (cs ! j) (Y ! j))) (Num 1) = 1"
proof -
  have cs: "cs = map categories_of X" using onehot_fit_Inr [OF assms(1)] by blast
  from onehot_transform_Inr [OF assms(2)]
  have len: "length Y = length cs" and sub: "set (Y ! j) \<subseteq> set (cs ! j)"
    and Z: "Z = concat (map2 encode_column cs Y)"
    using assms(3) by auto
  have j: "j < length cs" using assms(3) len by simp
  have d: "distinct (cs ! j)" using j by (simp add: cs categories_of_props)
  have x: "Y ! j ! i \<in> set (cs ! j)" using sub assms(4) by auto
  have row: "map (\<lambda>d. d ! i) (encode_column (cs ! j) (Y ! j)) = onehot_encode (cs ! j) (Y ! j ! i)"
    using assms(4) by (rule encode_column_sample)
  have blk: "Z = concat (map2 encode_column (take j cs) (take j Y)) @ encode_column (cs ! j) (Y ! j) @
                 concat (map2 encode_column (drop (Suc j) cs) (drop (Suc j) Y))"
    unfolding Z using j len [symmetric] by (rule concat_map2_block)
  have "length (concat (map2 encode_column (take j cs) (take j Y))) = sum_list (map length (take j cs))"
    using len by (intro length_concat_encode) simp
  with blk have "\<exists>pre post. Z = pre @ encode_column (cs ! j) (Y ! j) @ post \<and>
                            length pre = sum_list (map length (take j cs))" by blast
  with row onehot_decode_encode [OF d x] count_onehot_encode [OF d x] show ?thesis by simp
qed

theorem onehot_roundtrip_witness:
  "onehot_fit [[Str ''female'', Str ''male'']] = Inr [[Str ''female'', Str ''male'']] \<and>
   onehot_transform [[Str ''female'', Str ''male'']] [[Str ''male'']] = Inr [[Num 0], [Num 1]] \<and>
   onehot_decode [Str ''female'', Str ''male''] [Num 0, Num 1] = Some (Str ''male'')"
proof -
  have f: "onehot_fit [[Str ''female'', Str ''male'']] = Inr [[Str ''female'', Str ''male'']]"
    by (simp add: onehot_fit_def check_array_def mixed_def categories_of_def)
  have t: "onehot_transform [[Str ''female'', Str ''male'']] [[Str ''male'']] = Inr [[Num 0], [Num 1]]"
    by (simp add: onehot_transform_def check_array_def onehot_check_def encode_column_def)
  from onehot_roundtrip [OF f t, of 0 0] f t show ?thesis by (simp add: encode_column_def)
qed

text \<open>
  C12. A category that the training column never held makes the transform raise
  (\<^verbatim>\<open>handle_unknown="error"\<close>, the default the code keeps): the exception names a
  column and a value of the input that its vocabulary lacks. The spec asks instead that
  unseen categories be ignored as a zero vector.
\<close>

theorem onehot_unseen_category_raises:
  assumes "onehot_fit X = Inr cs" and "rect n Y" and "length Y = length X"
    and "j < length Y" and "x \<in> set (Y ! j)" and "x \<notin> set (X ! j)"
  shows "\<exists>k v. onehot_transform cs Y = Inl (UnknownCategory k v) \<and>
               k < length Y \<and> v \<in> set (Y ! k) \<and> v \<notin> set (X ! k)"
proof -
  have cs: "cs = map categories_of X" using onehot_fit_Inr [OF assms(1)] by blast
  have "length (Y ! j) = n" using assms(2,4) by (simp add: rect_nth)
  moreover have "Y ! j \<noteq> []" using assms(5) by auto
  ultimately have "0 < n" by auto
  then have ca: "check_array Y = Inr ()"
    using assms(2,4) by (cases Y) (auto simp: check_array_def)
  have len: "length Y = length cs" using assms(3) cs by simp
  let ?ps = "zip [0..<length Y] (zip cs Y)"
  have not_ok: "\<not> (\<exists>u. mapM onehot_check ?ps = Inr u)"
  proof
    assume "\<exists>u. mapM onehot_check ?ps = Inr u"
    with ca len have "onehot_transform cs Y = Inr (concat (map2 encode_column cs Y))"
      by (auto simp: onehot_transform_def)
    from onehot_transform_Inr [OF this] assms(4) have "set (Y ! j) \<subseteq> set (cs ! j)" by blast
    with assms(3,4,5,6) cs show False by (auto simp: categories_of_props)
  qed
  then obtain e where m: "mapM onehot_check ?ps = Inl e" by (cases "mapM onehot_check ?ps") auto
  from mapM_Inl_ex [OF m] obtain p where p: "p \<in> set ?ps" and pe: "onehot_check p = Inl e" by blast
  from p len obtain k where k: "k < length Y" and pk: "p = (k, cs ! k, Y ! k)"
    by (auto simp: in_set_zip)
  from onehot_check_Inl pe pk obtain v where
    e: "e = UnknownCategory k v" and v: "v \<in> set (Y ! k)" "v \<notin> set (cs ! k)" by blast
  have "onehot_transform cs Y = Inl e" using ca len m by (simp add: onehot_transform_def)
  with e v k assms(3) cs show ?thesis by (auto simp: categories_of_props)
qed

theorem onehot_unseen_category_raises_witness:
  "onehot_fit [[Str ''female'', Str ''male'']] = Inr [[Str ''female'', Str ''male'']] \<and>
   onehot_transform [[Str ''female'', Str ''male'']] [[Str ''other'']] =
     Inl (UnknownCategory 0 (Str ''other''))"
proof -
  have f: "onehot_fit [[Str ''female'', Str ''male'']] = Inr [[Str ''female'', Str ''male'']]"
    by (simp add: onehot_fit_def check_array_def mixed_def categories_of_def)
  have "\<exists>k v. onehot_transform [[Str ''female'', Str ''male'']] [[Str ''other'']] = Inl (UnknownCategory k v) \<and>
          k < 1 \<and> v \<in> set ([[Str ''other'']] ! k) \<and> v \<notin> set ([[Str ''female'', Str ''male'']] ! k)"
    using onehot_unseen_category_raises [OF f, of 1 "[[Str ''other'']]" 0 "Str ''other''"] by simp
  then show ?thesis using f by auto
qed

end
