(* ===== verification/Scaler.thy ===== *)
theory Scaler
  imports Imputer
begin

text \<open>
  \<^verbatim>\<open>StandardScaler()\<close> of the numeric pipeline and
  \<^verbatim>\<open>StandardScaler(with_mean=False)\<close> of the categorical one
  (\<^verbatim>\<open>src/components/data_transformation.py\<close>, lines 48 and 57). Fitting computes per
  column the mean and the population variance of the values present (NaN is ignored, as
  \<^verbatim>\<open>_incremental_mean_and_var\<close> does) and the scale \<open>sqrt var\<close>, or 1 for a
  constant column (\<^verbatim>\<open>_handle_zeros_in_scale\<close>); transforming maps \<open>x\<close> to
  \<open>(x - mean) / scale\<close>, or to \<open>x / scale\<close> without centring, and keeps NaN.
  Arithmetic is over the reals: floating-point rounding is not modelled. The lemmas show
  that a centred column of the training matrix has mean 0 and, unless constant, variance
  1, and that the uncentred scaler keeps zeros and signs (the sparsity of one-hot input).
\<close>

section \<open>Statistics\<close>

definition mean :: "real list \<Rightarrow> real" where
  "mean xs = sum_list xs / real (length xs)"

definition variance :: "real list \<Rightarrow> real" where
  "variance xs = sum_list (map (\<lambda>x. (x - mean xs)\<^sup>2) xs) / real (length xs)"

definition scale_of :: "real \<Rightarrow> real" where
  "scale_of v = (if v = 0 then 1 else sqrt v)"

text \<open>A column of NaN only keeps NaN whatever its statistics; 0 and 1 stand for them.\<close>

definition column_stats :: "column \<Rightarrow> real \<times> real" where
  "column_stats c =
     (let xs = map num_of (present c)
      in if xs = [] then (0, 1) else (mean xs, scale_of (variance xs)))"

section \<open>fit and transform\<close>

record scaler_state =
  with_mean :: bool
  means :: "real list"
  scales :: "real list"

definition scaler_validate :: "matrix \<Rightarrow> unit result" where
  "scaler_validate X = (if \<not> numeric X then Inl NonNumeric else check_array X)"

definition scaler_fit :: "bool \<Rightarrow> matrix \<Rightarrow> scaler_state result" where
  "scaler_fit wm X =
     res_bind (scaler_validate X) (\<lambda>_.
       Inr \<lparr>with_mean = wm, means = map (fst \<circ> column_stats) X,
            scales = map (snd \<circ> column_stats) X\<rparr>)"

definition scale_cell :: "bool \<Rightarrow> real \<Rightarrow> real \<Rightarrow> cell \<Rightarrow> cell" where
  "scale_cell wm m s x =
     (case x of Num r \<Rightarrow> Num (if wm then (r - m) / s else r / s) | _ \<Rightarrow> x)"

definition scaler_transform :: "scaler_state \<Rightarrow> matrix \<Rightarrow> matrix result" where
  "scaler_transform st X =
     res_bind (scaler_validate X) (\<lambda>_.
       if length X \<noteq> length (means st) then Inl (FeatureMismatch (length X) (length (means st)))
       else Inr (map (\<lambda>(m, s, c). map (scale_cell (with_mean st) m s) c)
                     (zip (means st) (zip (scales st) X))))"

section \<open>Lemmas\<close>

lemma scaler_fit_Inr:
  "scaler_fit wm X = Inr st \<Longrightarrow>
   scaler_validate X = Inr () \<and>
   st = \<lparr>with_mean = wm, means = map (fst \<circ> column_stats) X, scales = map (snd \<circ> column_stats) X\<rparr>"
  by (cases "scaler_validate X") (auto simp: scaler_fit_def)

lemma scaler_transform_Inr:
  "scaler_transform st X = Inr Z \<Longrightarrow>
   scaler_validate X = Inr () \<and> length X = length (means st) \<and>
   Z = map (\<lambda>(m, s, c). map (scale_cell (with_mean st) m s) c) (zip (means st) (zip (scales st) X))"
  by (cases "scaler_validate X") (auto simp: scaler_transform_def split: if_splits)

lemma scale_of_pos: "0 \<le> v \<Longrightarrow> 0 < scale_of v"
  by (simp add: scale_of_def)

lemma variance_nonneg: "0 \<le> variance xs"
  unfolding variance_def by (intro divide_nonneg_nonneg sum_list_nonneg) auto

lemma present_map_scale_cell:
  "numeric [c] \<Longrightarrow>
   present (map (scale_cell wm m s) c) =
   map (\<lambda>r. Num (if wm then (r - m) / s else r / s)) (map num_of (present c))"
  by (induction c) (auto simp: present_def scale_cell_def numeric_def split: cell.splits)

lemma sum_list_map_div: "sum_list (map (\<lambda>x. f x / s) xs) = sum_list (map f xs) / (s::real)"
  by (induction xs) (simp_all add: add_divide_distrib)

lemma sum_list_map_sub: "sum_list (map (\<lambda>x. x - m) xs) = sum_list xs - real (length xs) * (m::real)"
  by (induction xs) (simp_all add: algebra_simps)

lemma sum_centred_zero: "xs \<noteq> [] \<Longrightarrow> sum_list (map (\<lambda>x. (x - mean xs) / s) xs) = 0"
  by (simp add: sum_list_map_div sum_list_map_sub mean_def)

lemma sum_squares_standardised:
  assumes "xs \<noteq> []" and "variance xs \<noteq> 0"
  shows "sum_list (map (\<lambda>x. ((x - mean xs) / scale_of (variance xs))\<^sup>2) xs) = real (length xs)"
proof -
  have v: "0 < variance xs" using assms(2) variance_nonneg [of xs] by linarith
  have sq: "(scale_of (variance xs))\<^sup>2 = variance xs"
    using v by (simp add: scale_of_def)
  have "sum_list (map (\<lambda>x. ((x - mean xs) / scale_of (variance xs))\<^sup>2) xs)
        = sum_list (map (\<lambda>x. (x - mean xs)\<^sup>2) xs) / variance xs"
    by (simp add: power_divide sum_list_map_div sq)
  also have "\<dots> = real (length xs)"
  proof -
    have "sum_list (map (\<lambda>x. (x - mean xs)\<^sup>2) xs) \<noteq> 0" using v by (auto simp: variance_def)
    moreover have "real (length xs) \<noteq> 0" using assms(1) by simp
    ultimately show ?thesis by (simp add: variance_def)
  qed
  finally show ?thesis .
qed


lemma scaler_transform_sample:
  assumes "scaler_transform st X = Inr Z" and "rect n X" and "i < n"
  shows "scaler_transform st (sample i X) = Inr (sample i Z) \<and> rect n Z"
proof -
  from scaler_transform_Inr [OF assms(1)]
  have v: "scaler_validate X = Inr ()" and len: "length X = length (means st)"
    and Z: "Z = map (\<lambda>(m, s, c). map (scale_cell (with_mean st) m s) c) (zip (means st) (zip (scales st) X))"
    by blast+
  have v': "scaler_validate (sample i X) = Inr ()"
    using v assms(2,3) by (auto simp: scaler_validate_def numeric_sample check_array_sample split: if_splits)
  show ?thesis
    using v' len assms(2,3) sample_map_zip3 [OF assms(2,3), of "scale_cell (with_mean st)" "means st" "scales st"]
      rect_map_zip3 [OF assms(2)]
    by (simp add: Z scaler_transform_def sample_def)
qed


lemma column_stats_scale_pos: "0 < snd (column_stats c)"
  by (simp add: column_stats_def Let_def scale_of_pos variance_nonneg)

lemma scaler_fit_transform_column:
  assumes "scaler_fit wm X = Inr st" and "scaler_transform st X = Inr Z" and "j < length Z"
  shows "j < length X \<and> numeric [X ! j] \<and>
         Z ! j = map (scale_cell wm (fst (column_stats (X ! j))) (snd (column_stats (X ! j)))) (X ! j)"
proof -
  from scaler_fit_Inr [OF assms(1)]
  have v: "scaler_validate X = Inr ()"
    and st: "st = \<lparr>with_mean = wm, means = map (fst \<circ> column_stats) X,
                   scales = map (snd \<circ> column_stats) X\<rparr>" by blast+
  from scaler_transform_Inr [OF assms(2)]
  have Z: "Z = map (\<lambda>(m, s, c). map (scale_cell (with_mean st) m s) c) (zip (means st) (zip (scales st) X))"
    by blast
  have j: "j < length X" using assms(3) by (simp add: Z st)
  have "numeric X" using v by (simp add: scaler_validate_def split: if_splits)
  then have "numeric [X ! j]" using j by (simp add: numeric_def list_all_length)
  with j show ?thesis by (simp add: Z st)
qed

section \<open>Properties\<close>

text \<open>
  C36. Standardisation of the numeric columns: on the matrix it was fitted on, the centring
  scaler outputs, in every column that has a value, values whose mean is 0 and, unless the
  column was constant, whose population variance is 1.
\<close>

theorem scaler_standardises:
  assumes "scaler_fit True X = Inr st" and "scaler_transform st X = Inr Z"
    and "j < length Z" and "present (X ! j) \<noteq> []"
  shows "mean (map num_of (present (Z ! j))) = 0 \<and>
         (variance (map num_of (present (X ! j))) \<noteq> 0 \<longrightarrow>
          variance (map num_of (present (Z ! j))) = 1)"
proof -
  let ?xs = "map num_of (present (X ! j))"
  from scaler_fit_transform_column [OF assms(1-3)]
  have num: "numeric [X ! j]"
    and Zj: "Z ! j = map (scale_cell True (fst (column_stats (X ! j))) (snd (column_stats (X ! j)))) (X ! j)"
    by blast+
  have ne: "?xs \<noteq> []" using assms(4) by simp
  have cs: "column_stats (X ! j) = (mean ?xs, scale_of (variance ?xs))"
    using ne by (simp add: column_stats_def Let_def)
  have out: "map num_of (present (Z ! j)) = map (\<lambda>x. (x - mean ?xs) / scale_of (variance ?xs)) ?xs"
    using present_map_scale_cell [OF num] by (simp add: Zj cs comp_def)
  have m0: "mean (map num_of (present (Z ! j))) = 0"
    using sum_centred_zero [OF ne] by (simp add: out mean_def)
  moreover have "variance (map num_of (present (Z ! j))) = 1" if v: "variance ?xs \<noteq> 0"
  proof -
    have "variance (map num_of (present (Z ! j))) =
          sum_list (map (\<lambda>x. ((x - mean ?xs) / scale_of (variance ?xs))\<^sup>2) ?xs) / real (length ?xs)"
      using m0 by (simp add: variance_def out comp_def)
    also have "\<dots> = 1" using sum_squares_standardised [OF ne v] ne by simp
    finally show ?thesis .
  qed
  ultimately show ?thesis by blast
qed

theorem scaler_standardises_witness:
  "scaler_fit True [[Num 1, Num 3, Missing]] = Inr \<lparr>with_mean = True, means = [2], scales = [1]\<rparr> \<and>
   scaler_transform \<lparr>with_mean = True, means = [2], scales = [1]\<rparr> [[Num 1, Num 3, Missing]] =
     Inr [[Num (-1), Num 1, Missing]] \<and>
   mean [-1, 1] = 0 \<and> variance [-1, 1] = 1"
proof -
  have f: "scaler_fit True [[Num 1, Num 3, Missing]] = Inr \<lparr>with_mean = True, means = [2], scales = [1]\<rparr>"
    by (simp add: scaler_fit_def scaler_validate_def numeric_def check_array_def column_stats_def
        present_def mean_def variance_def scale_of_def)
  have t: "scaler_transform \<lparr>with_mean = True, means = [2], scales = [1]\<rparr> [[Num 1, Num 3, Missing]] =
           Inr [[Num (-1), Num 1, Missing]]"
    by (simp add: scaler_transform_def scaler_validate_def numeric_def check_array_def scale_cell_def)
  have "variance (map num_of (present [Num 1, Num 3, Missing])) \<noteq> 0"
    by (simp add: present_def variance_def mean_def)
  with scaler_standardises [OF f t, of 0] f t show ?thesis by (simp add: present_def)
qed

text \<open>
  C37. The scaler without centring, which follows the one-hot encoder, keeps every zero a
  zero and every positive value positive: the scale it divides by is positive, so the
  sparse 0/1 structure of the encoded columns survives.
\<close>

theorem scaler_uncentred_keeps_zero_and_sign:
  assumes "scaler_fit False X = Inr st" and "scaler_transform st Y = Inr Z"
    and "j < length Z" and "i < length (Y ! j)" and "Y ! j ! i = Num r"
  shows "(r = 0 \<longrightarrow> Z ! j ! i = Num 0) \<and> (0 < r \<longrightarrow> (\<exists>r'. Z ! j ! i = Num r' \<and> 0 < r'))"
proof -
  from scaler_fit_Inr [OF assms(1)]
  have st: "st = \<lparr>with_mean = False, means = map (fst \<circ> column_stats) X,
                   scales = map (snd \<circ> column_stats) X\<rparr>" by blast
  from scaler_transform_Inr [OF assms(2)]
  have len: "length Y = length (means st)"
    and Z: "Z = map (\<lambda>(m, s, c). map (scale_cell (with_mean st) m s) c) (zip (means st) (zip (scales st) Y))"
    by blast+
  have j: "j < length X" "j < length Y" using assms(3) by (simp_all add: Z st)
  let ?s = "snd (column_stats (X ! j))"
  have Zji: "Z ! j ! i = Num (r / ?s)"
    using j assms(4,5) by (simp add: Z st scale_cell_def)
  have "0 < ?s" by (rule column_stats_scale_pos)
  with Zji show ?thesis by auto
qed

theorem scaler_uncentred_keeps_zero_and_sign_witness:
  "scaler_fit False [[Num 0, Num 1]] = Inr \<lparr>with_mean = False, means = [1/2], scales = [1/2]\<rparr> \<and>
   scaler_transform \<lparr>with_mean = False, means = [1/2], scales = [1/2]\<rparr> [[Num 0, Num 1]] =
     Inr [[Num 0, Num 2]]"
proof -
  have f: "scaler_fit False [[Num 0, Num 1]] = Inr \<lparr>with_mean = False, means = [1/2], scales = [1/2]\<rparr>"
    by (simp add: scaler_fit_def scaler_validate_def numeric_def check_array_def column_stats_def
        present_def mean_def variance_def scale_of_def real_sqrt_divide power2_eq_square)
  have t: "scaler_transform \<lparr>with_mean = False, means = [1/2], scales = [1/2]\<rparr> [[Num 0, Num 1]] =
           Inr [[Num 0, Num 2]]"
    by (simp add: scaler_transform_def scaler_validate_def numeric_def check_array_def scale_cell_def)
  from scaler_uncentred_keeps_zero_and_sign [OF f t, of 0 0 0] f t show ?thesis by simp
qed

end
