(* ===== verification/Column_Transformer.thy ===== *)
theory Column_Transformer
  imports One_Hot Scaler
begin

text \<open>
  The preprocessing object of \<^verbatim>\<open>DataTransformation.get_data_transformer_object\<close>
  (\<^verbatim>\<open>src/components/data_transformation.py\<close>, lines 29--77) and the two scikit-learn
  combinators it is built from. A pipeline (\<^verbatim>\<open>Pipeline(steps=...)\<close>) is a list of
  named steps; \<open>pipeline_fit_transform\<close> fits each step on the output of the one
  before and keeps the fitted states, \<open>pipeline_transform\<close> replays the fitted states.
  A column transformer (\<^verbatim>\<open>ColumnTransformer([...])\<close>, \<^verbatim>\<open>remainder="drop"\<close>)
  routes named columns of a data frame through one pipeline each and stacks the outputs
  side by side in the order of its transformers; its fitted state (\<open>ct_state\<close>) is
  what \<^verbatim>\<open>save_object\<close> persists. The lemmas show that the fitted state replays the
  training output exactly, that transforming one row gives the same features as
  transforming it inside a batch, and that the output width is fixed by the state.
\<close>

section \<open>Steps and pipelines\<close>

datatype step = SimpleImputer strategy | OneHotEncoder | StandardScaler bool

datatype step_state =
    ImputerSt strategy "cell option list"
  | OneHotSt "cell list list"
  | ScalerSt scaler_state

type_synonym pipeline = "(string \<times> step) list"
type_synonym fitted_pipeline = "(string \<times> step_state) list"

fun step_fit :: "step \<Rightarrow> matrix \<Rightarrow> step_state result" where
  "step_fit (SimpleImputer s) X = res_bind (imputer_fit s X) (\<lambda>st. Inr (ImputerSt s st))"
| "step_fit OneHotEncoder X = res_bind (onehot_fit X) (\<lambda>cs. Inr (OneHotSt cs))"
| "step_fit (StandardScaler wm) X = res_bind (scaler_fit wm X) (\<lambda>st. Inr (ScalerSt st))"

fun step_transform :: "step_state \<Rightarrow> matrix \<Rightarrow> matrix result" where
  "step_transform (ImputerSt s st) X = imputer_transform s st X"
| "step_transform (OneHotSt cs) X = onehot_transform cs X"
| "step_transform (ScalerSt st) X = scaler_transform st X"

text \<open>
  \<^verbatim>\<open>Pipeline.fit_transform\<close>: every step's \<^verbatim>\<open>fit_transform\<close>, which for these three
  estimators is \<^verbatim>\<open>fit(X).transform(X)\<close>, on the output of the step before.
\<close>

fun pipeline_fit_transform :: "pipeline \<Rightarrow> matrix \<Rightarrow> (fitted_pipeline \<times> matrix) result" where
  "pipeline_fit_transform [] X = Inr ([], X)"
| "pipeline_fit_transform ((nm, s) # ss) X =
     res_bind (step_fit s X) (\<lambda>st.
       res_bind (step_transform st X) (\<lambda>X'.
         res_bind (pipeline_fit_transform ss X') (\<lambda>(sts, Y). Inr ((nm, st) # sts, Y))))"

fun pipeline_transform :: "fitted_pipeline \<Rightarrow> matrix \<Rightarrow> matrix result" where
  "pipeline_transform [] X = Inr X"
| "pipeline_transform ((nm, st) # sts) X = res_bind (step_transform st X) (pipeline_transform sts)"

section \<open>The column transformer\<close>

type_synonym ct_config = "(string \<times> pipeline \<times> string list) list"
type_synonym ct_state = "(string \<times> fitted_pipeline \<times> string list) list"

text \<open>\<^verbatim>\<open>df[cols]\<close>: a column that the frame does not have raises.\<close>

definition select_column :: "frame \<Rightarrow> string \<Rightarrow> column result" where
  "select_column F n = (case map_of F n of None \<Rightarrow> Inl (KeyError n) | Some c \<Rightarrow> Inr c)"

definition select_columns :: "frame \<Rightarrow> string list \<Rightarrow> matrix result" where
  "select_columns F cols = mapM (select_column F) cols"

fun ct_fit_parts :: "ct_config \<Rightarrow> matrix list \<Rightarrow> (ct_state \<times> matrix list) result" where
  "ct_fit_parts ((nm, p, cols) # cfg) (X # Xs) =
     res_bind (pipeline_fit_transform p X) (\<lambda>(sts, Y).
       res_bind (ct_fit_parts cfg Xs) (\<lambda>(st, Ys). Inr ((nm, sts, cols) # st, Y # Ys)))"
| "ct_fit_parts cfg Xs = Inr ([], [])"

text \<open>
  \<^verbatim>\<open>ColumnTransformer.fit_transform\<close>: the columns of every transformer are looked up
  first (\<^verbatim>\<open>_validate_column_callables\<close>), then each pipeline is fitted on its columns
  and the outputs are stacked (\<^verbatim>\<open>_hstack\<close>), numeric block first.
\<close>

definition ct_fit_transform :: "ct_config \<Rightarrow> frame \<Rightarrow> (ct_state \<times> matrix) result" where
  "ct_fit_transform cfg F =
     res_bind (mapM (\<lambda>(nm, p, cols). select_columns F cols) cfg) (\<lambda>Xs.
       res_bind (ct_fit_parts cfg Xs) (\<lambda>(st, Ys). Inr (st, concat Ys)))"

definition ct_columns :: "ct_state \<Rightarrow> string list" where
  "ct_columns st = concat (map (\<lambda>(nm, sts, cols). cols) st)"

text \<open>
  \<^verbatim>\<open>ColumnTransformer.transform\<close> on a data frame: \<^verbatim>\<open>columns are missing: {diff}\<close>
  when a fitted column is absent; otherwise every fitted pipeline is replayed on its
  columns and the outputs are stacked.
\<close>

definition ct_transform :: "ct_state \<Rightarrow> frame \<Rightarrow> matrix result" where
  "ct_transform st F =
     (let missing = filter (\<lambda>n. n \<notin> set (map fst F)) (ct_columns st)
      in if missing \<noteq> [] then Inl (ColumnsMissing (remdups missing))
         else res_bind (mapM (\<lambda>(nm, sts, cols). res_bind (select_columns F cols) (pipeline_transform sts)) st)
                (\<lambda>Ys. Inr (concat Ys)))"

section \<open>The configuration of get_data_transformer_object\<close>

definition numerical_columns :: "string list" where
  "numerical_columns = [''writing_score'', ''reading_score'']"

definition categorical_columns :: "string list" where
  "categorical_columns =
     [''gender'', ''race_ethnicity'', ''parental_level_of_education'', ''lunch'',
      ''test_preparation_course'']"

definition num_pipeline :: pipeline where
  "num_pipeline = [(''imputer'', SimpleImputer Median), (''scaler'', StandardScaler True)]"

definition cat_pipeline :: pipeline where
  "cat_pipeline =
     [(''imputer'', SimpleImputer MostFrequent), (''one_hot_encoder'', OneHotEncoder),
      (''scaler'', StandardScaler False)]"

definition get_data_transformer_object :: ct_config where
  "get_data_transformer_object =
     [(''num_pipeline'', num_pipeline, numerical_columns),
      (''cat_pipeline'', cat_pipeline, categorical_columns)]"

text \<open>
  Two students in the layout of \<^verbatim>\<open>notebook/data/stud.csv\<close> (the first is the
  submission of the spec's end-to-end example), used by the witnesses.
\<close>

definition student_sample :: frame where
  "student_sample =
     [(''gender'', [Str ''female'', Str ''male'']),
      (''race_ethnicity'', [Str ''group B'', Str ''group C'']),
      (''parental_level_of_education'', [Str ''bachelor's degree'', Str ''some college'']),
      (''lunch'', [Str ''standard'', Str ''free/reduced'']),
      (''test_preparation_course'', [Str ''none'', Str ''completed'']),
      (''math_score'', [Num 72, Num 69]),
      (''reading_score'', [Num 72, Num 70]),
      (''writing_score'', [Num 74, Num 72])]"

section \<open>Output width\<close>

text \<open>The number of output columns a fitted state produces from \<open>w\<close> input columns.\<close>

fun step_width :: "step_state \<Rightarrow> nat \<Rightarrow> nat" where
  "step_width (ImputerSt s st) w = length (filter (\<lambda>so. so \<noteq> None) st)"
| "step_width (OneHotSt cs) w = sum_list (map length cs)"
| "step_width (ScalerSt st) w = min (length (means st)) (length (scales st))"

definition pipeline_width :: "fitted_pipeline \<Rightarrow> nat \<Rightarrow> nat" where
  "pipeline_width sts w = foldl (\<lambda>w (nm, st). step_width st w) w sts"

definition ct_width :: "ct_state \<Rightarrow> nat" where
  "ct_width st = sum_list (map (\<lambda>(nm, sts, cols). pipeline_width sts (length cols)) st)"

section \<open>Evaluation rules\<close>

lemmas estimator_eval =
  imputer_fit_def imputer_validate_def numeric_def check_array_def impute_stat_def present_def
  median_def most_frequent_def modes_def max_count_def mixed_def imputer_transform_def fill_def
  onehot_fit_def categories_of_def onehot_transform_def onehot_check_def encode_column_def
  scaler_fit_def scaler_validate_def column_stats_def mean_def variance_def scale_of_def
  scaler_transform_def scale_cell_def real_sqrt_divide

lemmas ct_eval =
  estimator_eval ct_fit_transform_def ct_transform_def ct_columns_def select_columns_def
  select_column_def get_data_transformer_object_def num_pipeline_def cat_pipeline_def
  numerical_columns_def categorical_columns_def

section \<open>Replaying a fit\<close>

lemma pipeline_replay:
  "pipeline_fit_transform p X = Inr (sts, Y) \<Longrightarrow> pipeline_transform sts X = Inr Y"
proof (induction p arbitrary: X sts Y)
  case Nil
  then show ?case by simp
next
  case (Cons a p)
  obtain nm s where a: "a = (nm, s)" by (cases a)
  from Cons.prems a obtain st X' sts' where
    "step_fit s X = Inr st" and tr: "step_transform st X = Inr X'" and
    rest: "pipeline_fit_transform p X' = Inr (sts', Y)" and sts: "sts = (nm, st) # sts'"
    by (auto simp: res_bind_eq_Inr split: prod.splits)
  from rest have "pipeline_transform sts' X' = Inr Y" by (rule Cons.IH)
  with tr sts show ?case by simp
qed

lemma select_column_Inr:
  "select_column F n = Inr c \<longleftrightarrow> map_of F n = Some c"
  by (auto simp: select_column_def split: option.splits)

lemma select_column_name: "select_column F n = Inr c \<Longrightarrow> n \<in> set (map fst F)"
  by (force simp: select_column_Inr dest!: map_of_SomeD)

lemma select_columns_names:
  "select_columns F cols = Inr X \<Longrightarrow> set cols \<subseteq> set (map fst F)"
proof
  fix n
  assume "select_columns F cols = Inr X" and n: "n \<in> set cols"
  then obtain c where "select_column F n = Inr c"
    by (auto simp: select_columns_def mapM_Inr_iff dest: list_all2_ex_left)
  then show "n \<in> set (map fst F)" by (rule select_column_name)
qed

lemma ct_fit_parts_replay:
  assumes "mapM (\<lambda>(nm, p, cols). select_columns F cols) cfg = Inr Xs"
    and "ct_fit_parts cfg Xs = Inr (st, Ys)"
  shows "mapM (\<lambda>(nm, sts, cols). res_bind (select_columns F cols) (pipeline_transform sts)) st = Inr Ys \<and>
         ct_columns st = concat (map (\<lambda>(nm, p, cols). cols) cfg)"
  using assms
proof (induction cfg arbitrary: Xs st Ys)
  case Nil
  then show ?case by (simp add: ct_columns_def)
next
  case (Cons t cfg)
  obtain nm p cols where t: "t = (nm, p, cols)" by (cases t)
  from Cons.prems(1) t obtain X Xs' where
    sel: "select_columns F cols = Inr X" and sels: "mapM (\<lambda>(nm, p, cols). select_columns F cols) cfg = Inr Xs'"
    and Xs: "Xs = X # Xs'"
    by (auto simp: res_bind_eq_Inr)
  from Cons.prems(2) t Xs obtain sts Y st' Ys' where
    pf: "pipeline_fit_transform p X = Inr (sts, Y)" and
    parts: "ct_fit_parts cfg Xs' = Inr (st', Ys')" and
    st: "st = (nm, sts, cols) # st'" and Ys: "Ys = Y # Ys'"
    by (auto simp: res_bind_eq_Inr split: prod.splits)
  from Cons.IH [OF sels parts] pipeline_replay [OF pf] sel st Ys t show ?case
    by (simp add: ct_columns_def)
qed


lemma ct_fit_transform_Inr:
  assumes "ct_fit_transform cfg F = Inr (st, Y)"
  obtains Xs Ys where "mapM (\<lambda>(nm, p, cols). select_columns F cols) cfg = Inr Xs"
    and "ct_fit_parts cfg Xs = Inr (st, Ys)" and "Y = concat Ys"
  using assms by (auto simp: ct_fit_transform_def res_bind_eq_Inr split: prod.splits)

lemma selected_names:
  assumes "mapM (\<lambda>(nm, p, cols). select_columns F cols) cfg = Inr Xs"
  shows "set (concat (map (\<lambda>(nm, p, cols). cols) cfg)) \<subseteq> set (map fst F)"
proof
  fix n
  assume "n \<in> set (concat (map (\<lambda>(nm, p, cols). cols) cfg))"
  then obtain nm p cols where t: "(nm, p, cols) \<in> set cfg" and n: "n \<in> set cols" by auto
  from assms t obtain X where "select_columns F cols = Inr X"
    by (auto simp: mapM_Inr_iff dest: list_all2_ex_left)
  with n show "n \<in> set (map fst F)" using select_columns_names by blast
qed

lemma ct_replay:
  assumes "ct_fit_transform cfg F = Inr (st, Y)"
  shows "ct_transform st F = Inr Y"
proof -
  obtain Xs Ys where sel: "mapM (\<lambda>(nm, p, cols). select_columns F cols) cfg = Inr Xs"
    and parts: "ct_fit_parts cfg Xs = Inr (st, Ys)" and Y: "Y = concat Ys"
    using assms by (rule ct_fit_transform_Inr)
  from ct_fit_parts_replay [OF sel parts]
  have m: "mapM (\<lambda>(nm, sts, cols). res_bind (select_columns F cols) (pipeline_transform sts)) st = Inr Ys"
    and cols: "ct_columns st = concat (map (\<lambda>(nm, p, cols). cols) cfg)"
    by blast+
  have sub: "set (ct_columns st) \<subseteq> set (map fst F)"
    using selected_names [OF sel] by (simp only: cols)
  then have "filter (\<lambda>n. n \<notin> set (map fst F)) (ct_columns st) = []"
    by (simp only: filter_empty_conv subset_iff) blast
  with m Y show ?thesis by (simp add: ct_transform_def)
qed


section \<open>One row at a time\<close>

lemma step_transform_sample:
  assumes "step_transform st X = Inr Z" and "rect n X" and "i < n"
  shows "step_transform st (sample i X) = Inr (sample i Z) \<and> rect n Z"
  using assms
proof (cases st)
  case (ImputerSt s sts)
  with assms show ?thesis using imputer_transform_sample by simp
next
  case (OneHotSt cs)
  with assms show ?thesis using onehot_transform_sample by simp
next
  case (ScalerSt sst)
  with assms show ?thesis using scaler_transform_sample by simp
qed

lemma pipeline_transform_sample:
  "pipeline_transform sts X = Inr Z \<Longrightarrow> rect n X \<Longrightarrow> i < n \<Longrightarrow>
   pipeline_transform sts (sample i X) = Inr (sample i Z)"
proof (induction sts arbitrary: X)
  case Nil
  then show ?case by simp
next
  case (Cons a sts)
  obtain nm st where a: "a = (nm, st)" by (cases a)
  from Cons.prems a obtain X' where
    tr: "step_transform st X = Inr X'" and rest: "pipeline_transform sts X' = Inr Z"
    by (auto simp: res_bind_eq_Inr)
  from step_transform_sample [OF tr Cons.prems(2,3)]
  have tr': "step_transform st (sample i X) = Inr (sample i X')" and r: "rect n X'" by blast+
  from Cons.IH [OF rest r Cons.prems(3)] tr' a show ?case by simp
qed

lemma map_of_frame_row: "map_of (frame_row i F) n = map_option (\<lambda>c. [c ! i]) (map_of F n)"
  by (simp add: frame_row_def map_of_map)

lemma select_columns_row:
  assumes "select_columns F cols = Inr X" and "frame_rect n F"
  shows "select_columns (frame_row i F) cols = Inr (sample i X) \<and> rect n X"
proof -
  from assms(1) have a: "list_all2 (\<lambda>x y. map_of F x = Some y) cols X"
    by (simp add: select_columns_def mapM_Inr_iff select_column_Inr)
  then have "list_all2 (\<lambda>x y. map_of (frame_row i F) x = Some y) cols (sample i X)"
    by (simp add: sample_def list_all2_map2 map_of_frame_row list_all2_mono)
  moreover have "rect n X"
    using a assms(2)
    by (induction rule: list_all2_induct)
       (auto simp: frame_rect_def list_all_iff dest!: map_of_SomeD)
  ultimately show ?thesis by (simp add: select_columns_def mapM_Inr_iff select_column_Inr)
qed

lemma ct_transform_row_local:
  assumes "ct_transform st F = Inr Y" and "frame_rect n F" and "i < n"
  shows "ct_transform st (frame_row i F) = Inr (sample i Y)"
proof -
  let ?g = "\<lambda>G (nm, sts, cols). res_bind (select_columns G cols) (pipeline_transform sts)"
  have names: "map fst (frame_row i F) = map fst F" by (auto simp: frame_row_def)
  from assms(1) have nomiss: "filter (\<lambda>n. n \<notin> set (map fst F)) (ct_columns st) = []"
    by (auto simp: ct_transform_def Let_def split: if_splits)
  with assms(1) obtain Ys where m: "mapM (?g F) st = Inr Ys" and Y: "Y = concat Ys"
    by (auto simp: ct_transform_def res_bind_eq_Inr)
  from m have "list_all2 (\<lambda>t y. ?g F t = Inr y) st Ys" by (simp add: mapM_Inr_iff)
  then have "list_all2 (\<lambda>t y. ?g (frame_row i F) t = Inr y) st (map (sample i) Ys)"
  proof (induction rule: list_all2_induct)
    case Nil
    then show ?case by simp
  next
    case (Cons t st y Ys)
    obtain nm sts cols where t: "t = (nm, sts, cols)" by (cases t)
    from Cons.hyps(1) t obtain X where sel: "select_columns F cols = Inr X"
      and tr: "pipeline_transform sts X = Inr y"
      by (auto simp: res_bind_eq_Inr)
    from select_columns_row [OF sel assms(2)]
    have sel': "select_columns (frame_row i F) cols = Inr (sample i X)" and r: "rect n X" by blast+
    from pipeline_transform_sample [OF tr r assms(3)] sel' t Cons.IH show ?case by simp
  qed
  then have "mapM (?g (frame_row i F)) st = Inr (map (sample i) Ys)" by (simp add: mapM_Inr_iff)
  with nomiss names Y show ?thesis by (simp add: ct_transform_def sample_concat)
qed

section \<open>Lemmas on the output width\<close>

lemma length_concat_impute:
  "length X = length st \<Longrightarrow>
   length (concat (map2 impute_column st X)) = length (filter (\<lambda>so. so \<noteq> None) st)"
proof (induction st arbitrary: X)
  case Nil
  then show ?case by simp
next
  case (Cons so st)
  then obtain c X' where "X = c # X'" by (cases X) auto
  with Cons show ?case by (cases so) auto
qed

lemma step_transform_width:
  "step_transform st X = Inr Z \<Longrightarrow> length Z = step_width st (length X)"
proof (cases st)
  case (ImputerSt s sts)
  then show "step_transform st X = Inr Z \<Longrightarrow> ?thesis"
    by (auto dest!: imputer_transform_Inr simp: length_concat_impute)
next
  case (OneHotSt cs)
  then show "step_transform st X = Inr Z \<Longrightarrow> ?thesis"
    by (auto dest!: onehot_transform_Inr simp: length_concat_encode)
next
  case (ScalerSt sst)
  then show "step_transform st X = Inr Z \<Longrightarrow> ?thesis"
    by (auto dest!: scaler_transform_Inr)
qed

lemma pipeline_transform_width:
  "pipeline_transform sts X = Inr Z \<Longrightarrow> length Z = pipeline_width sts (length X)"
proof (induction sts arbitrary: X)
  case Nil
  then show ?case by (simp add: pipeline_width_def)
next
  case (Cons a sts)
  obtain nm st where a: "a = (nm, st)" by (cases a)
  from Cons.prems a obtain X' where
    tr: "step_transform st X = Inr X'" and rest: "pipeline_transform sts X' = Inr Z"
    by (auto simp: res_bind_eq_Inr)
  from Cons.IH [OF rest] step_transform_width [OF tr] a show ?case
    by (simp add: pipeline_width_def)
qed

lemma ct_transform_width:
  assumes "ct_transform st F = Inr Y"
  shows "length Y = ct_width st"
proof -
  let ?g = "\<lambda>(nm, sts, cols). res_bind (select_columns F cols) (pipeline_transform sts)"
  from assms obtain Ys where m: "mapM ?g st = Inr Ys" and Y: "Y = concat Ys"
    by (auto simp: ct_transform_def Let_def res_bind_eq_Inr split: if_splits)
  from m have "list_all2 (\<lambda>t y. ?g t = Inr y) st Ys" by (simp add: mapM_Inr_iff)
  then have "map length Ys = map (\<lambda>(nm, sts, cols). pipeline_width sts (length cols)) st"
  proof (induction rule: list_all2_induct)
    case Nil
    then show ?case by simp
  next
    case (Cons t st y Ys)
    obtain nm sts cols where t: "t = (nm, sts, cols)" by (cases t)
    from Cons.hyps(1) t obtain X where sel: "select_columns F cols = Inr X"
      and tr: "pipeline_transform sts X = Inr y"
      by (auto simp: res_bind_eq_Inr)
    have "length X = length cols" using sel by (simp add: select_columns_def mapM_length)
    with pipeline_transform_width [OF tr] t Cons.IH show ?case by simp
  qed
  then show ?thesis by (simp add: Y ct_width_def length_concat)
qed

section \<open>Properties\<close>




text \<open>
  C3. Serving one record reproduces the training-time features: transforming the frame
  made of row \<open>i\<close> alone through a fitted state gives exactly row \<open>i\<close> of the
  transform of the whole frame. Every step of both pipelines works sample by sample, and
  an error on one row would be an error on the batch.
\<close>

theorem ct_transform_single_row:
  assumes "ct_transform st F = Inr Y" and "frame_rect n F" and "i < n"
  shows "ct_transform st (frame_row i F) = Inr (sample i Y)"
  using assms by (rule ct_transform_row_local)

theorem ct_transform_single_row_witness:
  "\<exists>st Y. ct_fit_transform get_data_transformer_object student_sample = Inr (st, Y) \<and>
          ct_transform st student_sample = Inr Y \<and>
          ct_transform st (frame_row 0 student_sample) = Inr (sample 0 Y)"
proof -
  have "\<exists>st Y. ct_fit_transform get_data_transformer_object student_sample = Inr (st, Y) \<and>
               ct_transform st student_sample = Inr Y"
    by (simp add: ct_eval student_sample_def)
  then obtain st Y where f: "ct_fit_transform get_data_transformer_object student_sample = Inr (st, Y)"
    and t: "ct_transform st student_sample = Inr Y" by blast
  have r: "frame_rect 2 student_sample" by (simp add: student_sample_def frame_rect_def)
  from ct_transform_single_row [OF t r, of 0] f t show ?thesis by auto
qed

text \<open>
  C17. The output schema is frozen at fit time: whatever frame a fitted state later
  transforms successfully (the test partition, one web form), the output has as many
  columns as the training output had.
\<close>

theorem ct_output_schema_fixed:
  assumes "ct_fit_transform cfg F = Inr (st, Y)" and "ct_transform st G = Inr Z"
  shows "length Z = length Y"
proof -
  have "ct_transform st F = Inr Y" using assms(1) by (rule ct_replay)
  then have "length Y = ct_width st" by (rule ct_transform_width)
  moreover have "length Z = ct_width st" using assms(2) by (rule ct_transform_width)
  ultimately show ?thesis by simp
qed

theorem ct_output_schema_fixed_witness:
  "\<exists>st Y Z. ct_fit_transform get_data_transformer_object student_sample = Inr (st, Y) \<and>
            ct_transform st (frame_row 1 student_sample) = Inr Z \<and> length Z = length Y"
proof -
  have "\<exists>st Y Z. ct_fit_transform get_data_transformer_object student_sample = Inr (st, Y) \<and>
                 ct_transform st (frame_row 1 student_sample) = Inr Z"
    by (simp add: ct_eval student_sample_def frame_row_def)
  then obtain st Y Z where f: "ct_fit_transform get_data_transformer_object student_sample = Inr (st, Y)"
    and t: "ct_transform st (frame_row 1 student_sample) = Inr Z" by blast
  from ct_output_schema_fixed [OF f t] f t show ?thesis by blast
qed

end
