(* ===== verification/Artifacts.thy ===== *)
theory Artifacts
  imports Column_Transformer
begin

text \<open>
  The artifacts directory as the code uses it: a store from paths to files. A file is a
  CSV data set (written by \<^verbatim>\<open>DataFrame.to_csv\<close>, read by \<^verbatim>\<open>pd.read_csv\<close>), a
  pickled preprocessor or a pickled model (\<^verbatim>\<open>save_object\<close> and
  \<^verbatim>\<open>load_object\<close> of \<^verbatim>\<open>src/utils.py\<close>, which is not in the repository snapshot and is
  modelled from the spec: an opaque serialisation reloaded unchanged). The model type is
  a parameter \<open>'m\<close>: the regressor is opaque to the rest of the program. CSV files are
  assumed to round-trip exactly (no float formatting or dtype inference is modelled).
  The lemmas are the read-after-write laws of the store.
\<close>

datatype 'm artifact = CsvFile frame | PreprocessorObj ct_state | ModelObj 'm

type_synonym 'm store = "string \<Rightarrow> 'm artifact option"

definition read_csv :: "'m store \<Rightarrow> string \<Rightarrow> frame result" where
  "read_csv fs p =
     (case fs p of None \<Rightarrow> Inl (FileNotFound p) | Some (CsvFile F) \<Rightarrow> Inr F
      | Some _ \<Rightarrow> Inl (WrongObject p))"

definition to_csv :: "'m store \<Rightarrow> string \<Rightarrow> frame \<Rightarrow> 'm store" where
  "to_csv fs p F = fs(p \<mapsto> CsvFile F)"

definition save_object :: "'m store \<Rightarrow> string \<Rightarrow> 'm artifact \<Rightarrow> 'm store" where
  "save_object fs p obj = fs(p \<mapsto> obj)"

definition load_object :: "'m store \<Rightarrow> string \<Rightarrow> 'm artifact result" where
  "load_object fs p = (case fs p of None \<Rightarrow> Inl (FileNotFound p) | Some obj \<Rightarrow> Inr obj)"

text \<open>Using a loaded object as a preprocessor or a model: anything else has no such method.\<close>

definition as_preprocessor :: "string \<Rightarrow> 'm artifact \<Rightarrow> ct_state result" where
  "as_preprocessor p obj = (case obj of PreprocessorObj st \<Rightarrow> Inr st | _ \<Rightarrow> Inl (WrongObject p))"

definition as_model :: "string \<Rightarrow> 'm artifact \<Rightarrow> 'm result" where
  "as_model p obj = (case obj of ModelObj m \<Rightarrow> Inr m | _ \<Rightarrow> Inl (WrongObject p))"

section \<open>Read-after-write\<close>

lemma read_csv_to_csv [simp]: "read_csv (to_csv fs p F) p = Inr F"
  by (simp add: read_csv_def to_csv_def)

lemma read_csv_to_csv_other [simp]: "q \<noteq> p \<Longrightarrow> read_csv (to_csv fs p F) q = read_csv fs q"
  by (simp add: read_csv_def to_csv_def)

lemma load_object_save [simp]: "load_object (save_object fs p obj) p = Inr obj"
  by (simp add: load_object_def save_object_def)

lemma load_object_save_other [simp]:
  "q \<noteq> p \<Longrightarrow> load_object (save_object fs p obj) q = load_object fs q"
  by (simp add: load_object_def save_object_def)

lemma read_csv_save_other [simp]:
  "q \<noteq> p \<Longrightarrow> read_csv (save_object fs p obj) q = read_csv fs q"
  by (simp add: read_csv_def save_object_def)

lemma load_object_to_csv_other [simp]:
  "q \<noteq> p \<Longrightarrow> load_object (to_csv fs p F) q = load_object fs q"
  by (simp add: load_object_def to_csv_def)

lemma as_preprocessor_obj [simp]: "as_preprocessor p (PreprocessorObj st) = Inr st"
  by (simp add: as_preprocessor_def)

lemma as_model_obj [simp]: "as_model p (ModelObj m) = Inr m"
  by (simp add: as_model_def)

end
