(* ===== verification/Data_Transformation.thy ===== *)
theory Data_Transformation
  imports Artifacts
begin

text \<open>
  \<^verbatim>\<open>DataTransformation.initiate_data_transformation\<close>
  (\<^verbatim>\<open>src/components/data_transformation.py\<close>, lines 79--134): read the two partitions,
  split off the target column \<^verbatim>\<open>math_score\<close>, fit the preprocessing object on the
  training inputs only, transform the test inputs with the fitted state, append the target
  as the last column (\<^verbatim>\<open>np.c_\<close>) and pickle the fitted state to
  \<^verbatim>\<open>artifacts/preprocessor.pkl\<close>. Every exception is wrapped in
  \<^verbatim>\<open>CustomException\<close>. The lemmas show what the result and the persisted state are,
  that the test partition cannot influence the persisted state or the training array
  (no leakage), that both arrays have the same width with the target last, and that a
  partition without the target column is an error.
\<close>

definition preprocessor_obj_file_path :: string where
  "preprocessor_obj_file_path = ''artifacts/preprocessor.pkl''"

definition target_column_name :: string where
  "target_column_name = ''math_score''"

text \<open>\<^verbatim>\<open>df.drop(columns=[name], axis=1)\<close>: \<^verbatim>\<open>KeyError\<close> when the column is absent.\<close>

definition drop_column :: "frame \<Rightarrow> string \<Rightarrow> frame result" where
  "drop_column F n =
     (if n \<in> set (map fst F) then Inr (filter (\<lambda>(k, c). k \<noteq> n) F) else Inl (KeyError n))"

definition initiate_data_transformation ::
  "'m store \<Rightarrow> string \<Rightarrow> string \<Rightarrow> ('m store \<times> matrix \<times> matrix \<times> string) result" where
  "initiate_data_transformation fs train_path test_path = wrap (
     res_bind (read_csv fs train_path) (\<lambda>train_df.
     res_bind (read_csv fs test_path) (\<lambda>test_df.
     res_bind (drop_column train_df target_column_name) (\<lambda>input_feature_train_df.
     res_bind (select_column train_df target_column_name) (\<lambda>target_feature_train_df.
     res_bind (drop_column test_df target_column_name) (\<lambda>input_feature_test_df.
     res_bind (select_column test_df target_column_name) (\<lambda>target_feature_test_df.
     res_bind (ct_fit_transform get_data_transformer_object input_feature_train_df)
       (\<lambda>(preprocessing_obj, input_feature_train_arr).
     res_bind (ct_transform preprocessing_obj input_feature_test_df) (\<lambda>input_feature_test_arr.
       Inr (save_object fs preprocessor_obj_file_path (PreprocessorObj preprocessing_obj),
            input_feature_train_arr @ [target_feature_train_df],
            input_feature_test_arr @ [target_feature_test_df],
            preprocessor_obj_file_path))))))))))"

text \<open>A store holding the two-student sample as training file and its second row as test file.\<close>

definition sample_store :: "unit store" where
  "sample_store =
     Map.empty(''artifacts/train.csv'' \<mapsto> CsvFile student_sample,
               ''artifacts/test.csv'' \<mapsto> CsvFile (frame_row 1 student_sample))"

lemmas transformation_eval =
  ct_eval initiate_data_transformation_def drop_column_def target_column_name_def
  preprocessor_obj_file_path_def read_csv_def save_object_def sample_store_def
  student_sample_def frame_row_def

section \<open>The result, step by step\<close>

lemma initiate_data_transformation_Inr:
  assumes "initiate_data_transformation fs trp tep = Inr (fs', train_arr, test_arr, p)"
  obtains train_df test_df tr_in te_in y_tr y_te st X_tr X_te where
    "read_csv fs trp = Inr train_df" and "read_csv fs tep = Inr test_df"
    and "drop_column train_df target_column_name = Inr tr_in"
    and "select_column train_df target_column_name = Inr y_tr"
    and "drop_column test_df target_column_name = Inr te_in"
    and "select_column test_df target_column_name = Inr y_te"
    and "ct_fit_transform get_data_transformer_object tr_in = Inr (st, X_tr)"
    and "ct_transform st te_in = Inr X_te"
    and "fs' = save_object fs preprocessor_obj_file_path (PreprocessorObj st)"
    and "train_arr = X_tr @ [y_tr]" and "test_arr = X_te @ [y_te]"
    and "p = preprocessor_obj_file_path"
  using assms
  by (auto simp: initiate_data_transformation_def wrap_def res_bind_eq_Inr
      split: sum.splits prod.splits)


lemma drop_column_Inr: "drop_column F n = Inr G \<Longrightarrow> G = filter (\<lambda>(k, c). k \<noteq> n) F"
  by (auto simp: drop_column_def split: if_splits)

section \<open>Properties\<close>

text \<open>
  C7. What \<^verbatim>\<open>initiate_data_transformation\<close> hands on: the object it pickles, loaded
  back, is a fitted preprocessing state that reproduces the feature columns of both
  returned arrays from the input columns of the two partitions (\<^verbatim>\<open>math_score\<close>
  dropped), and the last column of each array is that partition's \<^verbatim>\<open>math_score\<close>.
\<close>

theorem data_transformation_persists_state:
  assumes "initiate_data_transformation fs trp tep = Inr (fs', train_arr, test_arr, p)"
  shows "\<exists>train_df test_df st.
           read_csv fs trp = Inr train_df \<and> read_csv fs tep = Inr test_df \<and>
           load_object fs' p = Inr (PreprocessorObj st) \<and>
           ct_transform st (filter (\<lambda>(k, c). k \<noteq> target_column_name) train_df) = Inr (butlast train_arr) \<and>
           ct_transform st (filter (\<lambda>(k, c). k \<noteq> target_column_name) test_df) = Inr (butlast test_arr) \<and>
           map_of train_df target_column_name = Some (last train_arr) \<and>
           map_of test_df target_column_name = Some (last test_arr)"
proof -
  obtain train_df test_df tr_in te_in y_tr y_te st X_tr X_te where
    r: "read_csv fs trp = Inr train_df" "read_csv fs tep = Inr test_df"
    and d1: "drop_column train_df target_column_name = Inr tr_in"
    and s1: "select_column train_df target_column_name = Inr y_tr"
    and d2: "drop_column test_df target_column_name = Inr te_in"
    and s2: "select_column test_df target_column_name = Inr y_te"
    and f: "ct_fit_transform get_data_transformer_object tr_in = Inr (st, X_tr)"
    and t: "ct_transform st te_in = Inr X_te"
    and res: "fs' = save_object fs preprocessor_obj_file_path (PreprocessorObj st)"
      "train_arr = X_tr @ [y_tr]" "test_arr = X_te @ [y_te]" "p = preprocessor_obj_file_path"
    using assms by (rule initiate_data_transformation_Inr)
  have "ct_transform st tr_in = Inr X_tr" using f by (rule ct_replay)
  with t r res drop_column_Inr [OF d1] drop_column_Inr [OF d2] s1 s2 show ?thesis
    by (auto simp: select_column_Inr)
qed

theorem data_transformation_persists_state_witness:
  "\<exists>fs' tr te p. initiate_data_transformation sample_store ''artifacts/train.csv'' ''artifacts/test.csv'' =
       Inr (fs', tr, te, p) \<and> last tr = [Num 72, Num 69] \<and>
     (\<exists>st. load_object fs' p = Inr (PreprocessorObj st))"
proof -
  have "\<exists>fs' tr te p. initiate_data_transformation sample_store ''artifacts/train.csv'' ''artifacts/test.csv'' =
          Inr (fs', tr, te, p)"
    by (simp add: transformation_eval)
  then obtain fs' tr te p where
    i: "initiate_data_transformation sample_store ''artifacts/train.csv'' ''artifacts/test.csv'' = Inr (fs', tr, te, p)"
    by blast
  from data_transformation_persists_state [OF i] i show ?thesis
    by (auto simp: sample_store_def read_csv_def student_sample_def target_column_name_def)
qed

text \<open>
  C6. No leakage from the test partition: two runs that read the same training file
  pickle the same preprocessing state and return the same training array, whatever their
  test files hold. The state is fitted on the training inputs alone.
\<close>

theorem data_transformation_no_test_leakage:
  assumes "initiate_data_transformation fs trp tep = Inr (fs1, tr1, te1, p1)"
    and "initiate_data_transformation gs trp tep' = Inr (gs1, tr2, te2, p2)"
    and "gs trp = fs trp"
  shows "load_object fs1 p1 = load_object gs1 p2 \<and> tr1 = tr2"
proof -
  obtain train_df test_df tr_in te_in y_tr y_te st X_tr X_te where
    r: "read_csv fs trp = Inr train_df"
    and d1: "drop_column train_df target_column_name = Inr tr_in"
    and s1: "select_column train_df target_column_name = Inr y_tr"
    and f: "ct_fit_transform get_data_transformer_object tr_in = Inr (st, X_tr)"
    and res1: "fs1 = save_object fs preprocessor_obj_file_path (PreprocessorObj st)"
      "tr1 = X_tr @ [y_tr]" "p1 = preprocessor_obj_file_path"
    using assms(1) by (rule initiate_data_transformation_Inr) blast+
  obtain train_df' tr_in' y_tr' st' X_tr' where
    r': "read_csv gs trp = Inr train_df'"
    and d1': "drop_column train_df' target_column_name = Inr tr_in'"
    and s1': "select_column train_df' target_column_name = Inr y_tr'"
    and f': "ct_fit_transform get_data_transformer_object tr_in' = Inr (st', X_tr')"
    and res2: "gs1 = save_object gs preprocessor_obj_file_path (PreprocessorObj st')"
      "tr2 = X_tr' @ [y_tr']" "p2 = preprocessor_obj_file_path"
    using assms(2) by (rule initiate_data_transformation_Inr) blast+
  have "train_df' = train_df" using r r' assms(3) by (simp add: read_csv_def)
  with d1 d1' s1 s1' have i: "tr_in' = tr_in" and y: "y_tr' = y_tr" by simp_all
  from i f f' have "st' = st" "X_tr' = X_tr" by simp_all
  with y res1 res2 show ?thesis by simp
qed

theorem data_transformation_no_test_leakage_witness:
  "\<exists>fs1 tr1 te1 p1 gs1 tr2 te2 p2.
     initiate_data_transformation sample_store ''artifacts/train.csv'' ''artifacts/test.csv'' =
       Inr (fs1, tr1, te1, p1) \<and>
     initiate_data_transformation sample_store ''artifacts/train.csv'' ''artifacts/train.csv'' =
       Inr (gs1, tr2, te2, p2) \<and>
     load_object fs1 p1 = load_object gs1 p2 \<and> tr1 = tr2"
proof -
  have "\<exists>fs1 tr1 te1 p1. initiate_data_transformation sample_store ''artifacts/train.csv'' ''artifacts/test.csv'' =
          Inr (fs1, tr1, te1, p1)"
    by (simp add: transformation_eval)
  then obtain fs1 tr1 te1 p1 where
    a: "initiate_data_transformation sample_store ''artifacts/train.csv'' ''artifacts/test.csv'' =
        Inr (fs1, tr1, te1, p1)" by blast
  have "\<exists>gs1 tr2 te2 p2. initiate_data_transformation sample_store ''artifacts/train.csv'' ''artifacts/train.csv'' =
          Inr (gs1, tr2, te2, p2)"
    by (simp add: transformation_eval)
  then obtain gs1 tr2 te2 p2 where
    b: "initiate_data_transformation sample_store ''artifacts/train.csv'' ''artifacts/train.csv'' =
        Inr (gs1, tr2, te2, p2)" by blast
  from data_transformation_no_test_leakage [OF a b] a b show ?thesis by blast
qed

text \<open>
  C20. The training and the test array have the same number of columns: the preprocessed
  features (a width fixed by the fitted state) followed by the target.
\<close>

theorem data_transformation_same_width:
  assumes "initiate_data_transformation fs trp tep = Inr (fs', train_arr, test_arr, p)"
  shows "length train_arr = length test_arr"
proof -
  obtain tr_in te_in y_tr y_te st X_tr X_te where
    f: "ct_fit_transform get_data_transformer_object tr_in = Inr (st, X_tr)"
    and t: "ct_transform st te_in = Inr X_te"
    and res: "train_arr = X_tr @ [y_tr]" "test_arr = X_te @ [y_te]"
    using assms by (rule initiate_data_transformation_Inr) blast+
  have "length X_tr = ct_width st" using ct_replay [OF f] by (rule ct_transform_width)
  moreover have "length X_te = ct_width st" using t by (rule ct_transform_width)
  ultimately show ?thesis by (simp add: res)
qed

theorem data_transformation_same_width_witness:
  "\<exists>fs' tr te p. initiate_data_transformation sample_store ''artifacts/train.csv'' ''artifacts/test.csv'' =
       Inr (fs', tr, te, p) \<and> length tr = length te"
proof -
  have "\<exists>fs' tr te p. initiate_data_transformation sample_store ''artifacts/train.csv'' ''artifacts/test.csv'' =
          Inr (fs', tr, te, p)"
    by (simp add: transformation_eval)
  then obtain fs' tr te p where
    i: "initiate_data_transformation sample_store ''artifacts/train.csv'' ''artifacts/test.csv'' = Inr (fs', tr, te, p)"
    by blast
  from data_transformation_same_width [OF i] i show ?thesis by blast
qed

text \<open>
  C27. A training partition without the target column stops the transformation with the
  wrapped \<^verbatim>\<open>KeyError\<close> of \<^verbatim>\<open>drop(columns=["math_score"])\<close>, before anything is
  fitted or written.
\<close>

theorem data_transformation_missing_target:
  assumes "read_csv fs trp = Inr train_df" and "read_csv fs tep = Inr test_df"
    and "target_column_name \<notin> set (map fst train_df)"
  shows "initiate_data_transformation fs trp tep = Inl (CustomException (KeyError target_column_name))"
  using assms by (simp add: initiate_data_transformation_def drop_column_def)

theorem data_transformation_missing_target_witness:
  "initiate_data_transformation sample_store ''artifacts/test.csv'' ''artifacts/test.csv'' \<noteq>
     Inl (CustomException (KeyError ''x'')) \<and>
   initiate_data_transformation (sample_store(''a.csv'' \<mapsto> CsvFile [(''gender'', [Str ''male''])]))
     ''a.csv'' ''a.csv'' = Inl (CustomException (KeyError ''math_score''))"
proof -
  have r: "read_csv (sample_store(''a.csv'' \<mapsto> CsvFile [(''gender'', [Str ''male''])])) ''a.csv'' =
           Inr [(''gender'', [Str ''male''])]" by (simp add: read_csv_def)
  have n: "target_column_name \<notin> set (map fst [(''gender'', [Str ''male''])])"
    by (simp add: target_column_name_def)
  have "initiate_data_transformation sample_store ''artifacts/test.csv'' ''artifacts/test.csv'' \<noteq>
        Inl (CustomException (KeyError ''x''))"
    by (simp add: transformation_eval)
  with data_transformation_missing_target [OF r r n] show ?thesis
    by (simp add: target_column_name_def)
qed

end
