(* ===== verification/Ingestion.thy ===== *)
theory Ingestion
  imports Data_Transformation
begin

text \<open>
  \<^verbatim>\<open>DataIngestion.initiate_data_ingestion\<close>
  (\<^verbatim>\<open>src/components/data_ingestion.py\<close>, lines 18--62): read
  \<^verbatim>\<open>notebook/data/stud.csv\<close>, write a raw copy, split it with
  \<^verbatim>\<open>train_test_split(df, test_size=0.2, random_state=42)\<close> and write both parts. The
  split is scikit-learn's \<^verbatim>\<open>ShuffleSplit\<close>: \<open>ceil(0.2 n)\<close> test rows (the rounding
  of the float product is not modelled), the rest for training (an error when none is
  left), taken from a permutation of the row indices that NumPy draws from the seed. The
  generator is not modelled: it is the parameter \<open>rng\<close> (seed and row count to a list
  of indices), assumed to return a permutation. The result pairs the final store with the
  outcome, because the raw copy is already on disk when the split fails. The script's
  driver (lines 65--79) chains ingestion, transformation and the model trainer
  (\<^verbatim>\<open>src/components/model_trainer.py\<close> is not in the snapshot: the trainer is a
  parameter, and persisting its model to \<^verbatim>\<open>artifacts/model.pkl\<close> is modelled from the
  spec). The lemmas show that the split partitions the rows with the prescribed sizes, when
  it fails, and what ingestion leaves in the store.
\<close>

section \<open>train_test_split\<close>

definition nrows :: "frame \<Rightarrow> nat" where
  "nrows F = (case F of [] \<Rightarrow> 0 | (nm, c) # _ \<Rightarrow> length c)"

text \<open>\<^verbatim>\<open>df.iloc[indices]\<close>\<close>

definition take_rows :: "frame \<Rightarrow> nat list \<Rightarrow> frame" where
  "take_rows F idx = map (\<lambda>(nm, c). (nm, map (\<lambda>i. c ! i) idx)) F"

text \<open>\<^verbatim>\<open>_validate_shuffle_split(n, test_size=0.2, train_size=None)\<close>: (train, test) sizes.\<close>

definition split_sizes :: "nat \<Rightarrow> nat \<times> nat" where
  "split_sizes n = (let n_test = (n + 4) div 5 in (n - n_test, n_test))"

definition train_test_split :: "(nat \<Rightarrow> nat \<Rightarrow> nat list) \<Rightarrow> nat \<Rightarrow> frame \<Rightarrow> (frame \<times> frame) result" where
  "train_test_split rng random_state df =
     (let n = nrows df; (n_train, n_test) = split_sizes n
      in if n_train = 0 then Inl EmptyTrainSet
         else (let permutation = rng random_state n;
                   ind_test = take n_test permutation;
                   ind_train = take n_train (drop n_test permutation)
               in Inr (take_rows df ind_train, take_rows df ind_test)))"

section \<open>initiate_data_ingestion\<close>

record data_ingestion_config =
  train_data_path :: string
  test_data_path :: string
  raw_data_path :: string

definition default_ingestion_config :: data_ingestion_config where
  "default_ingestion_config =
     \<lparr>train_data_path = ''artifacts/train.csv'', test_data_path = ''artifacts/test.csv'',
      raw_data_path = ''artifacts/data.csv''\<rparr>"

definition source_data_path :: string where
  "source_data_path = ''notebook/data/stud.csv''"

definition initiate_data_ingestion ::
  "(nat \<Rightarrow> nat \<Rightarrow> nat list) \<Rightarrow> data_ingestion_config \<Rightarrow> 'm store \<Rightarrow> 'm store \<times> (string \<times> string) result" where
  "initiate_data_ingestion rng cfg fs =
     (case read_csv fs source_data_path of
        Inl e \<Rightarrow> (fs, Inl (CustomException e))
      | Inr df \<Rightarrow>
          (let fs1 = to_csv fs (raw_data_path cfg) df
           in case train_test_split rng 42 df of
                Inl e \<Rightarrow> (fs1, Inl (CustomException e))
              | Inr (train_set, test_set) \<Rightarrow>
                  (to_csv (to_csv fs1 (train_data_path cfg) train_set) (test_data_path cfg) test_set,
                   Inr (train_data_path cfg, test_data_path cfg))))"

text \<open>A store holding the two-student sample as the source data set.\<close>

definition source_store :: "unit store" where
  "source_store = Map.empty(''notebook/data/stud.csv'' \<mapsto> CsvFile student_sample)"

section \<open>The training driver\<close>

definition model_trainer_file_path :: string where
  "model_trainer_file_path = ''artifacts/model.pkl''"

text \<open>\<^verbatim>\<open>ModelTrainer.initiate_model_trainer\<close>: fit a regressor and pickle it.\<close>

definition initiate_model_trainer ::
  "(matrix \<Rightarrow> matrix \<Rightarrow> 'm result) \<Rightarrow> 'm store \<Rightarrow> matrix \<Rightarrow> matrix \<Rightarrow> 'm store result" where
  "initiate_model_trainer trainer fs train_arr test_arr =
     wrap (res_bind (trainer train_arr test_arr) (\<lambda>m.
       Inr (save_object fs model_trainer_file_path (ModelObj m))))"

text \<open>\<^verbatim>\<open>if __name__ == "__main__":\<close> ingestion, transformation, training.\<close>

definition training_run ::
  "(nat \<Rightarrow> nat \<Rightarrow> nat list) \<Rightarrow> (matrix \<Rightarrow> matrix \<Rightarrow> 'm result) \<Rightarrow> 'm store \<Rightarrow> 'm store \<times> unit result" where
  "training_run rng trainer fs =
     (case initiate_data_ingestion rng default_ingestion_config fs of
        (fs1, Inl e) \<Rightarrow> (fs1, Inl e)
      | (fs1, Inr (train_data, test_data)) \<Rightarrow>
          (case initiate_data_transformation fs1 train_data test_data of
             Inl e \<Rightarrow> (fs1, Inl e)
           | Inr (fs2, train_arr, test_arr, _) \<Rightarrow>
               (case initiate_model_trainer trainer fs2 train_arr test_arr of
                  Inl e \<Rightarrow> (fs2, Inl e)
                | Inr fs3 \<Rightarrow> (fs3, Inr ()))))"


section \<open>Lemmas\<close>

lemma ceil_fifth_ge: "n \<le> (n + 4) div 5 \<longleftrightarrow> n \<le> (1::nat)"
proof
  assume "n \<le> (n + 4) div 5"
  then have "5 * n \<le> 5 * ((n + 4) div 5)" by simp
  also have "\<dots> \<le> n + 4" by (rule times_div_less_eq_dividend)
  finally show "n \<le> 1" by simp
next
  assume "n \<le> 1"
  then have "n = 0 \<or> n = 1" by auto
  then show "n \<le> (n + 4) div 5" by auto
qed

lemma split_sizes_train_zero: "fst (split_sizes n) = 0 \<longleftrightarrow> n \<le> 1"
  by (simp add: split_sizes_def Let_def ceil_fifth_ge)

lemma train_test_split_Inr:
  assumes "train_test_split rng s df = Inr (train_set, test_set)"
  shows "nrows df - (nrows df + 4) div 5 \<noteq> 0 \<and>
         test_set = take_rows df (take ((nrows df + 4) div 5) (rng s (nrows df))) \<and>
         train_set = take_rows df (take (nrows df - (nrows df + 4) div 5)
                                    (drop ((nrows df + 4) div 5) (rng s (nrows df))))"
  using assms by (auto simp: train_test_split_def split_sizes_def Let_def split: if_splits)

lemma frame_rect_take_rows: "frame_rect (nrows (take_rows df idx)) (take_rows df idx)"
  by (cases df) (auto simp: frame_rect_def take_rows_def nrows_def list_all_iff)

lemma train_test_split_rect:
  assumes "train_test_split rng s df = Inr (train_set, test_set)"
  shows "frame_rect (nrows train_set) train_set"
  using assms by (auto simp: train_test_split_def Let_def frame_rect_take_rows split: if_splits prod.splits)

lemma ingestion_default_paths:
  "raw_data_path default_ingestion_config = ''artifacts/data.csv''"
  "train_data_path default_ingestion_config = ''artifacts/train.csv''"
  "test_data_path default_ingestion_config = ''artifacts/test.csv''"
  by (simp_all add: default_ingestion_config_def)

section \<open>Properties\<close>

text \<open>
  C13. The split partitions the data set: the test part is the first \<open>ceil(n/5)\<close>
  indices of the seeded permutation and the training part the remaining \<open>n - ceil(n/5)\<close>,
  so together they hold every row exactly once and no row is in both.
\<close>

theorem train_test_split_partition:
  assumes "train_test_split rng s df = Inr (train_set, test_set)"
    and "mset (rng s (nrows df)) = mset [0..<nrows df]"
  shows "\<exists>itr ite. train_set = take_rows df itr \<and> test_set = take_rows df ite \<and>
           mset (itr @ ite) = mset [0..<nrows df] \<and> set itr \<inter> set ite = {} \<and>
           length ite = (nrows df + 4) div 5 \<and> length itr = nrows df - (nrows df + 4) div 5"
proof -
  let ?n = "nrows df" and ?k = "(nrows df + 4) div 5" and ?p = "rng s (nrows df)"
  have "size (mset ?p) = size (mset [0..<?n])" using assms(2) by simp
  then have len: "length ?p = ?n" by simp
  have k: "?k \<le> ?n" using train_test_split_Inr [OF assms(1)] by linarith
  have tr: "take (?n - ?k) (drop ?k ?p) = drop ?k ?p" using len by simp
  let ?itr = "drop ?k ?p" and ?ite = "take ?k ?p"
  have "mset (?itr @ ?ite) = mset (?ite @ ?itr)" by (simp only: mset_append add.commute)
  also have "?ite @ ?itr = ?p" by simp
  finally have m: "mset (?itr @ ?ite) = mset [0..<?n]" using assms(2) by simp
  then have "distinct (?itr @ ?ite)" using mset_eq_distinct [OF m] by (simp only: distinct_upt)
  then have "set ?itr \<inter> set ?ite = {}"
    by (rule distinct_append [THEN iffD1, THEN conjunct2, THEN conjunct2])
  with m train_test_split_Inr [OF assms(1)] tr len k show ?thesis
    by (intro exI [of _ ?itr] exI [of _ ?ite]) simp
qed

theorem train_test_split_partition_witness:
  "train_test_split (\<lambda>s n. rev [0..<n]) 42 student_sample =
     Inr (take_rows student_sample [0], take_rows student_sample [1]) \<and>
   mset (rev [0..<nrows student_sample]) = mset [0..<nrows student_sample]"
proof -
  have t: "train_test_split (\<lambda>s n. rev [0..<n]) 42 student_sample =
           Inr (take_rows student_sample [0], take_rows student_sample [1])"
    by (simp add: train_test_split_def nrows_def student_sample_def split_sizes_def)
  have m: "mset ((\<lambda>s n. rev [0..<n]) 42 (nrows student_sample)) = mset [0..<nrows student_sample]"
    by simp
  from train_test_split_partition [OF t m] t show ?thesis by simp
qed

text \<open>
  C26. The split fails exactly on data sets of at most one row: then no row is left for
  training and \<^verbatim>\<open>train_test_split\<close> raises; from two rows on it succeeds.
\<close>

theorem train_test_split_fails_iff:
  "(train_test_split rng s df = Inl EmptyTrainSet \<longleftrightarrow> nrows df \<le> 1) \<and>
   ((\<exists>tr te. train_test_split rng s df = Inr (tr, te)) \<longleftrightarrow> 2 \<le> nrows df)"
proof -
  have z: "fst (split_sizes (nrows df)) = 0 \<longleftrightarrow> nrows df \<le> 1" by (rule split_sizes_train_zero)
  then have "train_test_split rng s df = Inl EmptyTrainSet \<longleftrightarrow> nrows df \<le> 1"
    by (auto simp: train_test_split_def Let_def split: prod.splits)
  moreover from z have "(\<exists>tr te. train_test_split rng s df = Inr (tr, te)) \<longleftrightarrow> 2 \<le> nrows df"
    by (auto simp: train_test_split_def Let_def split: prod.splits)
  ultimately show ?thesis ..
qed

text \<open>
  C24. A successful ingestion leaves in the store the raw copy of the source data set and
  the two parts of its split under the paths it returns, which are the configured
  \<^verbatim>\<open>artifacts/train.csv\<close> and \<^verbatim>\<open>artifacts/test.csv\<close>.
\<close>

theorem ingestion_persists_split:
  assumes "initiate_data_ingestion rng default_ingestion_config fs = (fs', Inr (trp, tep))"
  shows "\<exists>df train_set test_set.
           read_csv fs source_data_path = Inr df \<and> train_test_split rng 42 df = Inr (train_set, test_set) \<and>
           read_csv fs' ''artifacts/data.csv'' = Inr df \<and> read_csv fs' trp = Inr train_set \<and>
           read_csv fs' tep = Inr test_set \<and>
           trp = ''artifacts/train.csv'' \<and> tep = ''artifacts/test.csv''"
  using assms
  by (auto simp: initiate_data_ingestion_def ingestion_default_paths Let_def
      split: sum.splits prod.splits)

theorem ingestion_persists_split_witness:
  "initiate_data_ingestion (\<lambda>s n. rev [0..<n]) default_ingestion_config source_store =
     (to_csv (to_csv (to_csv source_store ''artifacts/data.csv'' student_sample)
        ''artifacts/train.csv'' (take_rows student_sample [0]))
        ''artifacts/test.csv'' (take_rows student_sample [1]),
      Inr (''artifacts/train.csv'', ''artifacts/test.csv'')) \<and>
   (\<exists>df. read_csv source_store source_data_path = Inr df)"
proof -
  have i: "initiate_data_ingestion (\<lambda>s n. rev [0..<n]) default_ingestion_config source_store =
     (to_csv (to_csv (to_csv source_store ''artifacts/data.csv'' student_sample)
        ''artifacts/train.csv'' (take_rows student_sample [0]))
        ''artifacts/test.csv'' (take_rows student_sample [1]),
      Inr (''artifacts/train.csv'', ''artifacts/test.csv''))"
    by (simp add: initiate_data_ingestion_def source_store_def read_csv_def source_data_path_def
        ingestion_default_paths train_test_split_def nrows_def student_sample_def split_sizes_def)
  from ingestion_persists_split [OF i] i show ?thesis by blast
qed

text \<open>
  C25. A failed split is not free of effects: when the source data set has at most one row,
  ingestion raises, yet the raw copy \<^verbatim>\<open>artifacts/data.csv\<close> has already been written.
\<close>

theorem ingestion_failed_split_keeps_raw_copy:
  assumes "read_csv fs source_data_path = Inr df" and "nrows df \<le> 1"
  shows "initiate_data_ingestion rng default_ingestion_config fs =
           (to_csv fs ''artifacts/data.csv'' df, Inl (CustomException EmptyTrainSet))"
proof -
  have "train_test_split rng 42 df = Inl EmptyTrainSet"
    using assms(2) split_sizes_train_zero [of "nrows df"]
    by (auto simp: train_test_split_def Let_def split: prod.splits)
  with assms(1) show ?thesis
    by (simp add: initiate_data_ingestion_def ingestion_default_paths)
qed

theorem ingestion_failed_split_keeps_raw_copy_witness:
  "initiate_data_ingestion (\<lambda>s n. [0..<n]) default_ingestion_config
     (source_store(''notebook/data/stud.csv'' \<mapsto> CsvFile (frame_row 0 student_sample))) =
   (to_csv (source_store(''notebook/data/stud.csv'' \<mapsto> CsvFile (frame_row 0 student_sample)))
      ''artifacts/data.csv'' (frame_row 0 student_sample), Inl (CustomException EmptyTrainSet))"
proof -
  have r: "read_csv (source_store(''notebook/data/stud.csv'' \<mapsto> CsvFile (frame_row 0 student_sample)))
             source_data_path = Inr (frame_row 0 student_sample)"
    by (simp add: read_csv_def source_data_path_def)
  have n: "nrows (frame_row 0 student_sample) \<le> 1"
    by (simp add: nrows_def frame_row_def student_sample_def)
  from ingestion_failed_split_keeps_raw_copy [OF r n] show ?thesis .
qed

end
