(* ===== verification/Predict.thy ===== *)
theory Predict
  imports Artifacts Python_Float
begin

text \<open>
  The serving side of \<^verbatim>\<open>src/pipeline/predict_pipeline.py\<close>.
  \<^verbatim>\<open>PredictPipeline.predict\<close> (lines 14--36) loads \<^verbatim>\<open>artifacts/model.pkl\<close> and then
  \<^verbatim>\<open>artifacts/preprocessor.pkl\<close>, transforms the feature frame with the preprocessor and
  applies the model's \<^verbatim>\<open>predict\<close>; every exception is wrapped in
  \<^verbatim>\<open>CustomException\<close>. The regressor is opaque: its \<^verbatim>\<open>predict\<close> is the parameter
  \<open>model_predict\<close>. \<^verbatim>\<open>CustomData\<close> (lines 39--77) is a record of the seven form values
  and \<^verbatim>\<open>get_data_as_data_frame\<close> builds the one-row frame, in the dictionary's column
  order. The two scores are Python floats; a NaN score becomes a missing cell. A frame cell
  cannot hold an infinity, so an infinite score raises when the frame is built; in the code
  it raises one step later, in \<^verbatim>\<open>SimpleImputer\<close>'s input check during
  \<^verbatim>\<open>preprocessor.transform\<close>. The lemmas show that predict uses exactly the persisted
  preprocessing state and model, in which order a missing artifact is reported, and that a
  \<^verbatim>\<open>CustomData\<close> frame carries every column the fitted preprocessor selects.
\<close>

definition model_path :: string where
  "model_path = ''artifacts/model.pkl''"

definition preprocessor_path :: string where
  "preprocessor_path = ''artifacts/preprocessor.pkl''"

text \<open>\<^verbatim>\<open>model.predict(data_scaled)\<close>: one prediction per sample of the matrix.\<close>

type_synonym 'm predictor = "'m \<Rightarrow> matrix \<Rightarrow> real list result"

definition predict :: "'m predictor \<Rightarrow> 'm store \<Rightarrow> frame \<Rightarrow> real list result" where
  "predict model_predict fs features = wrap (
     res_bind (load_object fs model_path) (\<lambda>model.
     res_bind (load_object fs preprocessor_path) (\<lambda>preprocessor.
     res_bind (as_preprocessor preprocessor_path preprocessor) (\<lambda>preprocessor_st.
     res_bind (ct_transform preprocessor_st features) (\<lambda>data_scaled.
     res_bind (as_model model_path model) (\<lambda>m.
       model_predict m data_scaled))))))"

record custom_data =
  gender :: cell
  race_ethnicity :: cell
  parental_level_of_education :: cell
  lunch :: cell
  test_preparation_course :: cell
  reading_score :: pyfloat
  writing_score :: pyfloat

text \<open>A Python float as a frame cell: NaN is the missing value; an infinity is rejected.\<close>

definition cell_of_float :: "pyfloat \<Rightarrow> cell result" where
  "cell_of_float x = (case x of Finite r \<Rightarrow> Inr (Num r) | NaN \<Rightarrow> Inr Missing | Infinity neg \<Rightarrow> Inl NonFinite)"

definition get_data_as_data_frame :: "custom_data \<Rightarrow> frame result" where
  "get_data_as_data_frame d = wrap (
     res_bind (cell_of_float (reading_score d)) (\<lambda>reading.
     res_bind (cell_of_float (writing_score d)) (\<lambda>writing.
       Inr [(''gender'', [gender d]), (''race_ethnicity'', [race_ethnicity d]),
            (''parental_level_of_education'', [parental_level_of_education d]),
            (''lunch'', [lunch d]), (''test_preparation_course'', [test_preparation_course d]),
            (''reading_score'', [reading]), (''writing_score'', [writing])])))"

text \<open>A student record as the form of a second student would give it.\<close>

definition sample_student :: custom_data where
  "sample_student =
     \<lparr>gender = Str ''male'', race_ethnicity = Str ''group C'',
      parental_level_of_education = Str ''some college'', lunch = Str ''free/reduced'',
      test_preparation_course = Str ''completed'', reading_score = Finite 70, writing_score = NaN\<rparr>"

section \<open>Lemmas\<close>

lemma ct_fit_transform_columns:
  assumes "ct_fit_transform cfg F = Inr (st, Y)"
  shows "ct_columns st = concat (map (\<lambda>(nm, p, cols). cols) cfg)"
proof -
  obtain Xs Ys where sel: "mapM (\<lambda>(nm, p, cols). select_columns F cols) cfg = Inr Xs"
    and parts: "ct_fit_parts cfg Xs = Inr (st, Ys)"
    using assms by (rule ct_fit_transform_Inr)
  from ct_fit_parts_replay [OF sel parts] show ?thesis by blast
qed

lemma transformer_columns:
  "concat (map (\<lambda>(nm, p, cols). cols) get_data_transformer_object) = numerical_columns @ categorical_columns"
  by (simp add: get_data_transformer_object_def)

lemma get_data_as_data_frame_Inr:
  assumes "get_data_as_data_frame d = Inr F"
  obtains r w where "cell_of_float (reading_score d) = Inr r" and "cell_of_float (writing_score d) = Inr w"
    and "F = [(''gender'', [gender d]), (''race_ethnicity'', [race_ethnicity d]),
            (''parental_level_of_education'', [parental_level_of_education d]),
            (''lunch'', [lunch d]), (''test_preparation_course'', [test_preparation_course d]),
            (''reading_score'', [r]), (''writing_score'', [w])]"
  using assms by (auto simp: get_data_as_data_frame_def res_bind_eq_Inr wrap_def split: sum.splits)

lemma custom_data_frame_columns:
  assumes "get_data_as_data_frame d = Inr F"
  shows "frame_rect 1 F \<and> set (numerical_columns @ categorical_columns) \<subseteq> set (map fst F)"
proof -
  obtain r w where F: "F = [(''gender'', [gender d]), (''race_ethnicity'', [race_ethnicity d]),
            (''parental_level_of_education'', [parental_level_of_education d]),
            (''lunch'', [lunch d]), (''test_preparation_course'', [test_preparation_course d]),
            (''reading_score'', [r]), (''writing_score'', [w])]"
    using assms by (rule get_data_as_data_frame_Inr)
  then show ?thesis
    by (simp add: frame_rect_def numerical_columns_def categorical_columns_def)
qed

lemma predict_loaded:
  assumes "load_object fs model_path = Inr (ModelObj m)"
    and "load_object fs preprocessor_path = Inr (PreprocessorObj st)"
  shows "predict model_predict fs F = wrap (res_bind (ct_transform st F) (model_predict m))"
  using assms by (simp add: predict_def res_bind_def split: sum.split)


section \<open>Properties\<close>

text \<open>
  C28. Serving reads nothing but the two artifacts: two stores that agree on
  \<^verbatim>\<open>artifacts/model.pkl\<close> and \<^verbatim>\<open>artifacts/preprocessor.pkl\<close> give the same result
  (predictions or exception) for every feature frame.
\<close>

theorem predict_reads_only_artifacts:
  assumes "gs model_path = fs model_path" and "gs preprocessor_path = fs preprocessor_path"
  shows "predict model_predict gs F = predict model_predict fs F"
  using assms by (simp add: predict_def load_object_def)

theorem predict_reads_only_artifacts_witness:
  "predict (\<lambda>m X. Inr [m]) (Map.empty(model_path \<mapsto> ModelObj 1, ''artifacts/train.csv'' \<mapsto> CsvFile []))
     [(''x'', [Num 1])] =
   predict (\<lambda>m X. Inr [m]) (Map.empty(model_path \<mapsto> ModelObj 1)) [(''x'', [Num 1])] \<and>
   predict (\<lambda>m X. Inr [m]) (Map.empty(model_path \<mapsto> ModelObj 1)) [(''x'', [Num 1])] =
     Inl (CustomException (FileNotFound preprocessor_path))"
proof -
  have a: "(Map.empty(model_path \<mapsto> ModelObj (1::real), ''artifacts/train.csv'' \<mapsto> CsvFile [])) model_path =
           (Map.empty(model_path \<mapsto> ModelObj 1)) model_path"
    by (simp add: model_path_def)
  have b: "(Map.empty(model_path \<mapsto> ModelObj (1::real), ''artifacts/train.csv'' \<mapsto> CsvFile [])) preprocessor_path =
           (Map.empty(model_path \<mapsto> ModelObj 1)) preprocessor_path"
    by (simp add: model_path_def preprocessor_path_def)
  have "predict (\<lambda>m X. Inr [m]) (Map.empty(model_path \<mapsto> ModelObj 1)) [(''x'', [Num 1])] =
          Inl (CustomException (FileNotFound preprocessor_path))"
    by (simp add: predict_def load_object_def model_path_def preprocessor_path_def)
  with predict_reads_only_artifacts [OF a b, where model_predict = "\<lambda>m X. Inr [m]" and F = "[(''x'', [Num 1])]"]
  show ?thesis by (simp only:)
qed

text \<open>
  C21. A missing artifact is reported in load order: without \<^verbatim>\<open>model.pkl\<close> predict raises
  the wrapped file error of the model whatever the preprocessor; with the model present and
  no \<^verbatim>\<open>preprocessor.pkl\<close> it raises the preprocessor's.
\<close>

theorem predict_missing_artifact:
  "(fs model_path = None \<longrightarrow>
      predict model_predict fs F = Inl (CustomException (FileNotFound model_path))) \<and>
   (fs model_path \<noteq> None \<and> fs preprocessor_path = None \<longrightarrow>
      predict model_predict fs F = Inl (CustomException (FileNotFound preprocessor_path)))"
  by (auto simp: predict_def load_object_def)

theorem predict_missing_artifact_witness:
  "predict (\<lambda>m X. Inr [m]) (Map.empty(preprocessor_path \<mapsto> PreprocessorObj [])) [] =
     Inl (CustomException (FileNotFound model_path)) \<and>
   predict (\<lambda>m X. Inr [m]) (Map.empty(model_path \<mapsto> ModelObj (0::real))) [] =
     Inl (CustomException (FileNotFound preprocessor_path))"
proof -
  have a: "(Map.empty(preprocessor_path \<mapsto> PreprocessorObj [])) model_path = (None :: real artifact option)"
    by (simp add: model_path_def preprocessor_path_def)
  have b: "(Map.empty(model_path \<mapsto> ModelObj (0::real))) model_path \<noteq> None \<and>
           (Map.empty(model_path \<mapsto> ModelObj (0::real))) preprocessor_path = None"
    by (simp add: model_path_def preprocessor_path_def)
  have "predict (\<lambda>m X. Inr [m]) (Map.empty(preprocessor_path \<mapsto> PreprocessorObj [])) [] =
          Inl (CustomException (FileNotFound model_path))"
    using predict_missing_artifact [where fs = "Map.empty(preprocessor_path \<mapsto> PreprocessorObj [])"
        and model_predict = "\<lambda>m X. Inr [m]" and F = "[]"] a by blast
  moreover have "predict (\<lambda>m X. Inr [m]) (Map.empty(model_path \<mapsto> ModelObj (0::real))) [] =
          Inl (CustomException (FileNotFound preprocessor_path))"
    using predict_missing_artifact [where fs = "Map.empty(model_path \<mapsto> ModelObj (0::real))"
        and model_predict = "\<lambda>m X. Inr [m]" and F = "[]"] b by blast
  ultimately show ?thesis ..
qed

text \<open>
  C19. \<^verbatim>\<open>CustomData\<close> matches the preprocessor's schema: its frame is a single row and
  holds every column that a preprocessor fitted by \<^verbatim>\<open>get_data_transformer_object\<close>
  selects, so \<^verbatim>\<open>transform\<close> never reports missing columns on it.
\<close>

theorem custom_data_frame_schema:
  assumes "ct_fit_transform get_data_transformer_object G = Inr (st, Y)"
    and "get_data_as_data_frame d = Inr F"
  shows "frame_rect 1 F \<and> set (ct_columns st) \<subseteq> set (map fst F)"
proof -
  have "ct_columns st = numerical_columns @ categorical_columns"
    using ct_fit_transform_columns [OF assms(1)] by (simp only: transformer_columns)
  with custom_data_frame_columns [OF assms(2)] show ?thesis by simp
qed

theorem custom_data_frame_schema_witness:
  "\<exists>st Y F. ct_fit_transform get_data_transformer_object student_sample = Inr (st, Y) \<and>
     get_data_as_data_frame sample_student = Inr F \<and> set (ct_columns st) \<subseteq> set (map fst F)"
proof -
  have "\<exists>st Y. ct_fit_transform get_data_transformer_object student_sample = Inr (st, Y)"
    by (simp add: ct_eval student_sample_def)
  then obtain st Y where f: "ct_fit_transform get_data_transformer_object student_sample = Inr (st, Y)"
    by blast
  have "\<exists>F. get_data_as_data_frame sample_student = Inr F"
    by (simp add: get_data_as_data_frame_def sample_student_def cell_of_float_def)
  then obtain F where g: "get_data_as_data_frame sample_student = Inr F" by blast
  from custom_data_frame_schema [OF f g] f g show ?thesis by blast
qed

end
