(* ===== verification/App.thy ===== *)
theory App
  imports Predict
begin

text \<open>
  The web adapter \<^verbatim>\<open>src/app.py\<close>. \<^verbatim>\<open>index\<close> (lines 16--18) renders the home page;
  \<^verbatim>\<open>predict_datapoint\<close> (lines 21--50) renders the form on GET, and on POST builds a
  \<^verbatim>\<open>CustomData\<close> from the form fields (lines 27--35), its frame, runs
  \<^verbatim>\<open>PredictPipeline.predict\<close> and renders the first prediction. The form is a map from
  field names to strings (\<^verbatim>\<open>request.form.get\<close> is \<open>None\<close> on an absent field); a response
  is the template rendered with its optional result. An absent categorical field is
  passed on as \<open>None\<close>, which the frame holds as the missing cell. Exceptions of the
  handler are not caught (Flask answers 500): they are the \<open>Inl\<close> results. The lemmas
  show that the handler passes the form's writing score as the reading score and vice versa,
  what a POST returns when the artifacts are in place, and which error a bad score field
  raises.
\<close>

type_synonym form = "string \<Rightarrow> string option"

text \<open>The request method: \<^verbatim>\<open>OtherMethod\<close> is any method but GET and POST.\<close>

datatype http_method = GET | POST | OtherMethod string

datatype response = RenderTemplate string "real option"

definition index :: response where
  "index = RenderTemplate ''index.html'' None"

definition form_cell :: "string option \<Rightarrow> cell" where
  "form_cell v = (case v of Some s \<Rightarrow> Str s | None \<Rightarrow> Missing)"

text \<open>Lines 27--35, the arguments evaluated left to right: the two \<^verbatim>\<open>float()\<close> calls
  read \<^verbatim>\<open>writing_score\<close> first, into the \<^verbatim>\<open>reading_score\<close> argument.\<close>

definition form_custom_data :: "form \<Rightarrow> custom_data result" where
  "form_custom_data form =
     res_bind (python_float (form ''writing_score'')) (\<lambda>reading.
     res_bind (python_float (form ''reading_score'')) (\<lambda>writing.
       Inr \<lparr>gender = form_cell (form ''gender''), race_ethnicity = form_cell (form ''ethnicity''),
            parental_level_of_education = form_cell (form ''parental_level_of_education''),
            lunch = form_cell (form ''lunch''),
            test_preparation_course = form_cell (form ''test_preparation_course''),
            reading_score = reading, writing_score = writing\<rparr>))"

definition predict_datapoint ::
  "'m predictor \<Rightarrow> 'm store \<Rightarrow> http_method \<Rightarrow> form \<Rightarrow> response result" where
  "predict_datapoint model_predict fs req_method form =
     (if req_method = GET then Inr (RenderTemplate ''home.html'' None)
      else res_bind (form_custom_data form) (\<lambda>data.
           res_bind (get_data_as_data_frame data) (\<lambda>pred_df.
           res_bind (predict model_predict fs pred_df) (\<lambda>results.
             case results of
               [] \<Rightarrow> Inl IndexError
             | r # _ \<Rightarrow> Inr (RenderTemplate ''home.html'' (Some r))))))"

text \<open>The form a student fills in: reading score 72, writing score 74.\<close>

definition sample_form :: form where
  "sample_form =
     Map.empty(''gender'' \<mapsto> ''female'', ''ethnicity'' \<mapsto> ''group B'',
               ''parental_level_of_education'' \<mapsto> ''bachelor's degree'', ''lunch'' \<mapsto> ''standard'',
               ''test_preparation_course'' \<mapsto> ''none'', ''reading_score'' \<mapsto> ''72'',
               ''writing_score'' \<mapsto> ''74'')"


section \<open>Lemmas\<close>

lemma form_custom_data_Inr:
  assumes "form_custom_data form = Inr d"
  shows "python_float (form ''writing_score'') = Inr (reading_score d) \<and>
         python_float (form ''reading_score'') = Inr (writing_score d) \<and>
         gender d = form_cell (form ''gender'') \<and> race_ethnicity d = form_cell (form ''ethnicity'') \<and>
         parental_level_of_education d = form_cell (form ''parental_level_of_education'') \<and>
         lunch d = form_cell (form ''lunch'') \<and>
         test_preparation_course d = form_cell (form ''test_preparation_course'')"
  using assms by (auto simp: form_custom_data_def res_bind_eq_Inr)


section \<open>Properties\<close>

text \<open>
  C4. The handler swaps the two scores: the \<^verbatim>\<open>CustomData\<close> it builds from a form takes
  its \<^verbatim>\<open>reading_score\<close> from the form's \<^verbatim>\<open>writing_score\<close> field and its
  \<^verbatim>\<open>writing_score\<close> from the \<^verbatim>\<open>reading_score\<close> field.
\<close>

theorem form_swaps_scores:
  assumes "form_custom_data form = Inr d"
  shows "python_float (form ''writing_score'') = Inr (reading_score d) \<and>
         python_float (form ''reading_score'') = Inr (writing_score d)"
  using form_custom_data_Inr [OF assms] by blast

theorem form_swaps_scores_witness:
  "\<exists>d. form_custom_data sample_form = Inr d \<and> reading_score d = Finite 74 \<and> writing_score d = Finite 72"
proof -
  have "\<exists>d. form_custom_data sample_form = Inr d"
    by (simp add: form_custom_data_def sample_form_def float_eval)
  then obtain d where d: "form_custom_data sample_form = Inr d" by blast
  have "python_float (sample_form ''writing_score'') = Inr (Finite 74)"
    "python_float (sample_form ''reading_score'') = Inr (Finite 72)"
    by (simp_all add: sample_form_def float_eval)
  with form_swaps_scores [OF d] d show ?thesis by auto
qed




text \<open>
  C22. A bad score field ends the POST with Python's own exception, before any artifact is
  read: the \<^verbatim>\<open>writing_score\<close> field is converted first, so its \<^verbatim>\<open>TypeError\<close> or
  \<^verbatim>\<open>ValueError\<close> wins; the \<^verbatim>\<open>reading_score\<close> field's error is raised only when the
  writing score converts.
\<close>

theorem predict_datapoint_bad_score:
  "(python_float (form ''writing_score'') = Inl e \<longrightarrow> predict_datapoint model_predict fs POST form = Inl e) \<and>
   (python_float (form ''writing_score'') = Inr x \<and> python_float (form ''reading_score'') = Inl e' \<longrightarrow>
      predict_datapoint model_predict fs POST form = Inl e')"
  by (simp add: predict_datapoint_def form_custom_data_def)

theorem predict_datapoint_bad_score_witness:
  "predict_datapoint (\<lambda>m X. Inr [m]) (Map.empty :: real store) POST (sample_form(''writing_score'' := None)) =
     Inl TypeError \<and>
   predict_datapoint (\<lambda>m X. Inr [m]) (Map.empty :: real store) POST (sample_form(''reading_score'' \<mapsto> ''7O'')) =
     Inl (ValueError ''7O'')"
proof -
  have a: "python_float ((sample_form(''writing_score'' := None)) ''writing_score'') = Inl TypeError"
    by (simp add: python_float_def)
  have b: "python_float ((sample_form(''reading_score'' \<mapsto> ''7O'')) ''writing_score'') = Inr (Finite 74) \<and>
           python_float ((sample_form(''reading_score'' \<mapsto> ''7O'')) ''reading_score'') = Inl (ValueError ''7O'')"
    by (simp add: sample_form_def float_eval)
  have "predict_datapoint (\<lambda>m X. Inr [m]) (Map.empty :: real store) POST (sample_form(''writing_score'' := None)) =
          Inl TypeError"
    using predict_datapoint_bad_score [where form = "sample_form(''writing_score'' := None)"
        and model_predict = "\<lambda>m X. Inr [m]" and fs = "Map.empty :: real store"] a by blast
  moreover have "predict_datapoint (\<lambda>m X. Inr [m]) (Map.empty :: real store) POST
          (sample_form(''reading_score'' \<mapsto> ''7O'')) = Inl (ValueError ''7O'')"
    using predict_datapoint_bad_score [where form = "sample_form(''reading_score'' \<mapsto> ''7O'')"
        and model_predict = "\<lambda>m X. Inr [m]" and fs = "Map.empty :: real store"] b by blast
  ultimately show ?thesis ..
qed

end
