(* ===== verification/Workflow.thy ===== *)
theory Workflow
  imports Ingestion App
begin

text \<open>
  The program as a system over the artifacts store. Its entry points are the operations
  a deployment interleaves: the ingestion script's three stages
  (\<^verbatim>\<open>initiate_data_ingestion\<close>, \<^verbatim>\<open>initiate_data_transformation\<close> on any two paths,
  \<^verbatim>\<open>initiate_model_trainer\<close> on any two arrays), a replacement of the source data set
  \<^verbatim>\<open>notebook/data/stud.csv\<close> from outside, and requests to the web adapter, which only read.
  \<open>exec_op\<close> runs one operation on a store (a failed stage leaves the store as far as it
  got: ingestion may have written its raw copy, a failed transformation or training writes
  nothing); \<open>reachable fs0\<close> is the set of stores some sequence of operations leads to.
  The lemmas show that the executable run and the inductive reachability agree, that every
  reachable store keeps each artifact path holding an object of the right kind, and that
  serving in a reachable store applies the persisted model to the output of the persisted
  preprocessing state, which was fitted by \<^verbatim>\<open>get_data_transformer_object\<close>.
\<close>

datatype 'm operation =
    Ingest "nat \<Rightarrow> nat \<Rightarrow> nat list"
  | Transform string string
  | Train "matrix \<Rightarrow> matrix \<Rightarrow> 'm result" matrix matrix
  | Upload frame
  | Serve "'m predictor" http_method form

fun exec_op :: "'m store \<Rightarrow> 'm operation \<Rightarrow> 'm store" where
  "exec_op fs (Ingest rng) = fst (initiate_data_ingestion rng default_ingestion_config fs)"
| "exec_op fs (Transform trp tep) =
     (case initiate_data_transformation fs trp tep of Inl e \<Rightarrow> fs | Inr (fs', _) \<Rightarrow> fs')"
| "exec_op fs (Train trainer tr te) =
     (case initiate_model_trainer trainer fs tr te of Inl e \<Rightarrow> fs | Inr fs' \<Rightarrow> fs')"
| "exec_op fs (Upload F) = fs(source_data_path \<mapsto> CsvFile F)"
| "exec_op fs (Serve model_predict req_method form) = fs"

inductive reachable :: "'m store \<Rightarrow> 'm store \<Rightarrow> bool" for fs0 :: "'m store" where
  init: "reachable fs0 fs0"
| step: "reachable fs0 fs \<Longrightarrow> reachable fs0 (exec_op fs op)"

text \<open>The data sets the program reads and writes.\<close>

definition data_paths :: "string list" where
  "data_paths = [source_data_path, ''artifacts/data.csv'', ''artifacts/train.csv'', ''artifacts/test.csv'']"

definition is_preprocessor_obj :: "'m artifact \<Rightarrow> bool" where
  "is_preprocessor_obj obj = (case obj of PreprocessorObj st \<Rightarrow> True | _ \<Rightarrow> False)"

definition is_model_obj :: "'m artifact \<Rightarrow> bool" where
  "is_model_obj obj = (case obj of ModelObj m \<Rightarrow> True | _ \<Rightarrow> False)"

definition is_csv_file :: "'m artifact \<Rightarrow> bool" where
  "is_csv_file obj = (case obj of CsvFile F \<Rightarrow> True | _ \<Rightarrow> False)"

text \<open>The typing of the store: each path the program uses holds nothing or an object of its kind.\<close>

definition artifacts_typed :: "'m store \<Rightarrow> bool" where
  "artifacts_typed fs \<longleftrightarrow>
     pred_option is_preprocessor_obj (fs preprocessor_path) \<and>
     pred_option is_model_obj (fs model_path) \<and>
     list_all (\<lambda>p. pred_option is_csv_file (fs p)) data_paths"

text \<open>A three-student data set whose seeded split (permutation \<open>[2, 1, 0]\<close>) keeps the
  test student's categories in the training part.\<close>

definition stud3 :: frame where
  "stud3 =
     [(''gender'', [Str ''female'', Str ''male'', Str ''female'']),
      (''race_ethnicity'', [Str ''group B'', Str ''group C'', Str ''group B'']),
      (''parental_level_of_education'', [Str ''bachelor's degree'', Str ''some college'', Str ''bachelor's degree'']),
      (''lunch'', [Str ''standard'', Str ''free/reduced'', Str ''standard'']),
      (''test_preparation_course'', [Str ''none'', Str ''completed'', Str ''none'']),
      (''math_score'', [Num 72, Num 69, Num 90]),
      (''reading_score'', [Num 72, Num 70, Num 95]),
      (''writing_score'', [Num 74, Num 72, Num 93])]"

section \<open>Lemmas\<close>

lemma artifact_paths:
  "preprocessor_obj_file_path = preprocessor_path" "model_trainer_file_path = model_path"
  "preprocessor_path \<noteq> model_path" "model_path \<noteq> preprocessor_path"
  "source_data_path \<noteq> preprocessor_path" "source_data_path \<noteq> model_path"
  "preprocessor_path \<noteq> source_data_path" "model_path \<noteq> source_data_path"
  by (simp_all add: preprocessor_obj_file_path_def preprocessor_path_def model_trainer_file_path_def
      model_path_def source_data_path_def)

lemma artifacts_typed_csv:
  assumes "artifacts_typed fs" and "p \<noteq> preprocessor_path" and "p \<noteq> model_path"
  shows "artifacts_typed (fs(p \<mapsto> CsvFile F))"
  using assms by (auto simp: artifacts_typed_def list_all_iff is_csv_file_def)

lemma artifacts_typed_preprocessor:
  assumes "artifacts_typed fs" and "preprocessor_path \<notin> set data_paths"
  shows "artifacts_typed (fs(preprocessor_path \<mapsto> PreprocessorObj st))"
  using assms by (auto simp: artifacts_typed_def list_all_iff is_preprocessor_obj_def artifact_paths)

lemma artifacts_typed_model:
  assumes "artifacts_typed fs" and "model_path \<notin> set data_paths"
  shows "artifacts_typed (fs(model_path \<mapsto> ModelObj m))"
  using assms by (auto simp: artifacts_typed_def list_all_iff is_model_obj_def artifact_paths)

lemma artifact_paths_not_data:
  "preprocessor_path \<notin> set data_paths" "model_path \<notin> set data_paths"
  by (simp_all add: data_paths_def preprocessor_path_def model_path_def source_data_path_def)

lemma ingestion_store_cases:
  "fst (initiate_data_ingestion rng default_ingestion_config fs) = fs \<or>
   (\<exists>df. fst (initiate_data_ingestion rng default_ingestion_config fs) = to_csv fs ''artifacts/data.csv'' df) \<or>
   (\<exists>df tr te. fst (initiate_data_ingestion rng default_ingestion_config fs) =
      to_csv (to_csv (to_csv fs ''artifacts/data.csv'' df) ''artifacts/train.csv'' tr) ''artifacts/test.csv'' te)"
  by (auto simp: initiate_data_ingestion_def ingestion_default_paths Let_def split: sum.splits prod.splits)

lemma exec_op_typed:
  assumes "artifacts_typed fs"
  shows "artifacts_typed (exec_op fs op)"
proof (cases op)
  case (Ingest rng)
  have d: "''artifacts/data.csv'' \<noteq> preprocessor_path" "''artifacts/data.csv'' \<noteq> model_path"
    "''artifacts/train.csv'' \<noteq> preprocessor_path" "''artifacts/train.csv'' \<noteq> model_path"
    "''artifacts/test.csv'' \<noteq> preprocessor_path" "''artifacts/test.csv'' \<noteq> model_path"
    by (simp_all add: preprocessor_path_def model_path_def)
  from ingestion_store_cases [of rng fs] assms d Ingest show ?thesis
    by (auto simp: to_csv_def intro!: artifacts_typed_csv)
next
  case (Transform trp tep)
  show ?thesis
  proof (cases "initiate_data_transformation fs trp tep")
    case (Inl e)
    with Transform assms show ?thesis by simp
  next
    case (Inr r)
    then obtain fs' tr te p where r: "initiate_data_transformation fs trp tep = Inr (fs', tr, te, p)"
      by (cases r) auto
    then obtain st where "fs' = save_object fs preprocessor_obj_file_path (PreprocessorObj st)"
      by (rule initiate_data_transformation_Inr) blast
    with r Transform assms show ?thesis
      by (simp add: save_object_def artifact_paths artifacts_typed_preprocessor artifact_paths_not_data)
  qed
next
  case (Train trainer tr te)
  show ?thesis
  proof (cases "trainer tr te")
    case (Inl e)
    with Train assms show ?thesis by (simp add: initiate_model_trainer_def)
  next
    case (Inr m)
    with Train assms show ?thesis
      by (simp add: initiate_model_trainer_def save_object_def artifact_paths artifacts_typed_model
          artifact_paths_not_data)
  qed
next
  case (Upload F)
  with assms show ?thesis by (simp add: artifacts_typed_csv artifact_paths)
next
  case (Serve model_predict req_method form)
  with assms show ?thesis by simp
qed


lemma initiate_model_trainer_Inr:
  "initiate_model_trainer trainer fs tr te = Inr fs' \<longleftrightarrow>
   (\<exists>m. trainer tr te = Inr m \<and> fs' = save_object fs model_path (ModelObj m))"
  by (cases "trainer tr te") (auto simp: initiate_model_trainer_def artifact_paths)

lemma exec_op_preprocessor:
  "exec_op fs op preprocessor_path = fs preprocessor_path \<or>
   (\<exists>st G Y. ct_fit_transform get_data_transformer_object G = Inr (st, Y) \<and>
      exec_op fs op preprocessor_path = Some (PreprocessorObj st))"
proof (cases op)
  case (Ingest rng)
  have "''artifacts/data.csv'' \<noteq> preprocessor_path" "''artifacts/train.csv'' \<noteq> preprocessor_path"
    "''artifacts/test.csv'' \<noteq> preprocessor_path"
    by (simp_all add: preprocessor_path_def)
  with ingestion_store_cases [of rng fs] Ingest show ?thesis by (auto simp: to_csv_def)
next
  case (Transform trp tep)
  show ?thesis
  proof (cases "initiate_data_transformation fs trp tep")
    case (Inl e)
    with Transform show ?thesis by simp
  next
    case (Inr r)
    then obtain fs' tr te p where r: "initiate_data_transformation fs trp tep = Inr (fs', tr, te, p)"
      by (cases r) auto
    then obtain tr_in st X_tr where "ct_fit_transform get_data_transformer_object tr_in = Inr (st, X_tr)"
      and "fs' = save_object fs preprocessor_obj_file_path (PreprocessorObj st)"
      by (rule initiate_data_transformation_Inr) blast
    with r Transform show ?thesis by (auto simp: save_object_def artifact_paths)
  qed
next
  case (Train trainer tr te)
  then show ?thesis
    by (auto simp: initiate_model_trainer_Inr save_object_def artifact_paths split: sum.split)
next
  case (Upload F)
  then show ?thesis by (simp add: artifact_paths)
next
  case (Serve model_predict req_method form)
  then show ?thesis by simp
qed

lemma reachable_preprocessor_fitted:
  assumes "reachable fs0 fs" and "fs0 preprocessor_path = None"
    and "fs preprocessor_path = Some (PreprocessorObj st)"
  shows "\<exists>G Y. ct_fit_transform get_data_transformer_object G = Inr (st, Y)"
  using assms(1,3)
proof (induction arbitrary: st rule: reachable.induct)
  case init
  with assms(2) show ?case by simp
next
  case (step fs op)
  from exec_op_preprocessor [of fs op] step show ?case by auto
qed

lemma reachable_typed:
  assumes "reachable fs0 fs" and "artifacts_typed fs0"
  shows "artifacts_typed fs"
  using assms by (induction rule: reachable.induct) (simp_all add: exec_op_typed)


lemma ingestion_result_paths:
  assumes "initiate_data_ingestion rng default_ingestion_config fs = (fs1, Inr (trp, tep))"
  shows "trp = ''artifacts/train.csv'' \<and> tep = ''artifacts/test.csv''"
  using assms by (auto simp: initiate_data_ingestion_def ingestion_default_paths Let_def
      split: sum.splits prod.splits)

lemma initiate_data_ingestion_Inr:
  assumes "initiate_data_ingestion rng default_ingestion_config fs = (fs1, Inr (trp, tep))"
  obtains df train_set test_set where "read_csv fs source_data_path = Inr df"
    and "train_test_split rng 42 df = Inr (train_set, test_set)"
    and "fs1 = to_csv (to_csv (to_csv fs ''artifacts/data.csv'' df) ''artifacts/train.csv'' train_set)
                 ''artifacts/test.csv'' test_set"
  using assms by (auto simp: initiate_data_ingestion_def ingestion_default_paths Let_def
      split: sum.splits prod.splits)

lemma frame_rect_filter: "frame_rect n F \<Longrightarrow> frame_rect n (filter P F)"
  by (simp add: frame_rect_def list_all_iff)

lemma training_run_Inr:
  assumes "training_run rng trainer fs = (fs', Inr ())"
  obtains fs1 fs2 train_arr test_arr p m where
    "initiate_data_ingestion rng default_ingestion_config fs = (fs1, Inr (''artifacts/train.csv'', ''artifacts/test.csv''))"
    and "initiate_data_transformation fs1 ''artifacts/train.csv'' ''artifacts/test.csv'' = Inr (fs2, train_arr, test_arr, p)"
    and "trainer train_arr test_arr = Inr m"
    and "fs' = save_object fs2 model_path (ModelObj m)"
proof -
  obtain fs1 r where i: "initiate_data_ingestion rng default_ingestion_config fs = (fs1, r)" by fastforce
  with assms obtain trp tep where r: "r = Inr (trp, tep)"
    by (auto simp: training_run_def split: sum.splits prod.splits)
  with i have p: "trp = ''artifacts/train.csv''" "tep = ''artifacts/test.csv''"
    using ingestion_result_paths by blast+
  from assms i r obtain fs2 train_arr test_arr q where
    t: "initiate_data_transformation fs1 trp tep = Inr (fs2, train_arr, test_arr, q)"
    and m: "initiate_model_trainer trainer fs2 train_arr test_arr = Inr fs'"
    by (auto simp: training_run_def split: sum.splits prod.splits)
  from m obtain md where "trainer train_arr test_arr = Inr md" "fs' = save_object fs2 model_path (ModelObj md)"
    by (auto simp: initiate_model_trainer_Inr)
  with that i r p t show ?thesis by blast
qed

lemma stud3_training_run:
  "\<exists>fs'. training_run (\<lambda>s n. rev [0..<n]) (\<lambda>tr te. Inr ()) (Map.empty(source_data_path \<mapsto> CsvFile stud3)) =
     (fs', Inr ())"
  by (simp add: training_run_def initiate_data_ingestion_def read_csv_def source_data_path_def
      ingestion_default_paths train_test_split_def nrows_def stud3_def split_sizes_def take_rows_def
      to_csv_def transformation_eval initiate_model_trainer_def)


section \<open>Properties\<close>

text \<open>
  C8. Serving is well typed in every reachable store: starting from a typed store,
  whatever operations run, once both artifacts exist they load as a model and a
  preprocessing state, and \<^verbatim>\<open>predict\<close> is the model applied to the state's transform.
\<close>

theorem serving_uses_persisted_objects:
  assumes "artifacts_typed fs0" and "reachable fs0 fs"
    and "fs model_path \<noteq> None" and "fs preprocessor_path \<noteq> None"
  shows "\<exists>m st. load_object fs model_path = Inr (ModelObj m) \<and>
           load_object fs preprocessor_path = Inr (PreprocessorObj st) \<and>
           predict model_predict fs F = wrap (res_bind (ct_transform st F) (model_predict m))"
proof -
  have t: "artifacts_typed fs" using assms(2,1) by (rule reachable_typed)
  from t assms(3) obtain m where m: "fs model_path = Some (ModelObj m)"
    by (auto simp: artifacts_typed_def is_model_obj_def split: artifact.splits)
  from t assms(4) obtain st where st: "fs preprocessor_path = Some (PreprocessorObj st)"
    by (auto simp: artifacts_typed_def is_preprocessor_obj_def split: artifact.splits)
  from m st have l: "load_object fs model_path = Inr (ModelObj m)"
    "load_object fs preprocessor_path = Inr (PreprocessorObj st)"
    by (simp_all add: load_object_def)
  with predict_loaded [OF l, of model_predict F] show ?thesis by blast
qed

theorem serving_uses_persisted_objects_witness:
  "\<exists>m st. load_object (Map.empty(model_path \<mapsto> ModelObj (1::real), preprocessor_path \<mapsto> PreprocessorObj []))
       model_path = Inr (ModelObj m) \<and>
     load_object (Map.empty(model_path \<mapsto> ModelObj (1::real), preprocessor_path \<mapsto> PreprocessorObj []))
       preprocessor_path = Inr (PreprocessorObj st) \<and>
     predict (\<lambda>m X. Inr [m]) (Map.empty(model_path \<mapsto> ModelObj (1::real), preprocessor_path \<mapsto> PreprocessorObj []))
       [] = wrap (res_bind (ct_transform st []) (\<lambda>X. Inr [m]))"
proof -
  let ?fs = "Map.empty(model_path \<mapsto> ModelObj (1::real), preprocessor_path \<mapsto> PreprocessorObj [])"
  have t: "artifacts_typed ?fs"
    by (simp add: artifacts_typed_def is_model_obj_def is_preprocessor_obj_def data_paths_def
        model_path_def preprocessor_path_def source_data_path_def)
  have n: "?fs model_path \<noteq> None" "?fs preprocessor_path \<noteq> None" by simp_all
  from serving_uses_persisted_objects [OF t reachable.init n, of "\<lambda>m X. Inr [m]" "[]"] show ?thesis .
qed

text \<open>
  C9. In every store reachable from one without a preprocessor, the persisted preprocessor
  selects only columns that every \<^verbatim>\<open>CustomData\<close> frame has: it was fitted by
  \<^verbatim>\<open>get_data_transformer_object\<close>, whose columns the frame of the web form carries.
\<close>

theorem serving_frame_columns_present:
  assumes "reachable fs0 fs" and "fs0 preprocessor_path = None"
    and "fs preprocessor_path = Some (PreprocessorObj st)"
    and "get_data_as_data_frame d = Inr F"
  shows "set (ct_columns st) \<subseteq> set (map fst F)"
proof -
  obtain G Y where "ct_fit_transform get_data_transformer_object G = Inr (st, Y)"
    using reachable_preprocessor_fitted [OF assms(1-3)] by blast
  then have "ct_columns st = numerical_columns @ categorical_columns"
    using ct_fit_transform_columns by (simp only: transformer_columns)
  with custom_data_frame_columns [OF assms(4)] show ?thesis by simp
qed

theorem serving_frame_columns_present_witness:
  "\<exists>st F. exec_op sample_store (Transform ''artifacts/train.csv'' ''artifacts/test.csv'') preprocessor_path =
       Some (PreprocessorObj st) \<and>
     get_data_as_data_frame sample_student = Inr F \<and> set (ct_columns st) \<subseteq> set (map fst F)"
proof -
  let ?fs = "exec_op sample_store (Transform ''artifacts/train.csv'' ''artifacts/test.csv'')"
  have r: "reachable sample_store ?fs" by (rule reachable.step [OF reachable.init])
  have n: "sample_store preprocessor_path = None" by (simp add: sample_store_def preprocessor_path_def)
  have "\<exists>st. ?fs preprocessor_path = Some (PreprocessorObj st)"
    by (simp add: transformation_eval preprocessor_path_def)
  then obtain st where st: "?fs preprocessor_path = Some (PreprocessorObj st)" by blast
  have "\<exists>F. get_data_as_data_frame sample_student = Inr F"
    by (simp add: get_data_as_data_frame_def sample_student_def cell_of_float_def)
  then obtain F where F: "get_data_as_data_frame sample_student = Inr F" by blast
  from serving_frame_columns_present [OF r n st F] st F show ?thesis by blast
qed


text \<open>
  C11. The script's driver is a run of the system: a successful \<^verbatim>\<open>__main__\<close> run is the
  sequence ingestion, transformation of the two files ingestion wrote, training on the two
  arrays, and it ends in a store from which the web adapter can serve (both artifacts
  exist).
\<close>

theorem training_run_is_run:
  assumes "training_run rng trainer fs = (fs', Inr ())"
  shows "\<exists>tr te. foldl exec_op fs [Ingest rng, Transform ''artifacts/train.csv'' ''artifacts/test.csv'',
                                    Train trainer tr te] = fs' \<and>
                 fs' model_path \<noteq> None \<and> fs' preprocessor_path \<noteq> None"
proof -
  obtain fs1 fs2 train_arr test_arr p m where
    i: "initiate_data_ingestion rng default_ingestion_config fs = (fs1, Inr (''artifacts/train.csv'', ''artifacts/test.csv''))"
    and t: "initiate_data_transformation fs1 ''artifacts/train.csv'' ''artifacts/test.csv'' = Inr (fs2, train_arr, test_arr, p)"
    and m: "trainer train_arr test_arr = Inr m"
    and f: "fs' = save_object fs2 model_path (ModelObj m)"
    using assms by (rule training_run_Inr)
  from t obtain st where s: "fs2 = save_object fs1 preprocessor_obj_file_path (PreprocessorObj st)"
    by (rule initiate_data_transformation_Inr) blast
  have "initiate_model_trainer trainer fs2 train_arr test_arr = Inr fs'"
    using m f by (simp add: initiate_model_trainer_Inr)
  with i t have "foldl exec_op fs [Ingest rng, Transform ''artifacts/train.csv'' ''artifacts/test.csv'',
                                    Train trainer train_arr test_arr] = fs'" by simp
  moreover have "fs' model_path \<noteq> None" "fs' preprocessor_path \<noteq> None"
    using f s by (simp_all add: save_object_def artifact_paths)
  ultimately show ?thesis by blast
qed

theorem training_run_is_run_witness:
  "\<exists>fs' tr te. training_run (\<lambda>s n. rev [0..<n]) (\<lambda>tr te. Inr ()) (Map.empty(source_data_path \<mapsto> CsvFile stud3)) =
       (fs', Inr ()) \<and>
     foldl exec_op (Map.empty(source_data_path \<mapsto> CsvFile stud3))
       [Ingest (\<lambda>s n. rev [0..<n]), Transform ''artifacts/train.csv'' ''artifacts/test.csv'',
        Train (\<lambda>tr te. Inr ()) tr te] = fs' \<and>
     fs' model_path \<noteq> None \<and> fs' preprocessor_path \<noteq> None"
proof -
  obtain fs' where r: "training_run (\<lambda>s n. rev [0..<n]) (\<lambda>tr te. Inr ()) (Map.empty(source_data_path \<mapsto> CsvFile stud3)) =
       (fs', Inr ())"
    using stud3_training_run by blast
  from training_run_is_run [OF r] r show ?thesis by blast
qed

end
