(* ===== verification/Deployment.thy ===== *)
theory Deployment
  imports Workflow Server
begin





section \<open>Lemmas\<close>



section \<open>Properties\<close>


end
