(* ===== verification/Missing_Scores.thy ===== *)
theory Missing_Scores
  imports Predict
begin

text \<open>
  A missing score at serving. \<^verbatim>\<open>float("nan")\<close> is accepted by the web adapter, and the
  resulting NaN reaches the preprocessor as a missing cell, which the numeric pipeline's
  median \<^verbatim>\<open>SimpleImputer\<close> replaces by the median it learned at fit time. The lemmas
  take apart a preprocessing state fitted by \<^verbatim>\<open>get_data_transformer_object\<close>, show that
  its transform does not distinguish a missing \<^verbatim>\<open>reading_score\<close> from the training median,
  and lift this to \<^verbatim>\<open>PredictPipeline.predict\<close>.
\<close>

text \<open>The one-row frame of the second sample student with a given reading score.\<close>

definition request_frame :: "cell \<Rightarrow> frame" where
  "request_frame r =
     [(''gender'', [Str ''male'']), (''race_ethnicity'', [Str ''group C'']),
      (''parental_level_of_education'', [Str ''some college'']), (''lunch'', [Str ''free/reduced'']),
      (''test_preparation_course'', [Str ''completed'']), (''reading_score'', [r]),
      (''writing_score'', [Num 72])]"

section \<open>Lemmas\<close>

lemma mapM_cong: "(\<And>x. x \<in> set xs \<Longrightarrow> f x = g x) \<Longrightarrow> mapM f xs = mapM g xs"
  by (induction xs) simp_all

lemma gdto_fit_shape:
  assumes "ct_fit_transform get_data_transformer_object G = Inr (st, Y)"
  obtains cw c sts_n sts_c where "map_of G ''writing_score'' = Some cw"
    and "map_of G ''reading_score'' = Some c"
    and "st = [(''num_pipeline'', (''imputer'', ImputerSt Median [impute_stat Median cw, impute_stat Median c]) # sts_n,
                numerical_columns),
               (''cat_pipeline'', sts_c, categorical_columns)]"
proof -
  obtain Xs Ys where sel: "mapM (\<lambda>(nm, p, cols). select_columns G cols) get_data_transformer_object = Inr Xs"
    and parts: "ct_fit_parts get_data_transformer_object Xs = Inr (st, Ys)"
    using assms by (rule ct_fit_transform_Inr)
  from sel obtain Xn Xc where n: "select_columns G numerical_columns = Inr Xn" and Xs: "Xs = [Xn, Xc]"
    unfolding get_data_transformer_object_def by (auto simp: res_bind_def split: sum.splits)
  from n obtain cw c where cw: "map_of G ''writing_score'' = Some cw"
    and c: "map_of G ''reading_score'' = Some c" and Xn: "Xn = [cw, c]"
    by (auto simp: select_columns_def numerical_columns_def res_bind_def select_column_def
        split: sum.splits option.splits)
  from parts Xs obtain sts Yn sts_c where
    pn: "pipeline_fit_transform num_pipeline Xn = Inr (sts, Yn)"
    and st: "st = [(''num_pipeline'', sts, numerical_columns), (''cat_pipeline'', sts_c, categorical_columns)]"
    unfolding get_data_transformer_object_def by (auto simp: res_bind_def split: sum.splits prod.splits)
  from pn obtain stats sts_n where f: "imputer_fit Median Xn = Inr stats"
    and sts: "sts = (''imputer'', ImputerSt Median stats) # sts_n"
    unfolding num_pipeline_def by (auto simp: res_bind_def split: sum.splits prod.splits)
  from imputer_fit_Inr [OF f] sts Xn
  have "sts = (''imputer'', ImputerSt Median [impute_stat Median cw, impute_stat Median c]) # sts_n"
    by simp
  with cw c st that show ?thesis by blast
qed

lemma imputer_transform_fill_eq:
  assumes "map (fill v) a = map (fill v) b" and "list_all (\<lambda>x. \<not> is_str x) a = list_all (\<lambda>x. \<not> is_str x) b"
  shows "imputer_transform s [o1, Some v] [w, a] = imputer_transform s [o1, Some v] [w, b]"
  using assms by (simp add: imputer_transform_def imputer_validate_def numeric_def check_array_def)

lemma frames_agree_names:
  assumes "\<forall>n. n \<noteq> ''reading_score'' \<longrightarrow> map_of F n = map_of F' n"
    and "map_of F ''reading_score'' = Some a" and "map_of F' ''reading_score'' = Some b"
  shows "set (map fst F) = set (map fst F')"
proof -
  have "\<And>n. map_of F n = None \<longleftrightarrow> map_of F' n = None"
    using assms by (metis option.distinct(1))
  then show ?thesis by (auto simp: map_of_eq_None_iff)
qed

lemma select_columns_agree:
  assumes "\<forall>n. n \<noteq> ''reading_score'' \<longrightarrow> map_of F n = map_of F' n" and "''reading_score'' \<notin> set cols"
  shows "select_columns F cols = select_columns F' cols"
  unfolding select_columns_def
proof (rule mapM_cong)
  fix x assume "x \<in> set cols"
  with assms(2) have "x \<noteq> ''reading_score''" by auto
  with assms(1) show "select_column F x = select_column F' x" by (simp add: select_column_def)
qed

lemma ct_transform_reading_imputed:
  assumes fit: "ct_fit_transform get_data_transformer_object G = Inr (st, Y)"
    and G: "map_of G ''reading_score'' = Some c" and p: "present c \<noteq> []"
    and agree: "\<forall>n. n \<noteq> ''reading_score'' \<longrightarrow> map_of F n = map_of F' n"
    and a: "map_of F ''reading_score'' = Some a" and b: "map_of F' ''reading_score'' = Some b"
    and fill: "map (fill (Num (median (map num_of (present c))))) a = map (fill (Num (median (map num_of (present c))))) b"
    and str: "list_all (\<lambda>x. \<not> is_str x) a = list_all (\<lambda>x. \<not> is_str x) b"
  shows "ct_transform st F = ct_transform st F'"
proof -
  obtain cw c' sts_n sts_c where c': "map_of G ''reading_score'' = Some c'"
    and st: "st = [(''num_pipeline'', (''imputer'', ImputerSt Median [impute_stat Median cw, impute_stat Median c']) # sts_n,
                numerical_columns),
               (''cat_pipeline'', sts_c, categorical_columns)]"
    using fit by (rule gdto_fit_shape)
  from c' G have "c' = c" by simp
  with p have v: "impute_stat Median c' = Some (Num (median (map num_of (present c))))"
    by (simp add: impute_stat_def)
  let ?v = "Num (median (map num_of (present c)))"
  have names: "set (map fst F) = set (map fst F')" using agree a b by (rule frames_agree_names)
  have w: "select_column F ''writing_score'' = select_column F' ''writing_score''"
    using agree by (simp add: select_column_def)
  have num: "res_bind (select_columns F numerical_columns)
               (pipeline_transform ((''imputer'', ImputerSt Median [impute_stat Median cw, impute_stat Median c']) # sts_n)) =
             res_bind (select_columns F' numerical_columns)
               (pipeline_transform ((''imputer'', ImputerSt Median [impute_stat Median cw, impute_stat Median c']) # sts_n))"
  proof (cases "select_column F ''writing_score''")
    case (Inl e)
    moreover from Inl w have "select_column F' ''writing_score'' = Inl e" by simp
    ultimately show ?thesis by (simp add: select_columns_def numerical_columns_def)
  next
    case (Inr x)
    have "imputer_transform Median [impute_stat Median cw, Some ?v] [x, a] =
          imputer_transform Median [impute_stat Median cw, Some ?v] [x, b]"
      using fill str by (rule imputer_transform_fill_eq)
    moreover from Inr w have "select_column F' ''writing_score'' = Inr x" by simp
    moreover from a b have "select_column F ''reading_score'' = Inr a" "select_column F' ''reading_score'' = Inr b"
      by (simp_all add: select_column_Inr)
    ultimately show ?thesis using Inr v by (simp add: select_columns_def numerical_columns_def)
  qed
  have cat: "select_columns F categorical_columns = select_columns F' categorical_columns"
    using agree by (rule select_columns_agree) (simp add: categorical_columns_def)
  from names num cat show ?thesis by (simp add: ct_transform_def st)
qed


section \<open>Properties\<close>

text \<open>
  C10. A NaN score is served as the training median: with a preprocessor fitted by
  \<^verbatim>\<open>get_data_transformer_object\<close> on a training frame whose \<^verbatim>\<open>reading_score\<close>
  column has a value, predicting a frame whose \<^verbatim>\<open>reading_score\<close> is missing gives exactly
  the prediction for the same frame with that column's training median in its place.
\<close>

theorem nan_score_served_as_median:
  assumes fit: "ct_fit_transform get_data_transformer_object G = Inr (st, Y)"
    and G: "map_of G ''reading_score'' = Some c" and p: "present c \<noteq> []"
    and lm: "load_object fs model_path = Inr (ModelObj m)"
    and lp: "load_object fs preprocessor_path = Inr (PreprocessorObj st)"
    and agree: "\<forall>n. n \<noteq> ''reading_score'' \<longrightarrow> map_of F n = map_of F' n"
    and a: "map_of F ''reading_score'' = Some [Missing]"
    and b: "map_of F' ''reading_score'' = Some [Num (median (map num_of (present c)))]"
  shows "predict model_predict fs F = predict model_predict fs F'"
proof -
  have "ct_transform st F = ct_transform st F'"
    using fit G p agree a b by (rule ct_transform_reading_imputed) (simp_all add: fill_def)
  then show ?thesis by (simp add: predict_loaded [OF lm lp])
qed

theorem nan_score_served_as_median_witness:
  "\<exists>st Y. ct_fit_transform get_data_transformer_object student_sample = Inr (st, Y) \<and>
     predict (\<lambda>m X. Inr [m]) (Map.empty(model_path \<mapsto> ModelObj (0::real), preprocessor_path \<mapsto> PreprocessorObj st))
       (request_frame Missing) =
     predict (\<lambda>m X. Inr [m]) (Map.empty(model_path \<mapsto> ModelObj (0::real), preprocessor_path \<mapsto> PreprocessorObj st))
       (request_frame (Num 71))"
proof -
  have "\<exists>st Y. ct_fit_transform get_data_transformer_object student_sample = Inr (st, Y)"
    by (simp add: ct_eval student_sample_def)
  then obtain st Y where fit: "ct_fit_transform get_data_transformer_object student_sample = Inr (st, Y)" by blast
  let ?fs = "Map.empty(model_path \<mapsto> ModelObj (0::real), preprocessor_path \<mapsto> PreprocessorObj st)"
  have G: "map_of student_sample ''reading_score'' = Some [Num 72, Num 70]"
    and p: "present [Num 72, Num 70] \<noteq> []" by (simp_all add: student_sample_def present_def)
  have lm: "load_object ?fs model_path = Inr (ModelObj 0)"
    and lp: "load_object ?fs preprocessor_path = Inr (PreprocessorObj st)"
    by (simp_all add: load_object_def model_path_def preprocessor_path_def)
  have med: "median (map num_of (present [Num 72, Num 70])) = 71"
    by (simp add: median_def present_def)
  have agree: "\<forall>n. n \<noteq> ''reading_score'' \<longrightarrow> map_of (request_frame Missing) n = map_of (request_frame (Num 71)) n"
    and a: "map_of (request_frame Missing) ''reading_score'' = Some [Missing]"
    and b: "map_of (request_frame (Num 71)) ''reading_score'' = Some [Num (median (map num_of (present [Num 72, Num 70])))]"
    by (simp_all add: request_frame_def med)
  from nan_score_served_as_median [OF fit G p lm lp agree a b] fit show ?thesis by blast
qed

end
