(* ===== verification/Spec2Isabelle.thy ===== *)
theory Spec2Isabelle
  imports Deployment Missing_Scores
begin

text \<open>
  \<^bold>\<open>Verification development of the student-score prediction service\<close>
  (repository lulu3202/e2emlproject).

  \<^bold>\<open>The program.\<close> An offline script trains a regressor for \<^verbatim>\<open>math_score\<close> from
  seven student attributes; a Flask app serves predictions. The parts interact only
  through files under \<^verbatim>\<open>artifacts/\<close>:
  \<^item> \<^verbatim>\<open>src/src/components/data_ingestion.py\<close>: \<^verbatim>\<open>initiate_data_ingestion\<close> reads
    \<^verbatim>\<open>notebook/data/stud.csv\<close>, writes a raw copy, splits 80/20 with seed 42 and writes
    \<^verbatim>\<open>train.csv\<close> and \<^verbatim>\<open>test.csv\<close>. Its \<^verbatim>\<open>__main__\<close> driver chains ingestion,
    transformation and the model trainer.
  \<^item> \<^verbatim>\<open>src/src/components/data_transformation.py\<close>:
    \<^verbatim>\<open>get_data_transformer_object\<close> builds a \<^verbatim>\<open>ColumnTransformer\<close> of two pipelines.
    The numeric one is median \<^verbatim>\<open>SimpleImputer\<close> then \<^verbatim>\<open>StandardScaler\<close>, on the reading and
    writing scores. The categorical one is most-frequent imputer, \<^verbatim>\<open>OneHotEncoder\<close> and
    \<^verbatim>\<open>StandardScaler(with_mean=False)\<close>, on the five attributes.
    \<^verbatim>\<open>initiate_data_transformation\<close> fits it on the training inputs, transforms both
    partitions, appends the target and pickles the fitted object to
    \<^verbatim>\<open>preprocessor.pkl\<close>.
  \<^item> \<^verbatim>\<open>src/src/pipeline/predict_pipeline.py\<close>: \<^verbatim>\<open>PredictPipeline.predict\<close> loads
    \<^verbatim>\<open>model.pkl\<close> and \<^verbatim>\<open>preprocessor.pkl\<close>, transforms and predicts.
    \<^verbatim>\<open>CustomData\<close> turns the seven form values into a one-row frame.
  \<^item> \<^verbatim>\<open>src/app.py\<close>: \<^verbatim>\<open>predict_datapoint\<close> reads the form, converts the two scores with
    \<^verbatim>\<open>float()\<close>, builds \<^verbatim>\<open>CustomData\<close> and renders the first prediction;
    \<^verbatim>\<open>index\<close> renders the home page; the two routes and \<^verbatim>\<open>app.run\<close> make the server.

  \<^bold>\<open>The theories.\<close>
  \<^item> \<open>Prelude\<close>: cells, frames, column-major matrices, the \<open>error\<close> type of every
    exception raised, the result combinators \<open>res_bind\<close>/\<open>mapM\<close>, \<open>wrap\<close> for
    \<^verbatim>\<open>CustomException\<close>, and a \<open>linorder\<close> on cells as \<^verbatim>\<open>np.unique\<close> sorts.
  \<^item> \<open>Imputer\<close>, \<open>One_Hot\<close>, \<open>Scaler\<close>: the three scikit-learn estimators as the code
    configures them. Each has a fit that returns the fitted statistics, and a transform.
  \<^item> \<open>Column_Transformer\<close>: \<open>step\<close>/\<open>pipeline\<close> (\<^verbatim>\<open>Pipeline\<close>),
    \<open>ct_fit_transform\<close>/\<open>ct_transform\<close> (\<^verbatim>\<open>ColumnTransformer\<close>), and
    \<open>get_data_transformer_object\<close> with its column lists.
  \<^item> \<open>Artifacts\<close>: the file store (\<open>'m store\<close>, a map from paths to CSV files, pickled
    preprocessors and pickled models), with \<^verbatim>\<open>read_csv\<close>/\<^verbatim>\<open>to_csv\<close> and
    \<^verbatim>\<open>save_object\<close>/\<^verbatim>\<open>load_object\<close>.
  \<^item> \<open>Data_Transformation\<close>: \<open>initiate_data_transformation\<close>, as a function from a store to
    the updated store and the two arrays.
  \<^item> \<open>Ingestion\<close>: \<open>train_test_split\<close>, \<open>initiate_data_ingestion\<close> (returning the store
    also on failure), the spec-modelled \<open>initiate_model_trainer\<close> and the driver
    \<open>training_run\<close>.
  \<^item> \<open>Python_Float\<close>: Python's \<^verbatim>\<open>float()\<close> on strings.
  \<^item> \<open>Predict\<close>: \<open>predict\<close>, the \<open>custom_data\<close> record and \<open>get_data_as_data_frame\<close>.
  \<^item> \<open>App\<close>: \<open>index\<close>, \<open>form_custom_data\<close> and \<open>predict_datapoint\<close>.
  \<^item> \<open>Server\<close>: the URL map, Flask's \<open>dispatch\<close> of a request (404, 405, 500 for an
    uncaught exception) and \<open>app_run\<close>, the \<^verbatim>\<open>app.run\<close> loop as a corecursive function
    from a stream of requests to the stream of responses.
  \<^item> \<open>Missing_Scores\<close>: the path of a NaN score through a fitted preprocessor.
  \<^item> \<open>Workflow\<close>: the system as operations on the store (\<open>exec_op\<close>) and the inductive
    \<open>reachable\<close> relation.
  \<^item> \<open>Deployment\<close>: the server and the pipeline sharing the artifacts directory, as
    \<open>system_run\<close> over a stream of events, each a request or a pipeline operation.

  \<^bold>\<open>What is proved.\<close>
  \<^item> Per estimator: its fitted statistics, no missing value after imputation, the
    one-hot vocabulary and its decode round trip, that an unknown category raises,
    standardisation on the training data, and order invariance of the fit.
  \<^item> For the column transformer: replaying the fitted state reproduces the training
    output; transforming one row gives that row of the batch result; the output width is
    fixed.
  \<^item> For the stages: what is persisted; that the test partition cannot leak into the
    fitted state; that the split is a partition; the error paths; the effects left behind
    by a failed ingestion.
  \<^item> For serving: \<^verbatim>\<open>predict\<close> reads only the two artifacts and reports a missing one in
    load order; the \<^verbatim>\<open>CustomData\<close> frame fits the preprocessor's schema; the app swaps
    the reading and writing scores (a bug); \<^verbatim>\<open>float()\<close> round-trips integer numerals,
    its digit scanner always consumes input, and an accepted finite literal contains only
    number characters; a NaN score is served as the training median of its column.
  \<^item> For the server: every request of the stream is answered, at its position and
    independently of the others; a GET always gets a page; the 404, 405 and 500 answers are
    characterised exactly. With pipeline operations interleaved between requests, each
    request is answered from the store the operations before it left, a reachable store.
  \<^item> For the system: every reachable store stays well typed; serving in any reachable
    store applies the persisted model to the persisted state's transform; the driver is a
    run of the system that ends ready to serve. The theorem below states train/serve
    consistency end to end: after training, serving a training student's inputs gives the
    model's prediction on that student's training row.

  \<^bold>\<open>Modelling choices.\<close>
  \<^item> Numbers are reals, not doubles: no floating-point rounding, and \<open>sqrt\<close> is exact.
    This is why witnesses use data whose variances are perfect squares.
  \<^item> \<^verbatim>\<open>float()\<close> yields the exact decimal value. An infinite score is rejected when the
    \<^verbatim>\<open>CustomData\<close> frame is built, one step before the code's own rejection in
    \<^verbatim>\<open>SimpleImputer\<close>'s input check.
  \<^item> CSV files round-trip exactly.
  \<^item> The seeded permutation of \<^verbatim>\<open>train_test_split\<close> is the parameter \<open>rng\<close>. The theorems
    assume that it returns a permutation wherever they need one.
  \<^item> The test size is \<open>(n + 4) div 5\<close>, which is \<open>ceil(0.2 n)\<close>.
  \<^item> The regressor and its training are parameters (the model type \<open>'m\<close>, \<open>trainer\<close>,
    \<open>model_predict\<close>).
  \<^item> An absent categorical form field becomes the missing cell.
  \<^item> No loop needs fuel: every loop of the model is structural recursion over a finite
    list and every function is total, except the server loop, which runs forever and is
    modelled on infinite streams (\<open>primcorec\<close>); its liveness is that every request is
    answered. The server is modelled for a fixed artifacts store.

  \<^bold>\<open>Not modelled.\<close>
  \<^item> \<^verbatim>\<open>src/components/model_trainer.py\<close>, \<^verbatim>\<open>src/utils.py\<close>, \<^verbatim>\<open>src/logger.py\<close> and
    \<^verbatim>\<open>src/exception.py\<close> are not in the repository snapshot. Pickling is modelled from the
    spec as storing the object unchanged; the trainer is a parameter.
  \<^item> Logging, \<^verbatim>\<open>print\<close>, \<^verbatim>\<open>os.makedirs\<close>, template rendering beyond the template name and
    result, Flask's automatic HEAD and OPTIONS answers and the HTTP wire format.
  \<^item> The constructors of the classes (\<^verbatim>\<open>DataIngestion()\<close>, \<^verbatim>\<open>DataTransformation()\<close>,
    \<^verbatim>\<open>PredictPipeline()\<close>) only store their configuration; the model uses the
    configuration values directly.
\<close>

section \<open>Train/serve consistency\<close>

lemma train_row_served:
  assumes "training_run rng trainer fs = (fs', Inr ())"
  shows "\<exists>df tr te train_arr test_arr m st.
           read_csv fs source_data_path = Inr df \<and> train_test_split rng 42 df = Inr (tr, te) \<and>
           trainer train_arr test_arr = Inr m \<and>
           load_object fs' model_path = Inr (ModelObj m) \<and>
           load_object fs' preprocessor_path = Inr (PreprocessorObj st) \<and>
           frame_rect (nrows tr) (filter (\<lambda>(k, c). k \<noteq> target_column_name) tr) \<and>
           ct_transform st (filter (\<lambda>(k, c). k \<noteq> target_column_name) tr) = Inr (butlast train_arr)"
proof -
  obtain fs1 fs2 train_arr test_arr p m where
    i: "initiate_data_ingestion rng default_ingestion_config fs = (fs1, Inr (''artifacts/train.csv'', ''artifacts/test.csv''))"
    and t: "initiate_data_transformation fs1 ''artifacts/train.csv'' ''artifacts/test.csv'' = Inr (fs2, train_arr, test_arr, p)"
    and m: "trainer train_arr test_arr = Inr m"
    and f: "fs' = save_object fs2 model_path (ModelObj m)"
    using assms by (rule training_run_Inr)
  obtain df tr te where r: "read_csv fs source_data_path = Inr df"
    and sp: "train_test_split rng 42 df = Inr (tr, te)"
    and fs1: "fs1 = to_csv (to_csv (to_csv fs ''artifacts/data.csv'' df) ''artifacts/train.csv'' tr)
                 ''artifacts/test.csv'' te"
    using i by (rule initiate_data_ingestion_Inr)
  obtain train_df tr_in y_tr st X_tr where
    rt: "read_csv fs1 ''artifacts/train.csv'' = Inr train_df"
    and d: "drop_column train_df target_column_name = Inr tr_in"
    and fit: "ct_fit_transform get_data_transformer_object tr_in = Inr (st, X_tr)"
    and fs2: "fs2 = save_object fs1 preprocessor_obj_file_path (PreprocessorObj st)"
    and arr: "train_arr = X_tr @ [y_tr]"
    using t by (rule initiate_data_transformation_Inr) blast
  have "read_csv fs1 ''artifacts/train.csv'' = Inr tr" by (simp add: fs1)
  with rt have "train_df = tr" by simp
  with d have tr_in: "tr_in = filter (\<lambda>(k, c). k \<noteq> target_column_name) tr" by (simp add: drop_column_Inr)
  from sp have "frame_rect (nrows tr) tr" by (rule train_test_split_rect)
  then have rect: "frame_rect (nrows tr) tr_in" by (simp add: tr_in frame_rect_filter)
  have "load_object fs' model_path = Inr (ModelObj m)"
    "load_object fs' preprocessor_path = Inr (PreprocessorObj st)"
    by (simp_all add: f fs2 artifact_paths)
  with r sp m rect ct_replay [OF fit] arr tr_in show ?thesis by auto
qed

section \<open>Properties\<close>

text \<open>
  C1. Train/serve consistency of the whole program: after a successful run of the
  ingestion script, serving the inputs of any training student (its row of
  \<^verbatim>\<open>artifacts/train.csv\<close> without \<^verbatim>\<open>math_score\<close>) through
  \<^verbatim>\<open>PredictPipeline.predict\<close> gives the trained model's prediction on exactly that
  student's row of the training array the model was fitted on.
\<close>

theorem training_then_serving:
  assumes "training_run rng trainer fs = (fs', Inr ())"
  shows "\<exists>df tr te train_arr test_arr m.
           read_csv fs source_data_path = Inr df \<and> train_test_split rng 42 df = Inr (tr, te) \<and>
           trainer train_arr test_arr = Inr m \<and>
           (\<forall>i < nrows tr.
              predict model_predict fs' (frame_row i (filter (\<lambda>(k, c). k \<noteq> target_column_name) tr)) =
              wrap (model_predict m (sample i (butlast train_arr))))"
proof -
  obtain df tr te train_arr test_arr m st where
    r: "read_csv fs source_data_path = Inr df" and sp: "train_test_split rng 42 df = Inr (tr, te)"
    and m: "trainer train_arr test_arr = Inr m"
    and lm: "load_object fs' model_path = Inr (ModelObj m)"
    and lp: "load_object fs' preprocessor_path = Inr (PreprocessorObj st)"
    and rect: "frame_rect (nrows tr) (filter (\<lambda>(k, c). k \<noteq> target_column_name) tr)"
    and ct: "ct_transform st (filter (\<lambda>(k, c). k \<noteq> target_column_name) tr) = Inr (butlast train_arr)"
    using train_row_served [OF assms] by blast
  have "\<forall>i < nrows tr.
          predict model_predict fs' (frame_row i (filter (\<lambda>(k, c). k \<noteq> target_column_name) tr)) =
          wrap (model_predict m (sample i (butlast train_arr)))"
  proof (intro allI impI)
    fix i assume "i < nrows tr"
    with ct_transform_row_local [OF ct rect] predict_loaded [OF lm lp]
    show "predict model_predict fs' (frame_row i (filter (\<lambda>(k, c). k \<noteq> target_column_name) tr)) =
          wrap (model_predict m (sample i (butlast train_arr)))" by simp
  qed
  with r sp m show ?thesis by blast
qed

theorem training_then_serving_witness:
  "\<exists>fs'. training_run (\<lambda>s n. rev [0..<n]) (\<lambda>tr te. Inr ()) (Map.empty(source_data_path \<mapsto> CsvFile stud3)) =
       (fs', Inr ()) \<and>
     (\<exists>df tr te. read_csv (Map.empty(source_data_path \<mapsto> CsvFile stud3) :: unit store) source_data_path = Inr df \<and>
        train_test_split (\<lambda>s n. rev [0..<n]) 42 df = Inr (tr, te) \<and>
        (\<forall>i < nrows tr.
           predict (\<lambda>m X. Inr [1]) fs' (frame_row i (filter (\<lambda>(k, c). k \<noteq> target_column_name) tr)) =
           Inr [1]))"
proof -
  obtain fs' where r: "training_run (\<lambda>s n. rev [0..<n]) (\<lambda>tr te. Inr ()) (Map.empty(source_data_path \<mapsto> CsvFile stud3)) =
       (fs', Inr ())"
    using stud3_training_run by blast
  from training_then_serving [OF r, of "\<lambda>m X. Inr [1]"] r show ?thesis
    by (simp only: wrap_Inr) blast
qed

end
